theory Spec2Isabelle
  imports Complex_Main
begin

section \<open>The host engine as GenActorUtils.cpp sees it\<close>

text \<open>
  \<^verbatim>\<open>GenActorUtils.cpp\<close> is a set of static functions over the editor's object graph. It has
  no variables of its own: everything it reads or writes belongs to the host engine. The
  host is therefore the state of the model, a record that every function takes and returns.

  Pointers are references: an actor pointer is a number, an asset or class pointer is the
  object's path. A null pointer is \<open>None\<close>. Vectors, rotators and colours are only stored
  and logged by this file, never computed with.
\<close>

type_synonym actor_ref = nat
type_synonym obj_ref = string
type_synonym class_ref = string

datatype FVector = FVector (X: real) (Y: real) (Z: real)

datatype FRotator = FRotator (Pitch: real) (Yaw: real) (Roll: real)

datatype FLinearColor = FLinearColor real real real real

datatype ELogVerbosity = Error | Warning | Log

datatype fmt_arg = ArgS string | ArgF real

type_synonym log_line = "ELogVerbosity \<times> string \<times> fmt_arg list"

record UStaticMeshComponent =
  StaticMesh :: "obj_ref option"
  NumMaterials :: nat
  OverrideMaterials :: "obj_ref option list"

record AActor =
  ActorLabel :: string
  ObjectName :: string
  ActorClass :: class_ref
  ActorLocation :: FVector
  ActorRotation :: FRotator
  ActorScale3D :: FVector
  StaticMeshComponent :: "UStaticMeshComponent option"

datatype EBlendMode = BLEND_Opaque | BLEND_Masked | BLEND_Translucent

record UMaterial =
  bUseEmissiveForDynamicAreaLighting :: bool
  BlendMode :: EBlendMode
  Expressions :: "FLinearColor list"
  BaseColor :: "nat option"

record UBlueprint =
  ParentClass :: class_ref
  GeneratedClass :: "class_ref option"

datatype asset =
    StaticMeshAsset nat
  | MaterialAsset UMaterial
  | MaterialInstanceAsset obj_ref
  | BlueprintAsset UBlueprint

datatype CDO = GameModeCDO "class_ref option" | PlainCDO

record UClass =
  SuperClasses :: "class_ref list"
  ClassDefaultObject :: "CDO option"

text \<open>
  Every write this file makes to the host is recorded, in order, in \<open>Effects\<close>; a host call
  that fails writes nothing and records nothing.
\<close>

datatype effect =
    Eff_SpawnActor actor_ref
  | Eff_Destroy actor_ref
  | Eff_SetStaticMesh actor_ref obj_ref
  | Eff_SetActorScale3D actor_ref FVector
  | Eff_SetActorLabel actor_ref string
  | Eff_SetActorLocation actor_ref FVector
  | Eff_SetActorRotation actor_ref FRotator
  | Eff_SetMaterial actor_ref nat obj_ref
  | Eff_CreatePackage string
  | Eff_NewObject_UMaterial obj_ref
  | Eff_Set_bUseEmissiveForDynamicAreaLighting obj_ref bool
  | Eff_Set_BlendMode obj_ref EBlendMode
  | Eff_CreateMaterialExpression obj_ref int int
  | Eff_Set_Constant obj_ref nat FLinearColor
  | Eff_ConnectMaterialProperty obj_ref nat
  | Eff_PreEditChange obj_ref
  | Eff_PostEditChange obj_ref
  | Eff_RecompileMaterial obj_ref
  | Eff_MarkPackageDirty string
  | Eff_SavePackage string obj_ref
  | Eff_AssetCreated obj_ref
  | Eff_CreateAsset string string class_ref
  | Eff_Set_DefaultPawnClass class_ref class_ref
  | Eff_Set_DefaultGameMode class_ref
  | Eff_MarkWorldSettingsDirty
  | Eff_Modify obj_ref
  | Eff_MarkBlueprintAsStructurallyModified obj_ref

record host =
  GEditor :: bool
  EditorWorld :: bool
  CurrentLevel :: bool
  DefaultGameMode :: "class_ref option"
  Actors :: "(actor_ref \<times> AActor) list"
  NextActor :: actor_ref
  Packages :: "string list"
  Assets :: "(obj_ref \<times> asset) list"
  Classes :: "(class_ref \<times> UClass) list"
  LogTemp :: "log_line list"
  Effects :: "effect list"

text \<open>
  What a host call answers when the object graph alone does not decide it: whether
  \<open>SpawnActor\<close> succeeds (and then the name the engine gives the new actor and whether it
  carries a static mesh component), whether a package, an object or a material expression
  can be created, whether the expression connects, whether the package saves, and what
  the asset tools create.
\<close>

datatype CreateAsset_outcome =
    AssetNotCreated
  | BlueprintWithoutClass
  | BlueprintWithClass class_ref "CDO option"

record host_outcomes =
  SpawnActor_result :: "(string \<times> bool) option"
  CreatePackage_ok :: bool
  NewObject_ok :: bool
  CreateMaterialExpression_ok :: bool
  ConnectMaterialProperty_ok :: bool
  SavePackage_ok :: bool
  CreateAsset_result :: CreateAsset_outcome

text \<open>
  A function either returns a value and the host it leaves behind, or dereferences a null
  pointer it never checked (\<open>GEditor\<close>, or the mesh component in \<open>SpawnBasicShape\<close>).
\<close>

datatype 'a outcome = NullDereference | Returns 'a host

subsection \<open>Host calls\<close>

text \<open>
  The engine is not part of this file; its calls are modelled by what the file can
  observe of them.
  \<^item> \<open>LoadObject\<close>, \<open>FindObject\<close>, \<open>FindPackage\<close>, \<open>TryLoadClass\<close> and \<open>IsChildOf\<close> are lookups
    in the assets, classes, packages and actors of the host, and change nothing. An asset or
    class reference is its path, so a lookup that succeeds returns the path it was given.
    A class lists itself and its ancestors in \<open>SuperClasses\<close>.
  \<^item> A name or path handed to the engine is resolved by the engine, by rules of its own
    that this file does not see; in the host it is the key under which the object is kept.
    The properties below use only that a lookup is a function of the host and the name,
    and that it finds what was registered under that name.
  \<^item> An actor carries at most one static mesh component, the one that both
    \<open>GetStaticMeshComponent\<close> and \<open>FindComponentByClass\<close> return. The file touches no other
    component.
  \<^item> \<open>SpawnActor\<close> appends the new actor to the actors of the world under the reference
    \<open>NextActor\<close>, at the given location and rotation and with unit scale; \<open>Destroy\<close> removes
    the actor. \<open>SetActorLocation\<close>, \<open>SetActorRotation\<close>, \<open>SetActorScale3D\<close> and
    \<open>SetActorLabel\<close> store their argument in the actor.
  \<^item> \<open>GetNumMaterials\<close> is the slot count of the mesh last set by \<open>SetStaticMesh\<close>, and
    \<open>SetMaterial\<close> stores the material in the override slot of the given index. The slot
    counter of the source is an \<^verbatim>\<open>int32\<close> that stays below the count; it is a natural
    number here.
  \<^item> \<open>CreatePackage\<close> answers with the package of that name when there is one.
    \<open>NewObject\<close> registers the new material under package, dot, name, and \<open>CreateAsset\<close>
    the new blueprint under package, slash, name, where a later \<open>LoadObject\<close> finds them.
  \<^item> \<open>FModuleManager::GetModuleChecked\<close> and \<open>NewObject<UBlueprintFactory>\<close> are taken to
    succeed, and a level has world settings.
\<close>


definition UE_LOG :: "ELogVerbosity \<Rightarrow> string \<Rightarrow> fmt_arg list \<Rightarrow> host \<Rightarrow> host" where
  "UE_LOG v fmt args s = s\<lparr>LogTemp := LogTemp s @ [(v, fmt, args)]\<rparr>"

definition effect :: "effect \<Rightarrow> host \<Rightarrow> host" where
  "effect e s = s\<lparr>Effects := Effects s @ [e]\<rparr>"

definition update_actor :: "actor_ref \<Rightarrow> (AActor \<Rightarrow> AActor) \<Rightarrow> host \<Rightarrow> host" where
  "update_actor a f s =
     s\<lparr>Actors := map (\<lambda>(i, x). if i = a then (i, f x) else (i, x)) (Actors s)\<rparr>"

definition GetActor :: "host \<Rightarrow> actor_ref \<Rightarrow> AActor option" where
  "GetActor s a = map_of (Actors s) a"

definition LoadObject_UStaticMesh :: "host \<Rightarrow> string \<Rightarrow> obj_ref option" where
  "LoadObject_UStaticMesh s p =
     (case map_of (Assets s) p of Some (StaticMeshAsset n) \<Rightarrow> Some p | _ \<Rightarrow> None)"

definition LoadObject_UMaterial :: "host \<Rightarrow> string \<Rightarrow> obj_ref option" where
  "LoadObject_UMaterial s p =
     (case map_of (Assets s) p of Some (MaterialAsset m) \<Rightarrow> Some p | _ \<Rightarrow> None)"

definition LoadObject_UMaterialInterface :: "host \<Rightarrow> string \<Rightarrow> obj_ref option" where
  "LoadObject_UMaterialInterface s p =
     (case map_of (Assets s) p of
        Some (MaterialAsset m) \<Rightarrow> Some p
      | Some (MaterialInstanceAsset parent) \<Rightarrow> Some p
      | _ \<Rightarrow> None)"

definition LoadObject_UBlueprint :: "host \<Rightarrow> string \<Rightarrow> UBlueprint option" where
  "LoadObject_UBlueprint s p =
     (case map_of (Assets s) p of Some (BlueprintAsset b) \<Rightarrow> Some b | _ \<Rightarrow> None)"

definition MeshSlots :: "host \<Rightarrow> obj_ref \<Rightarrow> nat" where
  "MeshSlots s mesh = (case map_of (Assets s) mesh of Some (StaticMeshAsset n) \<Rightarrow> n | _ \<Rightarrow> 0)"

definition FindObject_UClass :: "host \<Rightarrow> string \<Rightarrow> class_ref option" where
  "FindObject_UClass s n = (case map_of (Classes s) n of Some c \<Rightarrow> Some n | None \<Rightarrow> None)"

definition IsChildOf :: "host \<Rightarrow> class_ref \<Rightarrow> class_ref \<Rightarrow> bool" where
  "IsChildOf s c base =
     (case map_of (Classes s) c of Some k \<Rightarrow> base \<in> set (SuperClasses k) | None \<Rightarrow> False)"

definition TryLoadClass_AActor :: "host \<Rightarrow> string \<Rightarrow> class_ref option" where
  "TryLoadClass_AActor s p = (if IsChildOf s p ''Actor'' then Some p else None)"

fun FindObject_AActor_in :: "string \<Rightarrow> (actor_ref \<times> AActor) list \<Rightarrow> actor_ref option" where
  "FindObject_AActor_in n [] = None"
| "FindObject_AActor_in n ((a, x) # rest) =
     (if ObjectName x = n then Some a else FindObject_AActor_in n rest)"

definition FindObject_AActor :: "host \<Rightarrow> string \<Rightarrow> actor_ref option" where
  "FindObject_AActor s n = FindObject_AActor_in n (Actors s)"

definition FindPackage :: "host \<Rightarrow> string \<Rightarrow> string option" where
  "FindPackage s p = (if p \<in> set (Packages s) then Some p else None)"

definition SpawnActor ::
  "host_outcomes \<Rightarrow> class_ref \<Rightarrow> FVector \<Rightarrow> FRotator \<Rightarrow> host \<Rightarrow> actor_ref option \<times> host" where
  "SpawnActor h cls Location Rotation s =
     (case SpawnActor_result h of
        None \<Rightarrow> (None, s)
      | Some (name, has_mesh) \<Rightarrow>
          let a = NextActor s;
              Actor = \<lparr>ActorLabel = name, ObjectName = name, ActorClass = cls,
                       ActorLocation = Location, ActorRotation = Rotation,
                       ActorScale3D = FVector 1 1 1,
                       StaticMeshComponent =
                         (if has_mesh
                          then Some \<lparr>StaticMesh = None, NumMaterials = 0, OverrideMaterials = []\<rparr>
                          else None)\<rparr>
          in (Some a,
              effect (Eff_SpawnActor a)
                (s\<lparr>Actors := Actors s @ [(a, Actor)], NextActor := Suc a\<rparr>)))"

definition Destroy :: "actor_ref \<Rightarrow> host \<Rightarrow> host" where
  "Destroy a s = effect (Eff_Destroy a) (s\<lparr>Actors := filter (\<lambda>(i, x). i \<noteq> a) (Actors s)\<rparr>)"

definition GetStaticMeshComponent :: "host \<Rightarrow> actor_ref \<Rightarrow> UStaticMeshComponent option" where
  "GetStaticMeshComponent s a =
     (case GetActor s a of Some x \<Rightarrow> StaticMeshComponent x | None \<Rightarrow> None)"

definition FindComponentByClass_UStaticMeshComponent ::
  "host \<Rightarrow> actor_ref \<Rightarrow> UStaticMeshComponent option" where
  "FindComponentByClass_UStaticMeshComponent s a =
     (case GetActor s a of Some x \<Rightarrow> StaticMeshComponent x | None \<Rightarrow> None)"

definition SetStaticMesh :: "actor_ref \<Rightarrow> obj_ref \<Rightarrow> host \<Rightarrow> host" where
  "SetStaticMesh a mesh s =
     effect (Eff_SetStaticMesh a mesh)
       (update_actor a
          (\<lambda>x. x\<lparr>StaticMeshComponent :=
                   map_option (\<lambda>c. c\<lparr>StaticMesh := Some mesh, NumMaterials := MeshSlots s mesh\<rparr>)
                     (StaticMeshComponent x)\<rparr>) s)"

definition SetActorScale3D :: "actor_ref \<Rightarrow> FVector \<Rightarrow> host \<Rightarrow> host" where
  "SetActorScale3D a v s =
     effect (Eff_SetActorScale3D a v) (update_actor a (\<lambda>x. x\<lparr>ActorScale3D := v\<rparr>) s)"

definition SetActorLabel :: "actor_ref \<Rightarrow> string \<Rightarrow> host \<Rightarrow> host" where
  "SetActorLabel a l s =
     effect (Eff_SetActorLabel a l) (update_actor a (\<lambda>x. x\<lparr>ActorLabel := l\<rparr>) s)"

definition SetActorLocation :: "actor_ref \<Rightarrow> FVector \<Rightarrow> host \<Rightarrow> host" where
  "SetActorLocation a v s =
     effect (Eff_SetActorLocation a v) (update_actor a (\<lambda>x. x\<lparr>ActorLocation := v\<rparr>) s)"

definition SetActorRotation_host :: "actor_ref \<Rightarrow> FRotator \<Rightarrow> host \<Rightarrow> host" where
  "SetActorRotation_host a r s =
     effect (Eff_SetActorRotation a r) (update_actor a (\<lambda>x. x\<lparr>ActorRotation := r\<rparr>) s)"

definition set_slot :: "nat \<Rightarrow> obj_ref \<Rightarrow> UStaticMeshComponent \<Rightarrow> UStaticMeshComponent" where
  "set_slot i m c =
     c\<lparr>OverrideMaterials :=
         (OverrideMaterials c @ replicate (Suc i - length (OverrideMaterials c)) None)
           [i := Some m]\<rparr>"

definition GetMaterial :: "UStaticMeshComponent \<Rightarrow> nat \<Rightarrow> obj_ref option" where
  "GetMaterial c i = (if i < length (OverrideMaterials c) then OverrideMaterials c ! i else None)"

definition SetMaterial :: "actor_ref \<Rightarrow> nat \<Rightarrow> obj_ref \<Rightarrow> host \<Rightarrow> host" where
  "SetMaterial a i m s =
     effect (Eff_SetMaterial a i m)
       (update_actor a
          (\<lambda>x. x\<lparr>StaticMeshComponent := map_option (set_slot i m) (StaticMeshComponent x)\<rparr>) s)"

definition update_material :: "obj_ref \<Rightarrow> (UMaterial \<Rightarrow> UMaterial) \<Rightarrow> host \<Rightarrow> host" where
  "update_material r f s =
     s\<lparr>Assets := map (\<lambda>(p, x). if p = r
                                then (p, case x of MaterialAsset m \<Rightarrow> MaterialAsset (f m) | _ \<Rightarrow> x)
                                else (p, x)) (Assets s)\<rparr>"

definition CreatePackage :: "host_outcomes \<Rightarrow> string \<Rightarrow> host \<Rightarrow> string option \<times> host" where
  "CreatePackage h p s =
     (if \<not> CreatePackage_ok h then (None, s)
      else if p \<in> set (Packages s) then (Some p, s)
      else (Some p, effect (Eff_CreatePackage p) (s\<lparr>Packages := p # Packages s\<rparr>)))"

definition NewObject_UMaterial ::
  "host_outcomes \<Rightarrow> string \<Rightarrow> string \<Rightarrow> host \<Rightarrow> obj_ref option \<times> host" where
  "NewObject_UMaterial h Package Name s =
     (if \<not> NewObject_ok h then (None, s)
      else let r = Package @ ''.'' @ Name;
               m = \<lparr>bUseEmissiveForDynamicAreaLighting = False, BlendMode = BLEND_Opaque,
                    Expressions = [], BaseColor = None\<rparr>
           in (Some r,
               effect (Eff_NewObject_UMaterial r) (s\<lparr>Assets := (r, MaterialAsset m) # Assets s\<rparr>)))"

definition NumExpressions :: "host \<Rightarrow> obj_ref \<Rightarrow> nat" where
  "NumExpressions s r =
     (case map_of (Assets s) r of Some (MaterialAsset m) \<Rightarrow> length (Expressions m) | _ \<Rightarrow> 0)"

definition CreateMaterialExpression ::
  "host_outcomes \<Rightarrow> obj_ref \<Rightarrow> int \<Rightarrow> int \<Rightarrow> host \<Rightarrow> nat option \<times> host" where
  "CreateMaterialExpression h Material NodePosX NodePosY s =
     (if \<not> CreateMaterialExpression_ok h then (None, s)
      else (Some (NumExpressions s Material),
            effect (Eff_CreateMaterialExpression Material NodePosX NodePosY)
              (update_material Material
                 (\<lambda>m. m\<lparr>Expressions := Expressions m @ [FLinearColor 0 0 0 0]\<rparr>) s)))"

definition Set_Constant :: "obj_ref \<Rightarrow> nat \<Rightarrow> FLinearColor \<Rightarrow> host \<Rightarrow> host" where
  "Set_Constant Material e Color s =
     effect (Eff_Set_Constant Material e Color)
       (update_material Material (\<lambda>m. m\<lparr>Expressions := (Expressions m)[e := Color]\<rparr>) s)"

definition ConnectMaterialProperty ::
  "host_outcomes \<Rightarrow> obj_ref \<Rightarrow> nat \<Rightarrow> host \<Rightarrow> bool \<times> host" where
  "ConnectMaterialProperty h Material e s =
     (if \<not> ConnectMaterialProperty_ok h then (False, s)
      else (True,
            effect (Eff_ConnectMaterialProperty Material e)
              (update_material Material (\<lambda>m. m\<lparr>BaseColor := Some e\<rparr>) s)))"

definition SavePackage :: "host_outcomes \<Rightarrow> string \<Rightarrow> obj_ref \<Rightarrow> host \<Rightarrow> bool \<times> host" where
  "SavePackage h Package Material s =
     (if \<not> SavePackage_ok h then (False, s)
      else (True, effect (Eff_SavePackage Package Material) s))"

text \<open>
  \<open>FPackageName::GetLongPackagePath\<close> and \<open>GetShortName\<close> split a path at its last slash; a
  path without a slash is returned whole.
\<close>

definition GetLongPackagePath :: "string \<Rightarrow> string" where
  "GetLongPackagePath p =
     (if CHR ''/'' \<in> set p then rev (drop 1 (dropWhile (\<lambda>c. c \<noteq> CHR ''/'') (rev p))) else p)"

definition GetShortName :: "string \<Rightarrow> string" where
  "GetShortName p = rev (takeWhile (\<lambda>c. c \<noteq> CHR ''/'') (rev p))"

definition CreateAsset ::
  "host_outcomes \<Rightarrow> string \<Rightarrow> string \<Rightarrow> class_ref \<Rightarrow> host \<Rightarrow> obj_ref option \<times> host" where
  "CreateAsset h AssetName PackageName Parent s =
     (let p = PackageName @ ''/'' @ AssetName in
      case CreateAsset_result h of
        AssetNotCreated \<Rightarrow> (None, s)
      | BlueprintWithoutClass \<Rightarrow>
          (Some p,
           effect (Eff_CreateAsset AssetName PackageName Parent)
             (s\<lparr>Assets := (p, BlueprintAsset \<lparr>ParentClass = Parent, GeneratedClass = None\<rparr>)
                            # Assets s\<rparr>))
      | BlueprintWithClass gc cdo \<Rightarrow>
          (Some p,
           effect (Eff_CreateAsset AssetName PackageName Parent)
             (s\<lparr>Assets := (p, BlueprintAsset \<lparr>ParentClass = Parent, GeneratedClass = Some gc\<rparr>)
                            # Assets s,
                Classes := (gc, \<lparr>SuperClasses =
                                   gc # (case map_of (Classes s) Parent of
                                           Some k \<Rightarrow> SuperClasses k | None \<Rightarrow> []),
                                 ClassDefaultObject = cdo\<rparr>) # Classes s\<rparr>)))"

definition GetClassDefaultObject :: "host \<Rightarrow> class_ref \<Rightarrow> CDO option" where
  "GetClassDefaultObject s c =
     (case map_of (Classes s) c of Some k \<Rightarrow> ClassDefaultObject k | None \<Rightarrow> None)"

definition Set_DefaultPawnClass :: "class_ref \<Rightarrow> class_ref \<Rightarrow> host \<Rightarrow> host" where
  "Set_DefaultPawnClass gm pawn s =
     effect (Eff_Set_DefaultPawnClass gm pawn)
       (s\<lparr>Classes := map (\<lambda>(n, k). if n = gm
                                    then (n, k\<lparr>ClassDefaultObject := Some (GameModeCDO (Some pawn))\<rparr>)
                                    else (n, k)) (Classes s)\<rparr>)"

definition Set_DefaultGameMode :: "class_ref \<Rightarrow> host \<Rightarrow> host" where
  "Set_DefaultGameMode gm s = effect (Eff_Set_DefaultGameMode gm) (s\<lparr>DefaultGameMode := Some gm\<rparr>)"

section \<open>The functions of GenActorUtils.cpp\<close>

definition SpawnBasicShape ::
  "host_outcomes \<Rightarrow> string \<Rightarrow> FVector \<Rightarrow> FRotator \<Rightarrow> FVector \<Rightarrow> string \<Rightarrow> host
     \<Rightarrow> actor_ref option outcome" where
  "SpawnBasicShape h ShapeName Location Rotation Scale Label s =
     (if \<not> GEditor s then NullDereference
      else if \<not> EditorWorld s
      then Returns None (UE_LOG Error ''Failed to get editor world'' [] s)
      else case SpawnActor h ''StaticMeshActor'' Location Rotation s of
        (None, s1) \<Rightarrow> Returns None (UE_LOG Error ''Failed to spawn StaticMeshActor'' [] s1)
      | (Some Actor, s1) \<Rightarrow>
          let MeshPath = ''/Engine/BasicShapes/'' @ ShapeName @ ''.'' @ ShapeName in
          (case LoadObject_UStaticMesh s1 MeshPath of
             None \<Rightarrow>
               Returns None
                 (Destroy Actor
                    (UE_LOG Error ''Failed to load static mesh at path: %s'' [ArgS MeshPath] s1))
           | Some Mesh \<Rightarrow>
               (case GetStaticMeshComponent s1 Actor of
                  None \<Rightarrow> NullDereference
                | Some MeshComponent \<Rightarrow>
                    let s2 = SetStaticMesh Actor Mesh s1;
                        s3 = SetActorScale3D Actor Scale s2;
                        s4 = (if Label \<noteq> [] then SetActorLabel Actor Label s3 else s3)
                    in Returns (Some Actor) s4)))"

definition SpawnStaticMeshActor ::
  "host_outcomes \<Rightarrow> string \<Rightarrow> FVector \<Rightarrow> FRotator \<Rightarrow> FVector \<Rightarrow> string \<Rightarrow> host
     \<Rightarrow> actor_ref option outcome" where
  "SpawnStaticMeshActor h MeshPath Location Rotation Scale Label s =
     (case LoadObject_UStaticMesh s MeshPath of
        None \<Rightarrow> Returns None (UE_LOG Error ''Could not load static mesh from: %s'' [ArgS MeshPath] s)
      | Some Mesh \<Rightarrow>
          if \<not> GEditor s then NullDereference
          else if \<not> EditorWorld s
          then Returns None (UE_LOG Error ''Failed to get editor world'' [] s)
          else (case SpawnActor h ''StaticMeshActor'' Location Rotation s of
            (None, s1) \<Rightarrow> Returns None (UE_LOG Error ''Failed to spawn StaticMeshActor'' [] s1)
          | (Some Actor, s1) \<Rightarrow>
              (case GetStaticMeshComponent s1 Actor of
                 Some MeshComponent \<Rightarrow>
                   let s2 = SetStaticMesh Actor Mesh s1;
                       s3 = SetActorScale3D Actor Scale s2;
                       s4 = (if Label \<noteq> [] then SetActorLabel Actor Label s3 else s3)
                   in Returns (Some Actor)
                        (UE_LOG Log ''Spawned StaticMeshActor with mesh %s labeled %s''
                           [ArgS MeshPath, ArgS Label] s4)
               | None \<Rightarrow>
                   Returns None
                     (Destroy Actor
                        (UE_LOG Error ''No StaticMeshComponent found on spawned actor'' [] s1)))))"

definition SpawnActorFromClass ::
  "host_outcomes \<Rightarrow> string \<Rightarrow> FVector \<Rightarrow> FRotator \<Rightarrow> FVector \<Rightarrow> string \<Rightarrow> host
     \<Rightarrow> actor_ref option outcome" where
  "SpawnActorFromClass h ActorClassName Location Rotation Scale Label s =
     (let by_path = (take 1 ActorClassName = ''/'');
          ActorClass = (if by_path then TryLoadClass_AActor s ActorClassName
                        else FindObject_UClass s ActorClassName)
      in if \<not> by_path \<and> ActorClass = None
         then Returns None (UE_LOG Error ''Could not find actor class: %s'' [ArgS ActorClassName] s)
         else case ActorClass of
           None \<Rightarrow>
             Returns None
               (UE_LOG Error ''Could not load actor class from: %s'' [ArgS ActorClassName] s)
         | Some cls \<Rightarrow>
             if \<not> GEditor s then NullDereference
             else if \<not> EditorWorld s
             then Returns None (UE_LOG Error ''Failed to get editor world'' [] s)
             else (case SpawnActor h cls Location Rotation s of
               (None, s1) \<Rightarrow>
                 Returns None
                   (UE_LOG Error ''Failed to spawn actor of class: %s'' [ArgS ActorClassName] s1)
             | (Some Actor, s1) \<Rightarrow>
                 let s2 = SetActorScale3D Actor Scale s1;
                     s3 = (if Label \<noteq> [] then SetActorLabel Actor Label s2 else s2)
                 in Returns (Some Actor) s3))"

text \<open>
  Line 199 compares the label of an actor with the name by \<open>==\<close> on \<open>FString\<close>, which the
  engine defines as a comparison that ignores letter case: two strings are equal when they
  agree character by character once the letters \<^verbatim>\<open>A\<close> to \<^verbatim>\<open>Z\<close> are lowered; every other
  character is compared as it is.
\<close>

definition ToLower :: "char \<Rightarrow> char" where
  "ToLower c =
     (case map_of (zip ''ABCDEFGHIJKLMNOPQRSTUVWXYZ'' ''abcdefghijklmnopqrstuvwxyz'') c of
        Some l \<Rightarrow> l
      | None \<Rightarrow> c)"

definition FString_eq :: "string \<Rightarrow> string \<Rightarrow> bool" where
  "FString_eq A B = (map ToLower A = map ToLower B)"

text \<open>The loop of \<open>FindActorByName\<close> over the actors of the world, in iteration order.\<close>

fun label_search :: "string \<Rightarrow> (actor_ref \<times> AActor) list \<Rightarrow> actor_ref option" where
  "label_search ActorName [] = None"
| "label_search ActorName ((a, Actor) # rest) =
     (if FString_eq (ActorLabel Actor) ActorName then Some a
      else label_search ActorName rest)"

definition FindActorByName :: "string \<Rightarrow> host \<Rightarrow> actor_ref option outcome" where
  "FindActorByName ActorName s =
     (if \<not> GEditor s then NullDereference
      else if \<not> EditorWorld s
      then Returns None (UE_LOG Error ''Failed to get editor world'' [] s)
      else case label_search ActorName (Actors s) of
        Some Actor \<Rightarrow> Returns (Some Actor) s
      | None \<Rightarrow>
          (case FindObject_AActor s ActorName of
             Some FoundActor \<Rightarrow> Returns (Some FoundActor) s
           | None \<Rightarrow>
               Returns None
                 (UE_LOG Warning ''Actor '%s' not found in the level'' [ArgS ActorName] s)))"

text \<open>
  \<open>CreateMaterial\<close> is written in the blocks of the source: the colour expression
  (lines 254 to 276), the save to disk (lines 286 to 310), the creation of a new material
  around them (lines 234 to 312), and the function itself with its early return.
\<close>

definition CreateMaterial_color_expression ::
  "host_outcomes \<Rightarrow> obj_ref \<Rightarrow> FLinearColor \<Rightarrow> host \<Rightarrow> host" where
  "CreateMaterial_color_expression h Material Color s =
     (case CreateMaterialExpression h Material (- 350) 0 s of
        (None, t) \<Rightarrow> t
      | (Some ConstantColor, t) \<Rightarrow>
          (case ConnectMaterialProperty h Material ConstantColor
                  (Set_Constant Material ConstantColor Color t) of
             (True, u) \<Rightarrow> u
           | (False, u) \<Rightarrow> UE_LOG Error ''Failed to connect material property'' [] u))"

definition CreateMaterial_save ::
  "host_outcomes \<Rightarrow> string \<Rightarrow> obj_ref \<Rightarrow> string \<Rightarrow> host \<Rightarrow> host" where
  "CreateMaterial_save h Package Material MaterialName s =
     (case SavePackage h Package Material s of
        (True, t) \<Rightarrow>
          UE_LOG Log (''Successfully created and saved material '%s'' @ [CHR 0x27])
            [ArgS MaterialName] (effect (Eff_AssetCreated Material) t)
      | (False, t) \<Rightarrow>
          UE_LOG Error (''Failed to save material '%s'' @ [CHR 0x27]) [ArgS MaterialName] t)"

definition CreateMaterial_new ::
  "host_outcomes \<Rightarrow> string \<Rightarrow> string \<Rightarrow> FLinearColor \<Rightarrow> host \<Rightarrow> obj_ref option \<times> host" where
  "CreateMaterial_new h FullPackagePath MaterialName Color s0 =
     (case CreatePackage h FullPackagePath s0 of
        (None, s1) \<Rightarrow>
          (None,
           UE_LOG Error (''Failed to create package for material '%s'' @ [CHR 0x27])
             [ArgS MaterialName] s1)
      | (Some Package, s1) \<Rightarrow>
          (case NewObject_UMaterial h Package MaterialName s1 of
             (None, s2) \<Rightarrow>
               (None,
                UE_LOG Error (''Failed to create material '%s'' @ [CHR 0x27])
                  [ArgS MaterialName] s2)
           | (Some Material, s2) \<Rightarrow>
               let s3 = effect (Eff_Set_bUseEmissiveForDynamicAreaLighting Material False)
                          (update_material Material
                             (\<lambda>m. m\<lparr>bUseEmissiveForDynamicAreaLighting := False\<rparr>) s2);
                   s4 = effect (Eff_Set_BlendMode Material BLEND_Opaque)
                          (update_material Material (\<lambda>m. m\<lparr>BlendMode := BLEND_Opaque\<rparr>) s3);
                   s5 = CreateMaterial_color_expression h Material Color s4;
                   s6 = effect (Eff_PreEditChange Material) s5;
                   s7 = effect (Eff_PostEditChange Material) s6;
                   s8 = effect (Eff_RecompileMaterial Material) s7;
                   s9 = effect (Eff_MarkPackageDirty Package) s8
               in (Some Material, CreateMaterial_save h Package Material MaterialName s9)))"

definition CreateMaterial ::
  "host_outcomes \<Rightarrow> string \<Rightarrow> FLinearColor \<Rightarrow> host \<Rightarrow> obj_ref option \<times> host" where
  "CreateMaterial h MaterialName Color s =
     (let PackagePath = ''/Game/Materials'';
          FullPackagePath = PackagePath @ ''/'' @ MaterialName;
          ExistingPackage = FindPackage s FullPackagePath;
          s0 = (if ExistingPackage \<noteq> None
                then UE_LOG Warning ''Material '%s' already exists, trying to load it''
                       [ArgS MaterialName] s
                else s);
          ExistingMaterial =
            (if ExistingPackage \<noteq> None
             then LoadObject_UMaterial s0 (FullPackagePath @ ''.'' @ MaterialName)
             else None)
      in case ExistingMaterial of
        Some m \<Rightarrow> (Some m, s0)
      | None \<Rightarrow> CreateMaterial_new h FullPackagePath MaterialName Color s0)"

text \<open>The loop of \<open>SetActorMaterial\<close> over the material slots of the component.\<close>

function SetMaterial_loop :: "actor_ref \<Rightarrow> obj_ref \<Rightarrow> nat \<Rightarrow> nat \<Rightarrow> host \<Rightarrow> host" where
  "SetMaterial_loop Actor Material i MaterialCount s =
     (if i < MaterialCount
      then SetMaterial_loop Actor Material (Suc i) MaterialCount (SetMaterial Actor i Material s)
      else s)"
  by pat_completeness auto
termination
  by (relation "measure (\<lambda>(Actor, Material, i, MaterialCount, s). MaterialCount - i)") auto

declare SetMaterial_loop.simps [simp del]

definition SetActorMaterial :: "string \<Rightarrow> obj_ref option \<Rightarrow> host \<Rightarrow> bool outcome" where
  "SetActorMaterial ActorName Material s =
     (case Material of
        None \<Rightarrow> Returns False (UE_LOG Error ''Null material provided'' [] s)
      | Some M \<Rightarrow>
          (case FindActorByName ActorName s of
             NullDereference \<Rightarrow> NullDereference
           | Returns None s1 \<Rightarrow> Returns False s1
           | Returns (Some Actor) s1 \<Rightarrow>
               (case FindComponentByClass_UStaticMeshComponent s1 Actor of
                  None \<Rightarrow>
                    Returns False
                      (UE_LOG Error
                         (''No static mesh component found on actor '%s'' @ [CHR 0x27])
                         [ArgS ActorName] s1)
                | Some MeshComponent \<Rightarrow>
                    let MaterialCount = NumMaterials MeshComponent;
                        s2 = SetMaterial_loop Actor M 0 MaterialCount s1
                    in Returns True
                         (UE_LOG Log (''Set material for actor '%s'' @ [CHR 0x27])
                            [ArgS ActorName] s2))))"

definition SetActorMaterialByPath :: "string \<Rightarrow> string \<Rightarrow> host \<Rightarrow> bool outcome" where
  "SetActorMaterialByPath ActorName MaterialPath s =
     (case LoadObject_UMaterialInterface s MaterialPath of
        None \<Rightarrow>
          Returns False
            (UE_LOG Error (''Failed to load material at path '%s'' @ [CHR 0x27])
               [ArgS MaterialPath] s)
      | Some Material \<Rightarrow> SetActorMaterial ActorName (Some Material) s)"

definition SetActorPosition :: "string \<Rightarrow> FVector \<Rightarrow> host \<Rightarrow> bool outcome" where
  "SetActorPosition ActorName Position s =
     (case FindActorByName ActorName s of
        NullDereference \<Rightarrow> NullDereference
      | Returns None s1 \<Rightarrow> Returns False s1
      | Returns (Some Actor) s1 \<Rightarrow>
          Returns True
            (UE_LOG Log ''Set position of actor '%s' to (%f, %f, %f)''
               [ArgS ActorName, ArgF (X Position), ArgF (Y Position), ArgF (Z Position)]
               (SetActorLocation Actor Position s1)))"

definition SetActorRotation :: "string \<Rightarrow> FRotator \<Rightarrow> host \<Rightarrow> bool outcome" where
  "SetActorRotation ActorName Rotation s =
     (case FindActorByName ActorName s of
        NullDereference \<Rightarrow> NullDereference
      | Returns None s1 \<Rightarrow> Returns False s1
      | Returns (Some Actor) s1 \<Rightarrow>
          Returns True
            (UE_LOG Log ''Set rotation of actor '%s' to (%f, %f, %f)''
               [ArgS ActorName, ArgF (Pitch Rotation), ArgF (Yaw Rotation), ArgF (Roll Rotation)]
               (SetActorRotation_host Actor Rotation s1)))"

definition SetActorScale :: "string \<Rightarrow> FVector \<Rightarrow> host \<Rightarrow> bool outcome" where
  "SetActorScale ActorName Scale s =
     (case FindActorByName ActorName s of
        NullDereference \<Rightarrow> NullDereference
      | Returns None s1 \<Rightarrow> Returns False s1
      | Returns (Some Actor) s1 \<Rightarrow>
          Returns True
            (UE_LOG Log ''Set scale of actor '%s' to (%f, %f, %f)''
               [ArgS ActorName, ArgF (X Scale), ArgF (Y Scale), ArgF (Z Scale)]
               (SetActorScale3D Actor Scale s1)))"

definition json_error :: "string \<Rightarrow> string" where
  "json_error msg = ''{\"success\": false, \"error\": \"'' @ msg @ ''\"}''"

text \<open>
  The block of \<open>CreateGameModeWithPawn\<close> that makes the new class the game mode of the
  current level (lines 469 to 491).
\<close>

definition CreateGameModeWithPawn_set_level_game_mode ::
  "string \<Rightarrow> class_ref \<Rightarrow> host \<Rightarrow> host" where
  "CreateGameModeWithPawn_set_level_game_mode GameModePath GameModeClass s =
     (if GEditor s
      then if EditorWorld s
           then if CurrentLevel s
                then UE_LOG Log ''Set %s as default game mode for current scene''
                       [ArgS GameModePath]
                       (effect Eff_MarkWorldSettingsDirty (Set_DefaultGameMode GameModeClass s))
                else UE_LOG Warning ''No current level found to set game mode'' [] s
           else UE_LOG Warning ''No current world found to set game mode'' [] s
      else s)"

text \<open>
  Line 425: the base class defaults to \<^verbatim>\<open>GameModeBase\<close>. Line 435: the pawn blueprint must
  load, have a generated class, and that class must derive from \<^verbatim>\<open>APawn\<close>; the guard is
  written as the function that yields the class when all three hold.
\<close>

definition BaseClassToUse :: "string \<Rightarrow> string" where
  "BaseClassToUse BaseClassName = (if BaseClassName = [] then ''GameModeBase'' else BaseClassName)"

definition PawnGeneratedClass :: "host \<Rightarrow> string \<Rightarrow> class_ref option" where
  "PawnGeneratedClass s PawnBlueprintPath =
     (case LoadObject_UBlueprint s PawnBlueprintPath of
        None \<Rightarrow> None
      | Some PawnBP \<Rightarrow>
          (case GeneratedClass PawnBP of
             None \<Rightarrow> None
           | Some pc \<Rightarrow> if IsChildOf s pc ''Pawn'' then Some pc else None))"

definition BlueprintGeneratedClass :: "host \<Rightarrow> obj_ref \<Rightarrow> class_ref option" where
  "BlueprintGeneratedClass s bp =
     (case LoadObject_UBlueprint s bp of None \<Rightarrow> None | Some b \<Rightarrow> GeneratedClass b)"

definition CreateGameModeWithPawn ::
  "host_outcomes \<Rightarrow> string \<Rightarrow> string \<Rightarrow> string \<Rightarrow> host \<Rightarrow> string \<times> host" where
  "CreateGameModeWithPawn h GameModePath PawnBlueprintPath BaseClassName s =
     (if GameModePath = [] \<or> PawnBlueprintPath = []
      then (json_error ''Empty path provided'',
            UE_LOG Error ''GameModePath or PawnBlueprintPath is empty'' [] s)
      else if LoadObject_UBlueprint s GameModePath \<noteq> None
      then (json_error ''Game mode already exists'',
            UE_LOG Warning ''Game mode already exists at %s'' [ArgS GameModePath] s)
      else if FindObject_UClass s (BaseClassToUse BaseClassName) = None
              \<or> \<not> IsChildOf s (BaseClassToUse BaseClassName) ''GameModeBase''
      then (json_error ''Invalid base class'',
            UE_LOG Error ''Invalid base class %s for game mode''
              [ArgS (BaseClassToUse BaseClassName)] s)
      else case PawnGeneratedClass s PawnBlueprintPath of
        None \<Rightarrow>
          (json_error ''Invalid pawn blueprint'',
           UE_LOG Error ''Invalid pawn blueprint: %s'' [ArgS PawnBlueprintPath] s)
      | Some PawnClass \<Rightarrow>
          (case CreateAsset h (GetShortName GameModePath) (GetLongPackagePath GameModePath)
                  (BaseClassToUse BaseClassName) s of
             (None, s1) \<Rightarrow>
               (json_error ''Failed to create game mode'',
                UE_LOG Error ''Failed to create game mode blueprint at %s'' [ArgS GameModePath] s1)
           | (Some GameModeBP, s1) \<Rightarrow>
               (case BlueprintGeneratedClass s1 GameModeBP of
                  None \<Rightarrow>
                    (json_error ''No generated class'',
                     UE_LOG Error ''Generated class not found for %s'' [ArgS GameModePath] s1)
                | Some GameModeClass \<Rightarrow>
                    let s2 = (case GetClassDefaultObject s1 GameModeClass of
                                Some (GameModeCDO old) \<Rightarrow>
                                  Set_DefaultPawnClass GameModeClass PawnClass s1
                              | _ \<Rightarrow> s1);
                        s3 = CreateGameModeWithPawn_set_level_game_mode
                               GameModePath GameModeClass s2;
                        s4 = effect (Eff_Modify GameModeBP) s3;
                        s5 = effect (Eff_MarkBlueprintAsStructurallyModified GameModeBP) s4
                    in (''{\"success\": true, \"message\": \"Created game mode ''
                          @ GameModePath @ '' with pawn '' @ PawnBlueprintPath
                          @ '' and set as scene default\"}'',
                        UE_LOG Log ''Created game mode %s with pawn %s and set as scene default''
                          [ArgS GameModePath, ArgS PawnBlueprintPath] s5))))"

subsection \<open>The module as a whole\<close>

datatype operation =
    Op_SpawnBasicShape string FVector FRotator FVector string
  | Op_SpawnStaticMeshActor string FVector FRotator FVector string
  | Op_SpawnActorFromClass string FVector FRotator FVector string
  | Op_FindActorByName string
  | Op_CreateMaterial string FLinearColor
  | Op_SetActorMaterial string "obj_ref option"
  | Op_SetActorMaterialByPath string string
  | Op_SetActorPosition string FVector
  | Op_SetActorRotation string FRotator
  | Op_SetActorScale string FVector
  | Op_CreateGameModeWithPawn string string string

datatype retval =
    RetActor "actor_ref option"
  | RetMaterial "obj_ref option"
  | RetBool bool
  | RetJson string

fun map_outcome :: "('a \<Rightarrow> 'b) \<Rightarrow> (host \<Rightarrow> host) \<Rightarrow> 'a outcome \<Rightarrow> 'b outcome" where
  "map_outcome f g NullDereference = NullDereference"
| "map_outcome f g (Returns r s) = Returns (f r) (g s)"

fun exec :: "host_outcomes \<Rightarrow> operation \<Rightarrow> host \<Rightarrow> retval outcome" where
  "exec h (Op_SpawnBasicShape n l r sc lb) s =
     map_outcome RetActor id (SpawnBasicShape h n l r sc lb s)"
| "exec h (Op_SpawnStaticMeshActor p l r sc lb) s =
     map_outcome RetActor id (SpawnStaticMeshActor h p l r sc lb s)"
| "exec h (Op_SpawnActorFromClass c l r sc lb) s =
     map_outcome RetActor id (SpawnActorFromClass h c l r sc lb s)"
| "exec h (Op_FindActorByName n) s = map_outcome RetActor id (FindActorByName n s)"
| "exec h (Op_CreateMaterial n c) s =
     (case CreateMaterial h n c s of (m, s') \<Rightarrow> Returns (RetMaterial m) s')"
| "exec h (Op_SetActorMaterial n m) s = map_outcome RetBool id (SetActorMaterial n m s)"
| "exec h (Op_SetActorMaterialByPath n p) s =
     map_outcome RetBool id (SetActorMaterialByPath n p s)"
| "exec h (Op_SetActorPosition n v) s = map_outcome RetBool id (SetActorPosition n v s)"
| "exec h (Op_SetActorRotation n r) s = map_outcome RetBool id (SetActorRotation n r s)"
| "exec h (Op_SetActorScale n v) s = map_outcome RetBool id (SetActorScale n v s)"
| "exec h (Op_CreateGameModeWithPawn g p b) s =
     (case CreateGameModeWithPawn h g p b s of (j, s') \<Rightarrow> Returns (RetJson j) s')"

text \<open>
  The values by which a function reports failure: a null pointer, false, or a JSON text
  that opens with \<^verbatim>\<open>{"success": false\<close>.
\<close>

fun is_sentinel :: "retval \<Rightarrow> bool" where
  "is_sentinel (RetActor a) = (a = None)"
| "is_sentinel (RetMaterial m) = (m = None)"
| "is_sentinel (RetBool b) = (\<not> b)"
| "is_sentinel (RetJson j) = (take 17 j = ''{\"success\": false'')"

text \<open>
  A guard of the source is a check of a lookup or creation whose failing branch returns.
  \<open>guard_fails h op s\<close> holds when one of the guards of \<open>op\<close> fails on the host \<open>s\<close> with the
  answers \<open>h\<close>; the guards are listed operation by operation in the order of the source.
  A guard fails only where it is reached: the two guards of \<open>CreateMaterial\<close> are reached
  when no existing material is loaded. \<open>found_actor\<close> is the actor that the label loop or,
  after it, the path lookup of \<open>FindActorByName\<close> finds.

  The source makes seven more checks whose failing branch does not return, and they are
  not guards: in \<open>CreateMaterial\<close> the colour expression (line 259), its connection to the
  base colour (line 272) and the save (line 301); in \<open>CreateGameModeWithPawn\<close> the cast of
  the class default object (line 464), the editor (line 470), its world (line 473) and the
  current level (line 476).
\<close>

definition found_actor :: "string \<Rightarrow> host \<Rightarrow> actor_ref option" where
  "found_actor n s =
     (case label_search n (Actors s) of Some a \<Rightarrow> Some a | None \<Rightarrow> FindObject_AActor s n)"

definition actor_lookup_fails :: "string \<Rightarrow> host \<Rightarrow> bool" where
  "actor_lookup_fails n s = (\<not> EditorWorld s \<or> found_actor n s = None)"

definition material_assignment_fails :: "string \<Rightarrow> host \<Rightarrow> bool" where
  "material_assignment_fails n s =
     (actor_lookup_fails n s
      \<or> (case found_actor n s of
            Some a \<Rightarrow> FindComponentByClass_UStaticMeshComponent s a = None
          | None \<Rightarrow> False))"

fun guard_fails :: "host_outcomes \<Rightarrow> operation \<Rightarrow> host \<Rightarrow> bool" where
  "guard_fails h (Op_SpawnBasicShape n l r sc lb) s =
     (\<not> EditorWorld s \<or> SpawnActor_result h = None
      \<or> LoadObject_UStaticMesh s (''/Engine/BasicShapes/'' @ n @ ''.'' @ n) = None)"
| "guard_fails h (Op_SpawnStaticMeshActor p l r sc lb) s =
     (LoadObject_UStaticMesh s p = None \<or> \<not> EditorWorld s
      \<or> (case SpawnActor_result h of None \<Rightarrow> True | Some (name, has_mesh) \<Rightarrow> \<not> has_mesh))"
| "guard_fails h (Op_SpawnActorFromClass c l r sc lb) s =
     ((if take 1 c = ''/'' then TryLoadClass_AActor s c else FindObject_UClass s c) = None
      \<or> \<not> EditorWorld s \<or> SpawnActor_result h = None)"
| "guard_fails h (Op_FindActorByName n) s = actor_lookup_fails n s"
| "guard_fails h (Op_CreateMaterial n c) s =
     ((FindPackage s (''/Game/Materials'' @ ''/'' @ n) = None
         \<or> LoadObject_UMaterial s (''/Game/Materials'' @ ''/'' @ n @ ''.'' @ n) = None)
      \<and> (\<not> CreatePackage_ok h \<or> \<not> NewObject_ok h))"
| "guard_fails h (Op_SetActorMaterial n M) s =
     (M = None \<or> material_assignment_fails n s)"
| "guard_fails h (Op_SetActorMaterialByPath n p) s =
     (LoadObject_UMaterialInterface s p = None \<or> material_assignment_fails n s)"
| "guard_fails h (Op_SetActorPosition n v) s = actor_lookup_fails n s"
| "guard_fails h (Op_SetActorRotation n r) s = actor_lookup_fails n s"
| "guard_fails h (Op_SetActorScale n v) s = actor_lookup_fails n s"
| "guard_fails h (Op_CreateGameModeWithPawn g p b) s =
     (g = [] \<or> p = [] \<or> LoadObject_UBlueprint s g \<noteq> None
      \<or> FindObject_UClass s (BaseClassToUse b) = None
      \<or> \<not> IsChildOf s (BaseClassToUse b) ''GameModeBase''
      \<or> PawnGeneratedClass s p = None
      \<or> CreateAsset_result h = AssetNotCreated
      \<or> CreateAsset_result h = BlueprintWithoutClass)"

text \<open>What a call returned, and the host it left, when it returned at all.\<close>

fun result_of :: "'a outcome \<Rightarrow> 'a option" where
  "result_of NullDereference = None"
| "result_of (Returns r s) = Some r"

fun host_of :: "'a outcome \<Rightarrow> host option" where
  "host_of NullDereference = None"
| "host_of (Returns r s) = Some s"

text \<open>
  \<open>logs_failure s s'\<close>: the log of \<open>s'\<close> is the log of \<open>s\<close> with at least one more line, and
  its last line is an error or a warning.
\<close>

definition logs_failure :: "host \<Rightarrow> host \<Rightarrow> bool" where
  "logs_failure s s' =
     (length (LogTemp s) < length (LogTemp s')
      \<and> take (length (LogTemp s)) (LogTemp s') = LogTemp s
      \<and> fst (last (LogTemp s')) \<noteq> Log)"

text \<open>
  The writes of a call in which a guard fails. Most guards come before the first write of
  their function, and the call then writes nothing. Four guards come after a write. The
  mesh of \<open>SpawnBasicShape\<close> (line 51) and the mesh component of \<open>SpawnStaticMeshActor\<close>
  (line 102) are checked after the actor is spawned, and their failing branch destroys the
  actor (lines 54 and 110). The material object of \<open>CreateMaterial\<close> (line 244) is checked
  after the package is created, when there was none, and the generated class of
  \<open>CreateGameModeWithPawn\<close> (line 459) after the blueprint asset is created; their failing
  branches write nothing more. \<open>writes_on_failure h op s\<close> lists these writes for a host \<open>s\<close>
  and answers \<open>h\<close> on which a guard of \<open>op\<close> fails.
\<close>

fun writes_on_failure :: "host_outcomes \<Rightarrow> operation \<Rightarrow> host \<Rightarrow> effect list" where
  "writes_on_failure h (Op_SpawnBasicShape n l r sc lb) s =
     (if EditorWorld s \<and> SpawnActor_result h \<noteq> None
      then [Eff_SpawnActor (NextActor s), Eff_Destroy (NextActor s)] else [])"
| "writes_on_failure h (Op_SpawnStaticMeshActor p l r sc lb) s =
     (if LoadObject_UStaticMesh s p \<noteq> None \<and> EditorWorld s \<and> SpawnActor_result h \<noteq> None
      then [Eff_SpawnActor (NextActor s), Eff_Destroy (NextActor s)] else [])"
| "writes_on_failure h (Op_SpawnActorFromClass c l r sc lb) s = []"
| "writes_on_failure h (Op_FindActorByName n) s = []"
| "writes_on_failure h (Op_CreateMaterial n c) s =
     (if CreatePackage_ok h \<and> FindPackage s (''/Game/Materials'' @ ''/'' @ n) = None
      then [Eff_CreatePackage (''/Game/Materials'' @ ''/'' @ n)] else [])"
| "writes_on_failure h (Op_SetActorMaterial n M) s = []"
| "writes_on_failure h (Op_SetActorMaterialByPath n p) s = []"
| "writes_on_failure h (Op_SetActorPosition n v) s = []"
| "writes_on_failure h (Op_SetActorRotation n r) s = []"
| "writes_on_failure h (Op_SetActorScale n v) s = []"
| "writes_on_failure h (Op_CreateGameModeWithPawn g p b) s =
     (if g \<noteq> [] \<and> p \<noteq> [] \<and> LoadObject_UBlueprint s g = None
         \<and> FindObject_UClass s (BaseClassToUse b) \<noteq> None
         \<and> IsChildOf s (BaseClassToUse b) ''GameModeBase''
         \<and> PawnGeneratedClass s p \<noteq> None
         \<and> CreateAsset_result h = BlueprintWithoutClass
      then [Eff_CreateAsset (GetShortName g) (GetLongPackagePath g) (BaseClassToUse b)] else [])"

text \<open>
  The engine hands out actor references in increasing order. \<open>actor_refs_below_next s\<close>: every
  actor of the world has a reference below the one that the next spawn will hand out.
\<close>

definition actor_refs_below_next :: "host \<Rightarrow> bool" where
  "actor_refs_below_next s = (\<forall>i \<in> set (map fst (Actors s)). i < NextActor s)"

subsection \<open>Example hosts\<close>

definition cube_actor :: AActor where
  "cube_actor = \<lparr>ActorLabel = ''Box'', ObjectName = ''StaticMeshActor_0'', ActorClass = ''StaticMeshActor'',
     ActorLocation = FVector 0 0 0, ActorRotation = FRotator 0 0 0, ActorScale3D = FVector 1 1 1,
     StaticMeshComponent = Some \<lparr>StaticMesh = Some ''/Engine/BasicShapes/Cube.Cube'', NumMaterials = 2,
        OverrideMaterials = []\<rparr>\<rparr>"

definition light_actor :: AActor where
  "light_actor = \<lparr>ActorLabel = ''Sun'', ObjectName = ''DirectionalLight_0'', ActorClass = ''DirectionalLight'',
     ActorLocation = FVector 0 0 500, ActorRotation = FRotator 0 0 0, ActorScale3D = FVector 1 1 1,
     StaticMeshComponent = None\<rparr>"

definition demo_host :: host where
  "demo_host = \<lparr>GEditor = True, EditorWorld = True, CurrentLevel = True, DefaultGameMode = None,
     Actors = [(0, cube_actor), (1, light_actor)], NextActor = 2, Packages = [],
     Assets = [(''/Engine/BasicShapes/Cube.Cube'', StaticMeshAsset 2),
               (''/Game/M_Red.M_Red'', MaterialInstanceAsset ''/Game/M_Base.M_Base''),
               (''/Game/BP_Pawn'', BlueprintAsset \<lparr>ParentClass = ''Pawn'', GeneratedClass = Some ''BP_Pawn_C''\<rparr>)],
     Classes = [(''GameModeBase'', \<lparr>SuperClasses = [''GameModeBase'', ''Actor''], ClassDefaultObject = Some (GameModeCDO None)\<rparr>),
                (''BP_Pawn_C'', \<lparr>SuperClasses = [''BP_Pawn_C'', ''Pawn'', ''Actor''], ClassDefaultObject = Some PlainCDO\<rparr>)],
     LogTemp = [], Effects = []\<rparr>"

text \<open>A world with two cubes whose labels differ in letter case only.\<close>

definition two_boxes_host :: host where
  "two_boxes_host =
     demo_host\<lparr>Actors := [(0, cube_actor\<lparr>ActorLabel := ''box''\<rparr>),
                           (1, cube_actor\<lparr>ObjectName := ''StaticMeshActor_1''\<rparr>)]\<rparr>"

definition demo_outcomes :: host_outcomes where
  "demo_outcomes = \<lparr>SpawnActor_result = Some (''StaticMeshActor_1'', True),
     CreatePackage_ok = True, NewObject_ok = True, CreateMaterialExpression_ok = True,
     ConnectMaterialProperty_ok = True, SavePackage_ok = True,
     CreateAsset_result = BlueprintWithClass ''BP_GameMode_C'' (Some (GameModeCDO None))\<rparr>"

section \<open>Properties\<close>

subsection \<open>Finding an actor\<close>

lemma label_search_Some:
  "label_search n xs = Some a \<Longrightarrow>
     \<exists>pre x post. xs = pre @ (a, x) # post \<and> FString_eq (ActorLabel x) n \<and> (\<forall>(b, y) \<in> set pre. \<not> FString_eq (ActorLabel y) n)"
proof (induction xs)
  case Nil
  then show ?case by simp
next
  case (Cons p xs)
  obtain b y where p: "p = (b, y)" by (cases p)
  show ?case
  proof (cases "FString_eq (ActorLabel y) n")
    case True
    with Cons.prems p have "a = b" by simp
    with True p show ?thesis
      by (intro exI [of _ "[]"] exI [of _ y] exI [of _ xs]) simp
  next
    case False
    with Cons.prems p have "label_search n xs = Some a" by simp
    from Cons.IH [OF this] obtain pre x post where
      h: "xs = pre @ (a, x) # post" "FString_eq (ActorLabel x) n" "\<forall>(b, y) \<in> set pre. \<not> FString_eq (ActorLabel y) n"
      by blast
    from h False p show ?thesis
      by (intro exI [of _ "p # pre"] exI [of _ x] exI [of _ post]) simp
  qed
qed

lemma label_search_None:
  "(label_search n xs = None) = (\<forall>(a, x) \<in> set xs. \<not> FString_eq (ActorLabel x) n)"
  by (induction xs) (auto split: if_splits)

lemma FindActorByName_Some_state:
  "FindActorByName n s = Returns (Some a) s1 \<Longrightarrow> s1 = s"
  by (auto simp: FindActorByName_def split: if_splits option.splits)

lemma FindActorByName_None_state:
  "FindActorByName n s = Returns None s1 \<Longrightarrow>
     \<exists>l. s1 = s\<lparr>LogTemp := LogTemp s @ [l]\<rparr> \<and> fst l \<noteq> Log"
  by (auto simp: FindActorByName_def UE_LOG_def split: if_splits option.splits)

lemma FindActorByName_result:
  "FindActorByName n s =
     (if \<not> GEditor s then NullDereference
      else if actor_lookup_fails n s
      then Returns None
             (if \<not> EditorWorld s then UE_LOG Error ''Failed to get editor world'' [] s
              else UE_LOG Warning ''Actor '%s' not found in the level'' [ArgS n] s)
      else Returns (found_actor n s) s)"
  by (simp add: FindActorByName_def actor_lookup_fails_def found_actor_def split: option.split)

text \<open>
  C6, as the claim states it, fails, because labels are compared without regard to letter
  case. In a world where actor 0 is labelled \<^verbatim>\<open>box\<close> and actor 1 is labelled \<^verbatim>\<open>Box\<close>, the
  lookup of \<^verbatim>\<open>Box\<close> returns actor 0, whose label is not equal to the name. And on the
  example host, where no label is equal to \<^verbatim>\<open>BOX\<close> and no object bears that name, the
  lookup of \<^verbatim>\<open>BOX\<close> is not null: it returns the actor labelled \<^verbatim>\<open>Box\<close>.
\<close>

theorem FindActorByName_exact_label_counterexample:
  "map_option ActorLabel (GetActor two_boxes_host 0) = Some ''box''
   \<and> map_option ActorLabel (GetActor two_boxes_host 1) = Some ''Box''
   \<and> FindActorByName ''Box'' two_boxes_host = Returns (Some 0) two_boxes_host
   \<and> map (ActorLabel \<circ> snd) (Actors demo_host) = [''Box'', ''Sun'']
   \<and> FindObject_AActor demo_host ''BOX'' = None
   \<and> FindActorByName ''BOX'' demo_host = Returns (Some 0) demo_host"
  by (simp add: two_boxes_host_def demo_host_def cube_actor_def light_actor_def
      FindActorByName_def FindObject_AActor_def GetActor_def FString_eq_def ToLower_def)

text \<open>
  C6, amended. \<open>FindActorByName\<close> finds an actor by label or engine path, the label being
  compared with the name without regard to letter case. With the editor present it always
  returns. When some actor of the editor world has a label equal to the name up to letter
  case, the result is the first such actor in iteration order; only when no label matches
  in that sense is the result that of the path lookup; and the result is null exactly when
  there is no editor world, or neither the label search nor the path lookup finds an actor.
\<close>

theorem FindActorByName_label_then_path:
  assumes "GEditor s"
  shows "\<exists>r s'. FindActorByName n s = Returns r s' \<and>
    (EditorWorld s \<and> (\<exists>(a, x) \<in> set (Actors s). FString_eq (ActorLabel x) n) \<longrightarrow>
       (\<exists>a pre x post. r = Some a \<and> Actors s = pre @ (a, x) # post \<and> FString_eq (ActorLabel x) n
          \<and> (\<forall>(b, y) \<in> set pre. \<not> FString_eq (ActorLabel y) n))) \<and>
    (EditorWorld s \<and> (\<forall>(a, x) \<in> set (Actors s). \<not> FString_eq (ActorLabel x) n) \<longrightarrow>
       r = FindObject_AActor s n) \<and>
    (r = None \<longleftrightarrow>
       \<not> EditorWorld s
       \<or> ((\<forall>(a, x) \<in> set (Actors s). \<not> FString_eq (ActorLabel x) n) \<and> FindObject_AActor s n = None))"
proof (cases "EditorWorld s")
  case False
  with assms show ?thesis by (simp add: FindActorByName_def)
next
  case world: True
  show ?thesis
  proof (cases "label_search n (Actors s)")
    case None
    then have no: "\<forall>(a, x) \<in> set (Actors s). \<not> FString_eq (ActorLabel x) n"
      by (simp add: label_search_None)
    then have nex: "\<not> (\<exists>(a, x) \<in> set (Actors s). FString_eq (ActorLabel x) n)" by auto
    show ?thesis
    proof (cases "FindObject_AActor s n")
      case nf: None
      with assms world None no nex show ?thesis
        by (simp add: FindActorByName_def)
    next
      case (Some b)
      with assms world None no nex show ?thesis
        by (simp add: FindActorByName_def)
    qed
  next
    case (Some a)
    from label_search_Some [OF Some] obtain pre x post where
      h: "Actors s = pre @ (a, x) # post" "FString_eq (ActorLabel x) n"
         "\<forall>(b, y) \<in> set pre. \<not> FString_eq (ActorLabel y) n"
      by blast
    from h have ex: "\<exists>(a, x) \<in> set (Actors s). FString_eq (ActorLabel x) n" by auto
    then have nall: "\<not> (\<forall>(a, x) \<in> set (Actors s). \<not> FString_eq (ActorLabel x) n)" by auto
    have run: "FindActorByName n s = Returns (Some a) s"
      using assms world Some by (simp add: FindActorByName_def)
    have c1: "EditorWorld s \<and> (\<exists>(a, x) \<in> set (Actors s). FString_eq (ActorLabel x) n) \<longrightarrow>
       (\<exists>a' pre x post. Some a = Some a' \<and> Actors s = pre @ (a', x) # post \<and> FString_eq (ActorLabel x) n
          \<and> (\<forall>(b, y) \<in> set pre. \<not> FString_eq (ActorLabel y) n))"
      using h by blast
    have c2: "EditorWorld s \<and> (\<forall>(a, x) \<in> set (Actors s). \<not> FString_eq (ActorLabel x) n) \<longrightarrow>
       Some a = FindObject_AActor s n"
      using nall by blast
    have c3: "(Some a = None) \<longleftrightarrow>
       \<not> EditorWorld s
       \<or> ((\<forall>(a, x) \<in> set (Actors s). \<not> FString_eq (ActorLabel x) n) \<and> FindObject_AActor s n = None)"
      using world nall by blast
    show ?thesis
      by (intro exI [of _ "Some a"] exI [of _ s] conjI run c1 c2 c3)
  qed
qed

theorem FindActorByName_label_then_path_witness:
  "GEditor demo_host \<and> EditorWorld demo_host
   \<and> FindActorByName ''Sun'' demo_host = Returns (Some 1) demo_host
   \<and> FindActorByName ''StaticMeshActor_0'' demo_host = Returns (Some 0) demo_host
   \<and> FindActorByName ''sUN'' demo_host = Returns (Some 1) demo_host
   \<and> (\<exists>s'. FindActorByName ''Moon'' demo_host = Returns None s')
   \<and> (\<exists>r s'. FindActorByName ''Sun'' demo_host = Returns r s' \<and> r \<noteq> None)"
  using FindActorByName_label_then_path [of demo_host "''Sun''"]
  by (simp add: demo_host_def cube_actor_def light_actor_def FindActorByName_def
      FString_eq_def ToLower_def
      FindObject_AActor_def UE_LOG_def)

subsection \<open>Material by path\<close>

text \<open>
  C4. \<open>SetActorMaterialByPath\<close> delegates to \<open>SetActorMaterial\<close>: when no material loads
  from the path it returns false, having only logged the failure; when a material loads
  it is exactly \<open>SetActorMaterial\<close> on the same actor name and the loaded material, result
  and host alike.
\<close>

theorem SetActorMaterialByPath_delegates:
  "(LoadObject_UMaterialInterface s MaterialPath = None \<longrightarrow>
      SetActorMaterialByPath ActorName MaterialPath s =
        Returns False
          (s\<lparr>LogTemp := LogTemp s @
                [(Error, ''Failed to load material at path '%s'' @ [CHR 0x27], [ArgS MaterialPath])]\<rparr>))
   \<and> (\<forall>Material. LoadObject_UMaterialInterface s MaterialPath = Some Material \<longrightarrow>
        SetActorMaterialByPath ActorName MaterialPath s =
          SetActorMaterial ActorName (Some Material) s)"
  by (simp add: SetActorMaterialByPath_def UE_LOG_def)

theorem SetActorMaterialByPath_delegates_witness:
  "LoadObject_UMaterialInterface demo_host ''/Game/Missing'' = None
   \<and> SetActorMaterialByPath ''Box'' ''/Game/Missing'' demo_host =
        Returns False
          (demo_host\<lparr>LogTemp := 
                [(Error, ''Failed to load material at path '%s'' @ [CHR 0x27], [ArgS ''/Game/Missing''])]\<rparr>)
   \<and> LoadObject_UMaterialInterface demo_host ''/Game/M_Red.M_Red'' = Some ''/Game/M_Red.M_Red''
   \<and> SetActorMaterialByPath ''Box'' ''/Game/M_Red.M_Red'' demo_host =
        SetActorMaterial ''Box'' (Some ''/Game/M_Red.M_Red'') demo_host"
  using SetActorMaterialByPath_delegates [of demo_host "''/Game/Missing''" "''Box''"]
    SetActorMaterialByPath_delegates [of demo_host "''/Game/M_Red.M_Red''" "''Box''"]
  by (simp add: LoadObject_UMaterialInterface_def demo_host_def)

subsection \<open>Transform setters\<close>

lemma GetActor_update_actor:
  "GetActor (update_actor a f s) b = (if b = a then map_option f (GetActor s a) else GetActor s b)"
proof -
  have "map_of (map (\<lambda>(i, x). if i = a then (i, f x) else (i, x)) xs) b
          = (if b = a then map_option f (map_of xs a) else map_of xs b)" for xs
    by (induction xs) auto
  then show ?thesis by (simp add: GetActor_def update_actor_def)
qed

lemma update_actor_map:
  "Actors (update_actor a f s) = map (\<lambda>(i, x). (i, if i = a then f x else x)) (Actors s)"
  by (auto simp: update_actor_def)

text \<open>
  C5. When \<open>FindActorByName\<close> finds no actor, each of \<open>SetActorPosition\<close>,
  \<open>SetActorRotation\<close> and \<open>SetActorScale\<close> returns false and leaves the host as the lookup
  left it: no actor and no effect changes, only the log line of the lookup is new. When the
  actor is found, each setter returns true and rewrites only its own field of that actor
  (location, rotation or scale): every other field of the actor, every other actor and the
  rest of the host stay as they were.
\<close>

theorem transform_setters_frame:
  "(FindActorByName n s = Returns None s1 \<longrightarrow>
      SetActorPosition n p s = Returns False s1
      \<and> SetActorRotation n r s = Returns False s1
      \<and> SetActorScale n v s = Returns False s1
      \<and> Actors s1 = Actors s \<and> Effects s1 = Effects s \<and> s1\<lparr>LogTemp := LogTemp s\<rparr> = s)
   \<and> (FindActorByName n s = Returns (Some a) s1 \<longrightarrow>
      (\<exists>s'. SetActorPosition n p s = Returns True s'
          \<and> Actors s' = map (\<lambda>(i, x). (i, if i = a then x\<lparr>ActorLocation := p\<rparr> else x)) (Actors s)
          \<and> (\<forall>b. b \<noteq> a \<longrightarrow> GetActor s' b = GetActor s b)
          \<and> Effects s' = Effects s @ [Eff_SetActorLocation a p]
          \<and> s'\<lparr>Actors := Actors s, Effects := Effects s, LogTemp := LogTemp s\<rparr> = s)
      \<and> (\<exists>s'. SetActorRotation n r s = Returns True s'
          \<and> Actors s' = map (\<lambda>(i, x). (i, if i = a then x\<lparr>ActorRotation := r\<rparr> else x)) (Actors s)
          \<and> (\<forall>b. b \<noteq> a \<longrightarrow> GetActor s' b = GetActor s b)
          \<and> Effects s' = Effects s @ [Eff_SetActorRotation a r]
          \<and> s'\<lparr>Actors := Actors s, Effects := Effects s, LogTemp := LogTemp s\<rparr> = s)
      \<and> (\<exists>s'. SetActorScale n v s = Returns True s'
          \<and> Actors s' = map (\<lambda>(i, x). (i, if i = a then x\<lparr>ActorScale3D := v\<rparr> else x)) (Actors s)
          \<and> (\<forall>b. b \<noteq> a \<longrightarrow> GetActor s' b = GetActor s b)
          \<and> Effects s' = Effects s @ [Eff_SetActorScale3D a v]
          \<and> s'\<lparr>Actors := Actors s, Effects := Effects s, LogTemp := LogTemp s\<rparr> = s))"
proof (intro conjI impI)
  assume nf: "FindActorByName n s = Returns None s1"
  from FindActorByName_None_state [OF nf] obtain l where s1: "s1 = s\<lparr>LogTemp := LogTemp s @ [l]\<rparr>"
    by blast
  show "SetActorPosition n p s = Returns False s1" using nf by (simp add: SetActorPosition_def)
  show "SetActorRotation n r s = Returns False s1" using nf by (simp add: SetActorRotation_def)
  show "SetActorScale n v s = Returns False s1" using nf by (simp add: SetActorScale_def)
  show "Actors s1 = Actors s" using s1 by simp
  show "Effects s1 = Effects s" using s1 by simp
  show "s1\<lparr>LogTemp := LogTemp s\<rparr> = s" using s1 by simp
next
  assume f: "FindActorByName n s = Returns (Some a) s1"
  then have s1: "s1 = s" by (rule FindActorByName_Some_state)
  let ?s' = "UE_LOG Log ''Set position of actor '%s' to (%f, %f, %f)''
               [ArgS n, ArgF (X p), ArgF (Y p), ArgF (Z p)] (SetActorLocation a p s)"
  have "SetActorPosition n p s = Returns True ?s'"
    using f s1 by (simp add: SetActorPosition_def)
  moreover have "Actors ?s' = map (\<lambda>(i, x). (i, if i = a then x\<lparr>ActorLocation := p\<rparr> else x)) (Actors s)"
    by (simp add: UE_LOG_def SetActorLocation_def effect_def update_actor_map)
  moreover have "\<forall>b. b \<noteq> a \<longrightarrow> GetActor ?s' b = GetActor s b"
    using GetActor_update_actor [of a _ s]
    by (simp add: UE_LOG_def SetActorLocation_def effect_def GetActor_def update_actor_def)
  moreover have "Effects ?s' = Effects s @ [Eff_SetActorLocation a p]"
    by (simp add: UE_LOG_def SetActorLocation_def effect_def update_actor_def)
  moreover have "?s'\<lparr>Actors := Actors s, Effects := Effects s, LogTemp := LogTemp s\<rparr> = s"
    by (simp add: UE_LOG_def SetActorLocation_def effect_def update_actor_def)
  ultimately show "\<exists>s'. SetActorPosition n p s = Returns True s'
          \<and> Actors s' = map (\<lambda>(i, x). (i, if i = a then x\<lparr>ActorLocation := p\<rparr> else x)) (Actors s)
          \<and> (\<forall>b. b \<noteq> a \<longrightarrow> GetActor s' b = GetActor s b)
          \<and> Effects s' = Effects s @ [Eff_SetActorLocation a p]
          \<and> s'\<lparr>Actors := Actors s, Effects := Effects s, LogTemp := LogTemp s\<rparr> = s"
    by (intro exI [of _ ?s'] conjI)
  let ?r' = "UE_LOG Log ''Set rotation of actor '%s' to (%f, %f, %f)''
               [ArgS n, ArgF (Pitch r), ArgF (Yaw r), ArgF (Roll r)] (SetActorRotation_host a r s)"
  have "SetActorRotation n r s = Returns True ?r'"
    using f s1 by (simp add: SetActorRotation_def)
  moreover have "Actors ?r' = map (\<lambda>(i, x). (i, if i = a then x\<lparr>ActorRotation := r\<rparr> else x)) (Actors s)"
    by (simp add: UE_LOG_def SetActorRotation_host_def effect_def update_actor_map)
  moreover have "\<forall>b. b \<noteq> a \<longrightarrow> GetActor ?r' b = GetActor s b"
    using GetActor_update_actor [of a _ s]
    by (simp add: UE_LOG_def SetActorRotation_host_def effect_def GetActor_def update_actor_def)
  moreover have "Effects ?r' = Effects s @ [Eff_SetActorRotation a r]"
    by (simp add: UE_LOG_def SetActorRotation_host_def effect_def update_actor_def)
  moreover have "?r'\<lparr>Actors := Actors s, Effects := Effects s, LogTemp := LogTemp s\<rparr> = s"
    by (simp add: UE_LOG_def SetActorRotation_host_def effect_def update_actor_def)
  ultimately show "\<exists>s'. SetActorRotation n r s = Returns True s'
          \<and> Actors s' = map (\<lambda>(i, x). (i, if i = a then x\<lparr>ActorRotation := r\<rparr> else x)) (Actors s)
          \<and> (\<forall>b. b \<noteq> a \<longrightarrow> GetActor s' b = GetActor s b)
          \<and> Effects s' = Effects s @ [Eff_SetActorRotation a r]
          \<and> s'\<lparr>Actors := Actors s, Effects := Effects s, LogTemp := LogTemp s\<rparr> = s"
    by (intro exI [of _ ?r'] conjI)
  let ?v' = "UE_LOG Log ''Set scale of actor '%s' to (%f, %f, %f)''
               [ArgS n, ArgF (X v), ArgF (Y v), ArgF (Z v)] (SetActorScale3D a v s)"
  have "SetActorScale n v s = Returns True ?v'"
    using f s1 by (simp add: SetActorScale_def)
  moreover have "Actors ?v' = map (\<lambda>(i, x). (i, if i = a then x\<lparr>ActorScale3D := v\<rparr> else x)) (Actors s)"
    by (simp add: UE_LOG_def SetActorScale3D_def effect_def update_actor_map)
  moreover have "\<forall>b. b \<noteq> a \<longrightarrow> GetActor ?v' b = GetActor s b"
    using GetActor_update_actor [of a _ s]
    by (simp add: UE_LOG_def SetActorScale3D_def effect_def GetActor_def update_actor_def)
  moreover have "Effects ?v' = Effects s @ [Eff_SetActorScale3D a v]"
    by (simp add: UE_LOG_def SetActorScale3D_def effect_def update_actor_def)
  moreover have "?v'\<lparr>Actors := Actors s, Effects := Effects s, LogTemp := LogTemp s\<rparr> = s"
    by (simp add: UE_LOG_def SetActorScale3D_def effect_def update_actor_def)
  ultimately show "\<exists>s'. SetActorScale n v s = Returns True s'
          \<and> Actors s' = map (\<lambda>(i, x). (i, if i = a then x\<lparr>ActorScale3D := v\<rparr> else x)) (Actors s)
          \<and> (\<forall>b. b \<noteq> a \<longrightarrow> GetActor s' b = GetActor s b)
          \<and> Effects s' = Effects s @ [Eff_SetActorScale3D a v]
          \<and> s'\<lparr>Actors := Actors s, Effects := Effects s, LogTemp := LogTemp s\<rparr> = s"
    by (intro exI [of _ ?v'] conjI)
qed

theorem transform_setters_frame_witness:
  "FindActorByName ''Moon'' demo_host =
     Returns None (UE_LOG Warning ''Actor '%s' not found in the level'' [ArgS ''Moon''] demo_host)
   \<and> SetActorPosition ''Moon'' (FVector 1 2 3) demo_host =
     Returns False (UE_LOG Warning ''Actor '%s' not found in the level'' [ArgS ''Moon''] demo_host)
   \<and> FindActorByName ''Box'' demo_host = Returns (Some 0) demo_host
   \<and> (\<exists>s'. SetActorPosition ''Box'' (FVector 1 2 3) demo_host = Returns True s'
         \<and> Actors s' = [(0, cube_actor\<lparr>ActorLocation := FVector 1 2 3\<rparr>), (1, light_actor)])
   \<and> (\<exists>s'. SetActorRotation ''Box'' (FRotator 0 90 0) demo_host = Returns True s'
         \<and> Actors s' = [(0, cube_actor\<lparr>ActorRotation := FRotator 0 90 0\<rparr>), (1, light_actor)])
   \<and> (\<exists>s'. SetActorScale ''Box'' (FVector 2 2 2) demo_host = Returns True s'
         \<and> Actors s' = [(0, cube_actor\<lparr>ActorScale3D := FVector 2 2 2\<rparr>), (1, light_actor)])"
proof -
  let ?s1 = "UE_LOG Warning ''Actor '%s' not found in the level'' [ArgS ''Moon''] demo_host"
  have nf: "FindActorByName ''Moon'' demo_host = Returns None ?s1"
    by (simp add: FindActorByName_def demo_host_def cube_actor_def light_actor_def
        FString_eq_def ToLower_def
        FindObject_AActor_def)
  have f: "FindActorByName ''Box'' demo_host = Returns (Some 0) demo_host"
    by (simp add: FindActorByName_def demo_host_def cube_actor_def light_actor_def
        FString_eq_def ToLower_def)
  have acts: "Actors demo_host = [(0, cube_actor), (1, light_actor)]"
    by (simp add: demo_host_def)
  from nf f acts
    transform_setters_frame [of "''Moon''" demo_host ?s1 "FVector 1 2 3" "FRotator 0 90 0"
      "FVector 2 2 2" 0]
    transform_setters_frame [of "''Box''" demo_host demo_host "FVector 1 2 3" "FRotator 0 90 0"
      "FVector 2 2 2" 0]
  show ?thesis by auto
qed

subsection \<open>Assigning a material\<close>

lemma GetMaterial_set_slot:
  "GetMaterial (set_slot i m c) j = (if j = i then Some m else GetMaterial c j)"
  by (auto simp: GetMaterial_def set_slot_def nth_append nth_list_update)

lemma NumMaterials_set_slot: "NumMaterials (set_slot i m c) = NumMaterials c"
  by (simp add: set_slot_def)

lemma GetActor_SetMaterial:
  "GetActor (SetMaterial a i m s) b =
     (if b = a
      then map_option (\<lambda>x. x\<lparr>StaticMeshComponent := map_option (set_slot i m) (StaticMeshComponent x)\<rparr>)
             (GetActor s a)
      else GetActor s b)"
proof -
  have "GetActor (SetMaterial a i m s) b =
        GetActor (update_actor a
          (\<lambda>x. x\<lparr>StaticMeshComponent := map_option (set_slot i m) (StaticMeshComponent x)\<rparr>) s) b"
    by (simp add: SetMaterial_def effect_def GetActor_def)
  then show ?thesis by (simp add: GetActor_update_actor)
qed

lemma SetMaterial_loop_effects:
  "Effects (SetMaterial_loop a m i k s) = Effects s @ map (\<lambda>j. Eff_SetMaterial a j m) [i..<k]"
proof (induction a m i k s rule: SetMaterial_loop.induct)
  case (1 a m i k s)
  show ?case
  proof (cases "i < k")
    case True
    have "Effects (SetMaterial a i m s) = Effects s @ [Eff_SetMaterial a i m]"
      by (simp add: SetMaterial_def effect_def update_actor_def)
    with True "1.IH" show ?thesis
      by (subst SetMaterial_loop.simps) (simp add: upt_conv_Cons)
  next
    case False
    then show ?thesis by (subst SetMaterial_loop.simps) simp
  qed
qed

lemma SetMaterial_loop_rest:
  "(SetMaterial_loop a m i k s)\<lparr>Actors := Actors s, Effects := Effects s\<rparr> = s"
proof (induction a m i k s rule: SetMaterial_loop.induct)
  case (1 a m i k s)
  show ?case
  proof (cases "i < k")
    case True
    let ?t = "SetMaterial a i m s"
    have t: "?t\<lparr>Actors := Actors s, Effects := Effects s\<rparr> = s"
      by (simp add: SetMaterial_def effect_def update_actor_def)
    from True "1.IH"
    have "(SetMaterial_loop a m (Suc i) k ?t)\<lparr>Actors := Actors ?t, Effects := Effects ?t\<rparr> = ?t"
      by simp
    then have "(SetMaterial_loop a m (Suc i) k ?t)\<lparr>Actors := Actors ?t, Effects := Effects ?t\<rparr>
                 \<lparr>Actors := Actors s, Effects := Effects s\<rparr> = s"
      using t by simp
    then have "(SetMaterial_loop a m (Suc i) k ?t)\<lparr>Actors := Actors s, Effects := Effects s\<rparr> = s"
      by simp
    with True show ?thesis by (subst SetMaterial_loop.simps) simp
  next
    case False
    then show ?thesis by (subst SetMaterial_loop.simps) simp
  qed
qed

lemma SetMaterial_loop_other:
  "b \<noteq> a \<Longrightarrow> GetActor (SetMaterial_loop a m i k s) b = GetActor s b"
proof (induction a m i k s rule: SetMaterial_loop.induct)
  case (1 a m i k s)
  show ?case
  proof (cases "i < k")
    case True
    with "1.IH" "1.prems" show ?thesis
      by (subst SetMaterial_loop.simps) (simp add: GetActor_SetMaterial)
  next
    case False
    then show ?thesis by (subst SetMaterial_loop.simps) simp
  qed
qed

lemma SetMaterial_loop_component:
  "GetActor s a = Some x \<Longrightarrow> StaticMeshComponent x = Some c \<Longrightarrow>
     \<exists>c'. GetActor (SetMaterial_loop a m i k s) a = Some (x\<lparr>StaticMeshComponent := Some c'\<rparr>)
        \<and> NumMaterials c' = NumMaterials c \<and> StaticMesh c' = StaticMesh c
        \<and> (\<forall>j. GetMaterial c' j = (if i \<le> j \<and> j < k then Some m else GetMaterial c j))"
proof (induction a m i k s arbitrary: x c rule: SetMaterial_loop.induct)
  case (1 a m i k s)
  show ?case
  proof (cases "i < k")
    case True
    let ?t = "SetMaterial a i m s"
    let ?x = "x\<lparr>StaticMeshComponent := Some (set_slot i m c)\<rparr>"
    have gx: "GetActor ?t a = Some ?x"
      using "1.prems" by (simp add: GetActor_SetMaterial)
    have cx: "StaticMeshComponent ?x = Some (set_slot i m c)" by simp
    from "1.IH" [OF True gx cx] obtain c' where
      h: "GetActor (SetMaterial_loop a m (Suc i) k ?t) a = Some (?x\<lparr>StaticMeshComponent := Some c'\<rparr>)"
         "NumMaterials c' = NumMaterials (set_slot i m c)"
         "StaticMesh c' = StaticMesh (set_slot i m c)"
         "\<forall>j. GetMaterial c' j = (if Suc i \<le> j \<and> j < k then Some m else GetMaterial (set_slot i m c) j)"
      by blast
    have run: "SetMaterial_loop a m i k s = SetMaterial_loop a m (Suc i) k ?t"
      using True by (subst SetMaterial_loop.simps) simp
    have g: "GetActor (SetMaterial_loop a m i k s) a = Some (x\<lparr>StaticMeshComponent := Some c'\<rparr>)"
      using h(1) run by simp
    have n: "NumMaterials c' = NumMaterials c" using h(2) by (simp add: NumMaterials_set_slot)
    have sm: "StaticMesh c' = StaticMesh c" using h(3) by (simp add: set_slot_def)
    have sl: "\<forall>j. GetMaterial c' j = (if i \<le> j \<and> j < k then Some m else GetMaterial c j)"
      using h(4) True by (auto simp: GetMaterial_set_slot)
    from g n sm sl show ?thesis by blast
  next
    case False
    then have run: "SetMaterial_loop a m i k s = s" by (subst SetMaterial_loop.simps) simp
    have "x\<lparr>StaticMeshComponent := Some c\<rparr> = x" using "1.prems"(2) by simp
    with run "1.prems" False show ?thesis
      by (intro exI [of _ c]) auto
  qed
qed

lemma GetActor_UE_LOG: "GetActor (UE_LOG v f as s) a = GetActor s a"
  by (simp add: GetActor_def UE_LOG_def)

lemma SetActorMaterial_found:
  assumes f: "FindActorByName n s = Returns (Some a) s1"
    and c: "FindComponentByClass_UStaticMeshComponent s1 a = Some c"
  shows "\<exists>s' c'. SetActorMaterial n (Some m) s = Returns True s'
          \<and> FindComponentByClass_UStaticMeshComponent s' a = Some c'
          \<and> NumMaterials c' = NumMaterials c
          \<and> (\<forall>i < NumMaterials c. GetMaterial c' i = Some m)
          \<and> (\<forall>i \<ge> NumMaterials c. GetMaterial c' i = GetMaterial c i)
          \<and> (\<forall>b. b \<noteq> a \<longrightarrow> GetActor s' b = GetActor s b)
          \<and> Effects s' = Effects s @ map (\<lambda>i. Eff_SetMaterial a i m) [0..<NumMaterials c]"
proof -
  from f have s1: "s1 = s" by (rule FindActorByName_Some_state)
  from c s1 obtain x where x: "GetActor s a = Some x" "StaticMeshComponent x = Some c"
    by (auto simp: FindComponentByClass_UStaticMeshComponent_def split: option.splits)
  let ?t = "SetMaterial_loop a m 0 (NumMaterials c) s"
  let ?s' = "UE_LOG Log (''Set material for actor '%s'' @ [CHR 0x27]) [ArgS n] ?t"
  from SetMaterial_loop_component [OF x, of m 0 "NumMaterials c"] obtain c' where
    h: "GetActor ?t a = Some (x\<lparr>StaticMeshComponent := Some c'\<rparr>)"
       "NumMaterials c' = NumMaterials c"
       "\<forall>j. GetMaterial c' j = (if 0 \<le> j \<and> j < NumMaterials c then Some m else GetMaterial c j)"
    by blast
  have run: "SetActorMaterial n (Some m) s = Returns True ?s'"
    using f s1 c by (simp add: SetActorMaterial_def)
  have comp: "FindComponentByClass_UStaticMeshComponent ?s' a = Some c'"
    using h(1) by (simp add: GetActor_UE_LOG FindComponentByClass_UStaticMeshComponent_def)
  have lo: "\<forall>i < NumMaterials c. GetMaterial c' i = Some m" using h(3) by simp
  have hi: "\<forall>i \<ge> NumMaterials c. GetMaterial c' i = GetMaterial c i" using h(3) by simp
  have oth: "\<forall>b. b \<noteq> a \<longrightarrow> GetActor ?s' b = GetActor s b"
    using SetMaterial_loop_other [of _ a m 0 "NumMaterials c" s]
    by (simp add: GetActor_def UE_LOG_def)
  have eff: "Effects ?s' = Effects s @ map (\<lambda>i. Eff_SetMaterial a i m) [0..<NumMaterials c]"
    using SetMaterial_loop_effects [of a m 0 "NumMaterials c" s] by (simp add: UE_LOG_def)
  show ?thesis
    by (intro exI [of _ ?s'] exI [of _ c'] conjI run comp h(2) lo hi oth eff)
qed

lemma SetActorMaterial_false:
  assumes "SetActorMaterial n M s = Returns b s'"
  shows "(\<not> b \<longleftrightarrow>
            M = None
            \<or> (\<exists>s1. FindActorByName n s = Returns None s1)
            \<or> (\<exists>a s1. FindActorByName n s = Returns (Some a) s1
                  \<and> FindComponentByClass_UStaticMeshComponent s1 a = None))
         \<and> (\<not> b \<longrightarrow> Actors s' = Actors s \<and> Effects s' = Effects s)"
proof (cases M)
  case None
  with assms show ?thesis by (auto simp: SetActorMaterial_def UE_LOG_def)
next
  case (Some m)
  show ?thesis
  proof (cases "FindActorByName n s")
    case NullDereference
    with assms Some show ?thesis by (simp add: SetActorMaterial_def)
  next
    case (Returns r s1)
    show ?thesis
    proof (cases r)
      case None
      from Returns None have nf: "FindActorByName n s = Returns None s1" by simp
      from FindActorByName_None_state [OF nf] obtain l where "s1 = s\<lparr>LogTemp := LogTemp s @ [l]\<rparr>"
        by blast
      with assms Some nf show ?thesis by (auto simp: SetActorMaterial_def)
    next
      case (Some a)
      with Returns have f: "FindActorByName n s = Returns (Some a) s1" by simp
      then have s1: "s1 = s" by (rule FindActorByName_Some_state)
      show ?thesis
      proof (cases "FindComponentByClass_UStaticMeshComponent s1 a")
        case None
        with assms \<open>M = Some m\<close> f s1 show ?thesis
          by (auto simp: SetActorMaterial_def UE_LOG_def)
      next
        case (Some c)
        from SetActorMaterial_found [OF f Some, of m] assms \<open>M = Some m\<close> have "b" by auto
        with f Some \<open>M = Some m\<close> show ?thesis by auto
      qed
    qed
  qed
qed

text \<open>
  C7. When the name finds an actor that has a static mesh component, \<open>SetActorMaterial\<close>
  with a non-null material returns true and has assigned the material to every slot of
  the component, index 0 up to the material count minus one, by one \<open>SetMaterial\<close> call per
  slot in that order, touching no other slot and no other actor. Whenever it returns, it
  returns false exactly when the material is null, the actor is not found, or the found
  actor has no static mesh component, and then no actor and no effect has changed.
\<close>

theorem SetActorMaterial_all_slots:
  "(FindActorByName n s = Returns (Some a) s1
      \<and> FindComponentByClass_UStaticMeshComponent s1 a = Some c \<longrightarrow>
      (\<exists>s' c'. SetActorMaterial n (Some m) s = Returns True s'
          \<and> FindComponentByClass_UStaticMeshComponent s' a = Some c'
          \<and> NumMaterials c' = NumMaterials c
          \<and> (\<forall>i < NumMaterials c. GetMaterial c' i = Some m)
          \<and> (\<forall>i \<ge> NumMaterials c. GetMaterial c' i = GetMaterial c i)
          \<and> (\<forall>b. b \<noteq> a \<longrightarrow> GetActor s' b = GetActor s b)
          \<and> Effects s' = Effects s @ map (\<lambda>i. Eff_SetMaterial a i m) [0..<NumMaterials c]))
   \<and> (\<forall>b s'. SetActorMaterial n M s = Returns b s' \<longrightarrow>
        (\<not> b \<longleftrightarrow>
            M = None
            \<or> (\<exists>s1. FindActorByName n s = Returns None s1)
            \<or> (\<exists>a s1. FindActorByName n s = Returns (Some a) s1
                  \<and> FindComponentByClass_UStaticMeshComponent s1 a = None))
        \<and> (\<not> b \<longrightarrow> Actors s' = Actors s \<and> Effects s' = Effects s))"
  using SetActorMaterial_found [of n s a s1 c m] SetActorMaterial_false [of n M s]
  by blast

theorem SetActorMaterial_all_slots_witness:
  "FindActorByName ''Box'' demo_host = Returns (Some 0) demo_host
   \<and> FindComponentByClass_UStaticMeshComponent demo_host 0 =
       Some \<lparr>StaticMesh = Some ''/Engine/BasicShapes/Cube.Cube'', NumMaterials = 2,
             OverrideMaterials = []\<rparr>
   \<and> (\<exists>s' c'. SetActorMaterial ''Box'' (Some ''/Game/M_Red.M_Red'') demo_host = Returns True s'
         \<and> FindComponentByClass_UStaticMeshComponent s' 0 = Some c'
         \<and> GetMaterial c' 0 = Some ''/Game/M_Red.M_Red''
         \<and> GetMaterial c' 1 = Some ''/Game/M_Red.M_Red''
         \<and> Effects s' = [Eff_SetMaterial 0 0 ''/Game/M_Red.M_Red'',
                          Eff_SetMaterial 0 1 ''/Game/M_Red.M_Red''])
   \<and> SetActorMaterial ''Sun'' (Some ''/Game/M_Red.M_Red'') demo_host =
       Returns False
         (UE_LOG Error (''No static mesh component found on actor '%s'' @ [CHR 0x27])
            [ArgS ''Sun''] demo_host)
   \<and> Actors (UE_LOG Error (''No static mesh component found on actor '%s'' @ [CHR 0x27])
            [ArgS ''Sun''] demo_host) = Actors demo_host"
proof -
  let ?c = "\<lparr>StaticMesh = Some ''/Engine/BasicShapes/Cube.Cube'', NumMaterials = 2,
             OverrideMaterials = []\<rparr>"
  let ?m = "''/Game/M_Red.M_Red''"
  let ?t = "UE_LOG Error (''No static mesh component found on actor '%s'' @ [CHR 0x27])
            [ArgS ''Sun''] demo_host"
  have f: "FindActorByName ''Box'' demo_host = Returns (Some 0) demo_host"
    by (simp add: FindActorByName_def demo_host_def cube_actor_def light_actor_def
        FString_eq_def ToLower_def)
  have c: "FindComponentByClass_UStaticMeshComponent demo_host 0 = Some ?c"
    by (simp add: FindComponentByClass_UStaticMeshComponent_def GetActor_def demo_host_def
        cube_actor_def)
  have g: "FindActorByName ''Sun'' demo_host = Returns (Some 1) demo_host"
    by (simp add: FindActorByName_def demo_host_def cube_actor_def light_actor_def
        FString_eq_def ToLower_def)
  have d: "FindComponentByClass_UStaticMeshComponent demo_host 1 = None"
    by (simp add: FindComponentByClass_UStaticMeshComponent_def GetActor_def demo_host_def
        cube_actor_def light_actor_def)
  have sun: "SetActorMaterial ''Sun'' (Some ?m) demo_host = Returns False ?t"
    using g d by (simp add: SetActorMaterial_def)
  have e: "Effects demo_host = []" by (simp add: demo_host_def)
  have two: "[0..<2] = [0, Suc 0]" by (simp add: upt_conv_Cons)
  note box_inst = SetActorMaterial_all_slots [of "''Box''" demo_host 0 demo_host ?c ?m "Some ?m"]
  note sun_inst = SetActorMaterial_all_slots [of "''Sun''" demo_host 0 demo_host ?c ?m "Some ?m"]
  from box_inst [THEN conjunct1, THEN mp, OF conjI [OF f c]]
  obtain s' c' where h: "SetActorMaterial ''Box'' (Some ?m) demo_host = Returns True s'"
      "FindComponentByClass_UStaticMeshComponent s' 0 = Some c'"
      "\<forall>i < NumMaterials ?c. GetMaterial c' i = Some ?m"
      "Effects s' = Effects demo_host @ map (\<lambda>i. Eff_SetMaterial 0 i ?m) [0..<NumMaterials ?c]"
    by blast
  from h(3) have m0: "GetMaterial c' 0 = Some ?m" and m1: "GetMaterial c' 1 = Some ?m"
    by simp_all
  from h(4) e two have eff: "Effects s' = [Eff_SetMaterial 0 0 ?m, Eff_SetMaterial 0 1 ?m]"
    by simp
  have box: "\<exists>s' c'. SetActorMaterial ''Box'' (Some ?m) demo_host = Returns True s'
         \<and> FindComponentByClass_UStaticMeshComponent s' 0 = Some c'
         \<and> GetMaterial c' 0 = Some ?m \<and> GetMaterial c' 1 = Some ?m
         \<and> Effects s' = [Eff_SetMaterial 0 0 ?m, Eff_SetMaterial 0 1 ?m]"
    by (intro exI [of _ s'] exI [of _ c'] conjI h(1) h(2) m0 m1 eff)
  from sun_inst [THEN conjunct2, rule_format, OF sun, THEN conjunct2]
  have fr: "Actors ?t = Actors demo_host" by simp
  from f c box sun fr show ?thesis by (intro conjI)
qed

subsection \<open>What each host call leaves alone\<close>

lemma UE_LOG_fields [simp]:
  "GEditor (UE_LOG v f as s) = GEditor s"
  "EditorWorld (UE_LOG v f as s) = EditorWorld s"
  "CurrentLevel (UE_LOG v f as s) = CurrentLevel s"
  "DefaultGameMode (UE_LOG v f as s) = DefaultGameMode s"
  "Actors (UE_LOG v f as s) = Actors s"
  "NextActor (UE_LOG v f as s) = NextActor s"
  "Packages (UE_LOG v f as s) = Packages s"
  "Assets (UE_LOG v f as s) = Assets s"
  "Classes (UE_LOG v f as s) = Classes s"
  "LogTemp (UE_LOG v f as s) = LogTemp s @ [(v, f, as)]"
  "Effects (UE_LOG v f as s) = Effects s"
  by (simp_all add: UE_LOG_def)

lemma effect_fields [simp]:
  "GEditor (effect e s) = GEditor s"
  "EditorWorld (effect e s) = EditorWorld s"
  "CurrentLevel (effect e s) = CurrentLevel s"
  "DefaultGameMode (effect e s) = DefaultGameMode s"
  "Actors (effect e s) = Actors s"
  "NextActor (effect e s) = NextActor s"
  "Packages (effect e s) = Packages s"
  "Assets (effect e s) = Assets s"
  "Classes (effect e s) = Classes s"
  "LogTemp (effect e s) = LogTemp s"
  "Effects (effect e s) = Effects s @ [e]"
  by (simp_all add: effect_def)

lemma update_material_fields [simp]:
  "GEditor (update_material r f s) = GEditor s"
  "EditorWorld (update_material r f s) = EditorWorld s"
  "CurrentLevel (update_material r f s) = CurrentLevel s"
  "DefaultGameMode (update_material r f s) = DefaultGameMode s"
  "Actors (update_material r f s) = Actors s"
  "NextActor (update_material r f s) = NextActor s"
  "Packages (update_material r f s) = Packages s"
  "Classes (update_material r f s) = Classes s"
  "LogTemp (update_material r f s) = LogTemp s"
  "Effects (update_material r f s) = Effects s"
  by (simp_all add: update_material_def)

lemma update_actor_fields [simp]:
  "GEditor (update_actor a f s) = GEditor s"
  "EditorWorld (update_actor a f s) = EditorWorld s"
  "CurrentLevel (update_actor a f s) = CurrentLevel s"
  "DefaultGameMode (update_actor a f s) = DefaultGameMode s"
  "NextActor (update_actor a f s) = NextActor s"
  "Packages (update_actor a f s) = Packages s"
  "Assets (update_actor a f s) = Assets s"
  "Classes (update_actor a f s) = Classes s"
  "LogTemp (update_actor a f s) = LogTemp s"
  "Effects (update_actor a f s) = Effects s"
  by (simp_all add: update_actor_def)

lemma map_of_update_material:
  "map_of (Assets (update_material r f s)) p =
     (if p = r
      then map_option (\<lambda>x. case x of MaterialAsset m \<Rightarrow> MaterialAsset (f m) | _ \<Rightarrow> x)
             (map_of (Assets s) p)
      else map_of (Assets s) p)"
proof -
  have "map_of (map (\<lambda>(q, x). if q = r
            then (q, case x of MaterialAsset m \<Rightarrow> MaterialAsset (f m) | _ \<Rightarrow> x)
            else (q, x)) xs) p
        = (if p = r
           then map_option (\<lambda>x. case x of MaterialAsset m \<Rightarrow> MaterialAsset (f m) | _ \<Rightarrow> x)
                  (map_of xs p)
           else map_of xs p)" for xs
    by (induction xs) (auto split: asset.splits)
  then show ?thesis by (simp add: update_material_def)
qed

lemma LoadObject_UMaterial_update_material [simp]:
  "LoadObject_UMaterial (update_material r f s) p = LoadObject_UMaterial s p"
  by (simp add: LoadObject_UMaterial_def map_of_update_material split: option.split asset.split)

lemma LoadObject_UMaterial_log_effect [simp]:
  "LoadObject_UMaterial (UE_LOG v f as s) p = LoadObject_UMaterial s p"
  "LoadObject_UMaterial (effect e s) p = LoadObject_UMaterial s p"
  by (simp_all add: LoadObject_UMaterial_def)

lemma FindPackage_log_effect [simp]:
  "FindPackage (UE_LOG v f as s) p = FindPackage s p"
  "FindPackage (effect e s) p = FindPackage s p"
  "FindPackage (update_material r g s) p = FindPackage s p"
  by (simp_all add: FindPackage_def)

lemma CreateMaterial_color_expression_keeps [simp]:
  "FindPackage (CreateMaterial_color_expression h M c s) p = FindPackage s p"
  "LoadObject_UMaterial (CreateMaterial_color_expression h M c s) p = LoadObject_UMaterial s p"
  by (simp_all add: CreateMaterial_color_expression_def CreateMaterialExpression_def
      ConnectMaterialProperty_def Set_Constant_def)

lemma CreateMaterial_save_keeps [simp]:
  "FindPackage (CreateMaterial_save h P M n s) p = FindPackage s p"
  "LoadObject_UMaterial (CreateMaterial_save h P M n s) p = LoadObject_UMaterial s p"
  by (simp_all add: CreateMaterial_save_def SavePackage_def)

lemma CreateMaterial_existing:
  assumes "FindPackage s (''/Game/Materials'' @ ''/'' @ n) \<noteq> None"
    and "LoadObject_UMaterial s (''/Game/Materials'' @ ''/'' @ n @ ''.'' @ n) = Some m"
  shows "CreateMaterial h n c s =
           (Some m, UE_LOG Warning ''Material '%s' already exists, trying to load it'' [ArgS n] s)"
  using assms by (simp add: CreateMaterial_def CreateMaterial_new_def Let_def)

lemma CreateMaterial_post:
  "fst (CreateMaterial h n c s) = Some m \<longrightarrow>
     FindPackage (snd (CreateMaterial h n c s)) (''/Game/Materials'' @ ''/'' @ n) \<noteq> None
     \<and> LoadObject_UMaterial (snd (CreateMaterial h n c s)) (''/Game/Materials'' @ ''/'' @ n @ ''.'' @ n) = Some m"
  by (simp add: CreateMaterial_def CreateMaterial_new_def Let_def CreatePackage_def NewObject_UMaterial_def
      split: option.split)
     (simp add: FindPackage_def LoadObject_UMaterial_def)

text \<open>
  C9. \<open>CreateMaterial\<close> is idempotent in the material name. When the package
  \<^verbatim>\<open>/Game/Materials/<name>\<close> exists and a material loads from it, the call returns that
  material and writes nothing: no package, no asset and no effect is new, only the warning
  in the log. Hence a second call with the same name, whatever the colours and whatever
  the host calls would answer, returns the material the first call returned and writes
  nothing.
\<close>

theorem CreateMaterial_idempotent:
  "(FindPackage s (''/Game/Materials'' @ ''/'' @ n) \<noteq> None
      \<and> LoadObject_UMaterial s (''/Game/Materials'' @ ''/'' @ n @ ''.'' @ n) = Some m \<longrightarrow>
      (\<exists>s'. CreateMaterial h n c s = (Some m, s')
         \<and> s' = UE_LOG Warning ''Material '%s' already exists, trying to load it'' [ArgS n] s
         \<and> Packages s' = Packages s \<and> Assets s' = Assets s \<and> Effects s' = Effects s))
   \<and> (\<forall>m1 s1. CreateMaterial h n c s = (Some m1, s1) \<longrightarrow>
        (\<exists>s2. CreateMaterial h2 n c2 s1 = (Some m1, s2)
           \<and> s2 = UE_LOG Warning ''Material '%s' already exists, trying to load it'' [ArgS n] s1
           \<and> Packages s2 = Packages s1 \<and> Assets s2 = Assets s1 \<and> Effects s2 = Effects s1))"
proof (intro conjI impI allI)
  assume "FindPackage s (''/Game/Materials'' @ ''/'' @ n) \<noteq> None
      \<and> LoadObject_UMaterial s (''/Game/Materials'' @ ''/'' @ n @ ''.'' @ n) = Some m"
  then show "\<exists>s'. CreateMaterial h n c s = (Some m, s')
         \<and> s' = UE_LOG Warning ''Material '%s' already exists, trying to load it'' [ArgS n] s
         \<and> Packages s' = Packages s \<and> Assets s' = Assets s \<and> Effects s' = Effects s"
    using CreateMaterial_existing [of s n m h c] by simp
next
  fix m1 s1
  assume first: "CreateMaterial h n c s = (Some m1, s1)"
  with CreateMaterial_post [of h n c s m1]
  have "FindPackage s1 (''/Game/Materials'' @ ''/'' @ n) \<noteq> None"
    and "LoadObject_UMaterial s1 (''/Game/Materials'' @ ''/'' @ n @ ''.'' @ n) = Some m1"
    by simp_all
  then show "\<exists>s2. CreateMaterial h2 n c2 s1 = (Some m1, s2)
           \<and> s2 = UE_LOG Warning ''Material '%s' already exists, trying to load it'' [ArgS n] s1
           \<and> Packages s2 = Packages s1 \<and> Assets s2 = Assets s1 \<and> Effects s2 = Effects s1"
    using CreateMaterial_existing [of s1 n m1 h2 c2] by simp
qed

theorem CreateMaterial_idempotent_witness:
  "\<exists>s1. CreateMaterial demo_outcomes ''Red'' (FLinearColor 1 0 0 1) demo_host =
            (Some ''/Game/Materials/Red.Red'', s1)
      \<and> Packages s1 = [''/Game/Materials/Red'']
      \<and> FindPackage s1 ''/Game/Materials/Red'' \<noteq> None
      \<and> LoadObject_UMaterial s1 ''/Game/Materials/Red.Red'' = Some ''/Game/Materials/Red.Red''
      \<and> CreateMaterial (demo_outcomes\<lparr>SavePackage_ok := False\<rparr>) ''Red'' (FLinearColor 0 1 0 1) s1 =
            (Some ''/Game/Materials/Red.Red'',
             UE_LOG Warning ''Material '%s' already exists, trying to load it'' [ArgS ''Red''] s1)"
proof -
  obtain r s1 where run: "CreateMaterial demo_outcomes ''Red'' (FLinearColor 1 0 0 1) demo_host = (r, s1)"
    by (cases "CreateMaterial demo_outcomes ''Red'' (FLinearColor 1 0 0 1) demo_host")
  have "fst (CreateMaterial demo_outcomes ''Red'' (FLinearColor 1 0 0 1) demo_host) =
          Some ''/Game/Materials/Red.Red''"
    by (simp add: CreateMaterial_def CreateMaterial_new_def Let_def FindPackage_def CreatePackage_def
        NewObject_UMaterial_def demo_outcomes_def demo_host_def)
  with run have r: "r = Some ''/Game/Materials/Red.Red''" by simp
  have "Packages (snd (CreateMaterial demo_outcomes ''Red'' (FLinearColor 1 0 0 1) demo_host)) =
          [''/Game/Materials/Red'']"
    by (simp add: CreateMaterial_def CreateMaterial_new_def Let_def FindPackage_def CreatePackage_def
        NewObject_UMaterial_def demo_outcomes_def demo_host_def CreateMaterial_save_def
        CreateMaterial_color_expression_def CreateMaterialExpression_def
        ConnectMaterialProperty_def Set_Constant_def SavePackage_def)
  with run have pk: "Packages s1 = [''/Game/Materials/Red'']" by simp
  then have fp: "FindPackage s1 ''/Game/Materials/Red'' \<noteq> None" by (simp add: FindPackage_def)
  have lo: "LoadObject_UMaterial s1 ''/Game/Materials/Red.Red'' = Some ''/Game/Materials/Red.Red''"
    using CreateMaterial_post [of demo_outcomes "''Red''" "FLinearColor 1 0 0 1" demo_host
        "''/Game/Materials/Red.Red''"] run r
    by simp
  from CreateMaterial_idempotent [of s1 "''Red''" "''/Game/Materials/Red.Red''"
      "demo_outcomes\<lparr>SavePackage_ok := False\<rparr>" "FLinearColor 0 1 0 1"] fp lo
  have again: "CreateMaterial (demo_outcomes\<lparr>SavePackage_ok := False\<rparr>) ''Red'' (FLinearColor 0 1 0 1) s1 =
            (Some ''/Game/Materials/Red.Red'',
             UE_LOG Warning ''Material '%s' already exists, trying to load it'' [ArgS ''Red''] s1)"
    by simp
  from run r pk fp lo again show ?thesis by (intro exI [of _ s1]) simp
qed

subsection \<open>Creating a game mode\<close>

lemma Set_DefaultPawnClass_fields [simp]:
  "GEditor (Set_DefaultPawnClass gm pawn s) = GEditor s"
  "EditorWorld (Set_DefaultPawnClass gm pawn s) = EditorWorld s"
  "CurrentLevel (Set_DefaultPawnClass gm pawn s) = CurrentLevel s"
  "DefaultGameMode (Set_DefaultPawnClass gm pawn s) = DefaultGameMode s"
  "Actors (Set_DefaultPawnClass gm pawn s) = Actors s"
  "NextActor (Set_DefaultPawnClass gm pawn s) = NextActor s"
  "Packages (Set_DefaultPawnClass gm pawn s) = Packages s"
  "Assets (Set_DefaultPawnClass gm pawn s) = Assets s"
  "LogTemp (Set_DefaultPawnClass gm pawn s) = LogTemp s"
  "Effects (Set_DefaultPawnClass gm pawn s) = Effects s @ [Eff_Set_DefaultPawnClass gm pawn]"
  by (simp_all add: Set_DefaultPawnClass_def)

lemma Set_DefaultGameMode_fields [simp]:
  "GEditor (Set_DefaultGameMode gm s) = GEditor s"
  "EditorWorld (Set_DefaultGameMode gm s) = EditorWorld s"
  "CurrentLevel (Set_DefaultGameMode gm s) = CurrentLevel s"
  "DefaultGameMode (Set_DefaultGameMode gm s) = Some gm"
  "Actors (Set_DefaultGameMode gm s) = Actors s"
  "NextActor (Set_DefaultGameMode gm s) = NextActor s"
  "Packages (Set_DefaultGameMode gm s) = Packages s"
  "Assets (Set_DefaultGameMode gm s) = Assets s"
  "Classes (Set_DefaultGameMode gm s) = Classes s"
  "LogTemp (Set_DefaultGameMode gm s) = LogTemp s"
  "Effects (Set_DefaultGameMode gm s) = Effects s @ [Eff_Set_DefaultGameMode gm]"
  by (simp_all add: Set_DefaultGameMode_def)

lemma set_level_game_mode_fields [simp]:
  "GEditor (CreateGameModeWithPawn_set_level_game_mode g gm s) = GEditor s"
  "EditorWorld (CreateGameModeWithPawn_set_level_game_mode g gm s) = EditorWorld s"
  "CurrentLevel (CreateGameModeWithPawn_set_level_game_mode g gm s) = CurrentLevel s"
  "DefaultGameMode (CreateGameModeWithPawn_set_level_game_mode g gm s) =
     (if GEditor s \<and> EditorWorld s \<and> CurrentLevel s then Some gm else DefaultGameMode s)"
  "Actors (CreateGameModeWithPawn_set_level_game_mode g gm s) = Actors s"
  "NextActor (CreateGameModeWithPawn_set_level_game_mode g gm s) = NextActor s"
  "Packages (CreateGameModeWithPawn_set_level_game_mode g gm s) = Packages s"
  "Assets (CreateGameModeWithPawn_set_level_game_mode g gm s) = Assets s"
  "Classes (CreateGameModeWithPawn_set_level_game_mode g gm s) = Classes s"
  "Effects (CreateGameModeWithPawn_set_level_game_mode g gm s) =
     Effects s @ (if GEditor s \<and> EditorWorld s \<and> CurrentLevel s
                  then [Eff_Set_DefaultGameMode gm, Eff_MarkWorldSettingsDirty] else [])"
  by (simp_all add: CreateGameModeWithPawn_set_level_game_mode_def)

lemma CreateGameModeWithPawn_empty_path:
  "g = [] \<or> p = [] \<Longrightarrow>
     CreateGameModeWithPawn h g p b s =
       (json_error ''Empty path provided'',
        UE_LOG Error ''GameModePath or PawnBlueprintPath is empty'' [] s)"
  by (simp add: CreateGameModeWithPawn_def)

lemma CreateGameModeWithPawn_exists:
  "g \<noteq> [] \<Longrightarrow> p \<noteq> [] \<Longrightarrow> LoadObject_UBlueprint s g \<noteq> None \<Longrightarrow>
     CreateGameModeWithPawn h g p b s =
       (json_error ''Game mode already exists'',
        UE_LOG Warning ''Game mode already exists at %s'' [ArgS g] s)"
  by (simp add: CreateGameModeWithPawn_def)

lemma CreateGameModeWithPawn_base_class:
  "g \<noteq> [] \<Longrightarrow> p \<noteq> [] \<Longrightarrow> LoadObject_UBlueprint s g = None \<Longrightarrow>
   FindObject_UClass s (BaseClassToUse b) = None
     \<or> \<not> IsChildOf s (BaseClassToUse b) ''GameModeBase'' \<Longrightarrow>
     CreateGameModeWithPawn h g p b s =
       (json_error ''Invalid base class'',
        UE_LOG Error ''Invalid base class %s for game mode'' [ArgS (BaseClassToUse b)] s)"
  by (simp add: CreateGameModeWithPawn_def)

lemma CreateGameModeWithPawn_pawn:
  "g \<noteq> [] \<Longrightarrow> p \<noteq> [] \<Longrightarrow> LoadObject_UBlueprint s g = None \<Longrightarrow>
   FindObject_UClass s (BaseClassToUse b) \<noteq> None \<Longrightarrow>
   IsChildOf s (BaseClassToUse b) ''GameModeBase'' \<Longrightarrow>
   PawnGeneratedClass s p = None \<Longrightarrow>
     CreateGameModeWithPawn h g p b s =
       (json_error ''Invalid pawn blueprint'',
        UE_LOG Error ''Invalid pawn blueprint: %s'' [ArgS p] s)"
  by (simp add: CreateGameModeWithPawn_def del: not_None_eq)

lemma CreateGameModeWithPawn_not_created:
  "g \<noteq> [] \<Longrightarrow> p \<noteq> [] \<Longrightarrow> LoadObject_UBlueprint s g = None \<Longrightarrow>
   FindObject_UClass s (BaseClassToUse b) \<noteq> None \<Longrightarrow>
   IsChildOf s (BaseClassToUse b) ''GameModeBase'' \<Longrightarrow>
   PawnGeneratedClass s p = Some pc \<Longrightarrow>
   CreateAsset_result h = AssetNotCreated \<Longrightarrow>
     CreateGameModeWithPawn h g p b s =
       (json_error ''Failed to create game mode'',
        UE_LOG Error ''Failed to create game mode blueprint at %s'' [ArgS g] s)"
  by (simp add: CreateGameModeWithPawn_def CreateAsset_def del: not_None_eq)

lemma LoadObject_UBlueprint_effect [simp]:
  "LoadObject_UBlueprint (effect e s) q = LoadObject_UBlueprint s q"
  "LoadObject_UBlueprint (UE_LOG v f as s) q = LoadObject_UBlueprint s q"
  by (simp_all add: LoadObject_UBlueprint_def)

lemma GetClassDefaultObject_effect [simp]:
  "GetClassDefaultObject (effect e s) q = GetClassDefaultObject s q"
  by (simp add: GetClassDefaultObject_def)

lemma CreateGameModeWithPawn_no_class:
  "g \<noteq> [] \<Longrightarrow> p \<noteq> [] \<Longrightarrow> LoadObject_UBlueprint s g = None \<Longrightarrow>
   FindObject_UClass s (BaseClassToUse b) \<noteq> None \<Longrightarrow>
   IsChildOf s (BaseClassToUse b) ''GameModeBase'' \<Longrightarrow>
   PawnGeneratedClass s p = Some pc \<Longrightarrow>
   CreateAsset_result h = BlueprintWithoutClass \<Longrightarrow>
     fst (CreateGameModeWithPawn h g p b s) = json_error ''No generated class''
     \<and> Effects (snd (CreateGameModeWithPawn h g p b s)) =
         Effects s @ [Eff_CreateAsset (GetShortName g) (GetLongPackagePath g) (BaseClassToUse b)]
     \<and> LoadObject_UBlueprint (snd (CreateGameModeWithPawn h g p b s))
           (GetLongPackagePath g @ ''/'' @ GetShortName g) =
         Some \<lparr>ParentClass = BaseClassToUse b, GeneratedClass = None\<rparr>"
  by (simp add: CreateGameModeWithPawn_def CreateAsset_def BlueprintGeneratedClass_def Let_def
        del: not_None_eq)
     (simp add: LoadObject_UBlueprint_def)

lemma CreateAsset_with_class:
  assumes "CreateAsset_result h = BlueprintWithClass gc cdo"
  shows "\<exists>s1. CreateAsset h a pk par s = (Some (pk @ ''/'' @ a), s1)
           \<and> BlueprintGeneratedClass s1 (pk @ ''/'' @ a) = Some gc
           \<and> LoadObject_UBlueprint s1 (pk @ ''/'' @ a) =
               Some \<lparr>ParentClass = par, GeneratedClass = Some gc\<rparr>
           \<and> GetClassDefaultObject s1 gc = cdo
           \<and> Effects s1 = Effects s @ [Eff_CreateAsset a pk par]
           \<and> LogTemp s1 = LogTemp s
           \<and> GEditor s1 = GEditor s \<and> EditorWorld s1 = EditorWorld s
           \<and> CurrentLevel s1 = CurrentLevel s \<and> DefaultGameMode s1 = DefaultGameMode s"
  using assms
  by (simp add: CreateAsset_def Let_def BlueprintGeneratedClass_def LoadObject_UBlueprint_def
      GetClassDefaultObject_def)

lemma GetClassDefaultObject_Set_DefaultPawnClass:
  "GetClassDefaultObject (Set_DefaultPawnClass gm pawn s) gm =
     (case map_of (Classes s) gm of None \<Rightarrow> None | Some k \<Rightarrow> Some (GameModeCDO (Some pawn)))"
proof -
  have "map_of (map (\<lambda>(n, k). if n = gm
            then (n, k\<lparr>ClassDefaultObject := Some (GameModeCDO (Some pawn))\<rparr>)
            else (n, k)) xs) gm
        = map_option (\<lambda>k. k\<lparr>ClassDefaultObject := Some (GameModeCDO (Some pawn))\<rparr>) (map_of xs gm)"
    for xs :: "(class_ref \<times> UClass) list"
    by (induction xs) auto
  then show ?thesis
    by (simp add: GetClassDefaultObject_def Set_DefaultPawnClass_def effect_def split: option.split)
qed

lemma LoadObject_UBlueprint_keeps [simp]:
  "LoadObject_UBlueprint (CreateGameModeWithPawn_set_level_game_mode g gm s) q =
     LoadObject_UBlueprint s q"
  "LoadObject_UBlueprint (Set_DefaultPawnClass gm pawn s) q = LoadObject_UBlueprint s q"
  by (simp_all add: LoadObject_UBlueprint_def)

lemma GetClassDefaultObject_keeps [simp]:
  "GetClassDefaultObject (CreateGameModeWithPawn_set_level_game_mode g gm s) q =
     GetClassDefaultObject s q"
  "GetClassDefaultObject (UE_LOG v f as s) q = GetClassDefaultObject s q"
  by (simp_all add: GetClassDefaultObject_def)

lemma CreateGameModeWithPawn_created:
  assumes g: "g \<noteq> []" "p \<noteq> []" "LoadObject_UBlueprint s g = None"
    and base: "FindObject_UClass s (BaseClassToUse b) \<noteq> None"
      "IsChildOf s (BaseClassToUse b) ''GameModeBase''"
    and pawn: "PawnGeneratedClass s p = Some pc"
    and created: "CreateAsset_result h = BlueprintWithClass gc cdo"
  shows "fst (CreateGameModeWithPawn h g p b s) =
       ''{\"success\": true, \"message\": \"Created game mode '' @ g @ '' with pawn '' @ p
         @ '' and set as scene default\"}''
     \<and> Effects (snd (CreateGameModeWithPawn h g p b s)) =
         Effects s
         @ [Eff_CreateAsset (GetShortName g) (GetLongPackagePath g) (BaseClassToUse b)]
         @ (case cdo of Some (GameModeCDO old) \<Rightarrow> [Eff_Set_DefaultPawnClass gc pc] | _ \<Rightarrow> [])
         @ (if GEditor s \<and> EditorWorld s \<and> CurrentLevel s
            then [Eff_Set_DefaultGameMode gc, Eff_MarkWorldSettingsDirty] else [])
         @ [Eff_Modify (GetLongPackagePath g @ ''/'' @ GetShortName g),
            Eff_MarkBlueprintAsStructurallyModified (GetLongPackagePath g @ ''/'' @ GetShortName g)]
     \<and> DefaultGameMode (snd (CreateGameModeWithPawn h g p b s)) =
         (if GEditor s \<and> EditorWorld s \<and> CurrentLevel s then Some gc else DefaultGameMode s)
     \<and> GetClassDefaultObject (snd (CreateGameModeWithPawn h g p b s)) gc =
         (case cdo of Some (GameModeCDO old) \<Rightarrow> Some (GameModeCDO (Some pc)) | _ \<Rightarrow> cdo)
     \<and> LoadObject_UBlueprint (snd (CreateGameModeWithPawn h g p b s))
           (GetLongPackagePath g @ ''/'' @ GetShortName g) =
         Some \<lparr>ParentClass = BaseClassToUse b, GeneratedClass = Some gc\<rparr>"
proof -
  let ?bp = "GetLongPackagePath g @ ''/'' @ GetShortName g"
  from CreateAsset_with_class [OF created, of "GetShortName g" "GetLongPackagePath g"
      "BaseClassToUse b" s]
  obtain s1 where s1:
    "CreateAsset h (GetShortName g) (GetLongPackagePath g) (BaseClassToUse b) s = (Some ?bp, s1)"
    "BlueprintGeneratedClass s1 ?bp = Some gc"
    "LoadObject_UBlueprint s1 ?bp = Some \<lparr>ParentClass = BaseClassToUse b, GeneratedClass = Some gc\<rparr>"
    "GetClassDefaultObject s1 gc = cdo"
    "Effects s1 = Effects s @ [Eff_CreateAsset (GetShortName g) (GetLongPackagePath g) (BaseClassToUse b)]"
    "GEditor s1 = GEditor s" "EditorWorld s1 = EditorWorld s"
    "CurrentLevel s1 = CurrentLevel s" "DefaultGameMode s1 = DefaultGameMode s"
    by blast
  let ?s2 = "case cdo of Some (GameModeCDO old) \<Rightarrow> Set_DefaultPawnClass gc pc s1 | _ \<Rightarrow> s1"
  let ?s5 = "effect (Eff_MarkBlueprintAsStructurallyModified ?bp)
               (effect (Eff_Modify ?bp) (CreateGameModeWithPawn_set_level_game_mode g gc ?s2))"
  have run: "CreateGameModeWithPawn h g p b s =
       (''{\"success\": true, \"message\": \"Created game mode '' @ g @ '' with pawn '' @ p
         @ '' and set as scene default\"}'',
        UE_LOG Log ''Created game mode %s with pawn %s and set as scene default''
          [ArgS g, ArgS p] ?s5)"
    using g base pawn s1(1,2,4)
    by (simp add: CreateGameModeWithPawn_def Let_def del: not_None_eq)
  have s2: "Effects ?s2 = Effects s1
              @ (case cdo of Some (GameModeCDO old) \<Rightarrow> [Eff_Set_DefaultPawnClass gc pc] | _ \<Rightarrow> [])"
      "GEditor ?s2 = GEditor s1" "EditorWorld ?s2 = EditorWorld s1"
      "CurrentLevel ?s2 = CurrentLevel s1" "DefaultGameMode ?s2 = DefaultGameMode s1"
      "Assets ?s2 = Assets s1"
    by (simp_all split: option.split CDO.split)
  have cls: "GetClassDefaultObject ?s2 gc =
         (case cdo of Some (GameModeCDO old) \<Rightarrow> Some (GameModeCDO (Some pc)) | _ \<Rightarrow> cdo)"
  proof (cases cdo)
    case None
    with s1(4) show ?thesis by simp
  next
    case (Some d)
    show ?thesis
    proof (cases d)
      case (GameModeCDO old)
      with Some s1(4) have "map_of (Classes s1) gc \<noteq> None"
        by (auto simp: GetClassDefaultObject_def split: option.splits)
      with Some GameModeCDO show ?thesis
        by (auto simp: GetClassDefaultObject_Set_DefaultPawnClass)
    next
      case PlainCDO
      with Some s1(4) show ?thesis by simp
    qed
  qed
  have e: "Effects (snd (CreateGameModeWithPawn h g p b s)) =
         Effects s
         @ [Eff_CreateAsset (GetShortName g) (GetLongPackagePath g) (BaseClassToUse b)]
         @ (case cdo of Some (GameModeCDO old) \<Rightarrow> [Eff_Set_DefaultPawnClass gc pc] | _ \<Rightarrow> [])
         @ (if GEditor s \<and> EditorWorld s \<and> CurrentLevel s
            then [Eff_Set_DefaultGameMode gc, Eff_MarkWorldSettingsDirty] else [])
         @ [Eff_Modify ?bp, Eff_MarkBlueprintAsStructurallyModified ?bp]"
    unfolding run by (simp add: s2 s1(5-9))
  have d: "DefaultGameMode (snd (CreateGameModeWithPawn h g p b s)) =
         (if GEditor s \<and> EditorWorld s \<and> CurrentLevel s then Some gc else DefaultGameMode s)"
    unfolding run by (simp add: s2 s1(5-9))
  have c: "GetClassDefaultObject (snd (CreateGameModeWithPawn h g p b s)) gc =
         (case cdo of Some (GameModeCDO old) \<Rightarrow> Some (GameModeCDO (Some pc)) | _ \<Rightarrow> cdo)"
    unfolding run using cls by simp
  have l: "LoadObject_UBlueprint (snd (CreateGameModeWithPawn h g p b s)) ?bp =
         Some \<lparr>ParentClass = BaseClassToUse b, GeneratedClass = Some gc\<rparr>"
    unfolding run using s1(3)
    by (simp split: option.split CDO.split)
  from run e d c l show ?thesis by simp
qed

text \<open>
  C3, as the claim states it, fails: on success the function writes more than one field.
  On the example host it assigns the default pawn class of the new class and also the
  default game mode of the current level, and marks the world settings dirty.
\<close>

theorem CreateGameModeWithPawn_one_field_counterexample:
  "fst (CreateGameModeWithPawn demo_outcomes ''/Game/Modes/BP_GameMode'' ''/Game/BP_Pawn'' []
          demo_host) =
     ''{\"success\": true, \"message\": \"Created game mode /Game/Modes/BP_GameMode with pawn /Game/BP_Pawn and set as scene default\"}''
   \<and> Effects (snd (CreateGameModeWithPawn demo_outcomes ''/Game/Modes/BP_GameMode''
                      ''/Game/BP_Pawn'' [] demo_host)) =
       [Eff_CreateAsset ''BP_GameMode'' ''/Game/Modes'' ''GameModeBase'',
        Eff_Set_DefaultPawnClass ''BP_GameMode_C'' ''BP_Pawn_C'',
        Eff_Set_DefaultGameMode ''BP_GameMode_C'',
        Eff_MarkWorldSettingsDirty,
        Eff_Modify ''/Game/Modes/BP_GameMode'',
        Eff_MarkBlueprintAsStructurallyModified ''/Game/Modes/BP_GameMode'']
   \<and> DefaultGameMode demo_host = None
   \<and> DefaultGameMode (snd (CreateGameModeWithPawn demo_outcomes ''/Game/Modes/BP_GameMode''
                      ''/Game/BP_Pawn'' [] demo_host)) = Some ''BP_GameMode_C''"
proof -
  have g: "''/Game/Modes/BP_GameMode'' \<noteq> []" "''/Game/BP_Pawn'' \<noteq> []" by simp_all
  have l: "LoadObject_UBlueprint demo_host ''/Game/Modes/BP_GameMode'' = None"
    by (simp add: LoadObject_UBlueprint_def demo_host_def)
  have b1: "FindObject_UClass demo_host (BaseClassToUse []) \<noteq> None"
    by (simp add: FindObject_UClass_def BaseClassToUse_def demo_host_def)
  have b2: "IsChildOf demo_host (BaseClassToUse []) ''GameModeBase''"
    by (simp add: IsChildOf_def BaseClassToUse_def demo_host_def)
  have pw: "PawnGeneratedClass demo_host ''/Game/BP_Pawn'' = Some ''BP_Pawn_C''"
    by (simp add: PawnGeneratedClass_def LoadObject_UBlueprint_def IsChildOf_def demo_host_def)
  have cr: "CreateAsset_result demo_outcomes =
              BlueprintWithClass ''BP_GameMode_C'' (Some (GameModeCDO None))"
    by (simp add: demo_outcomes_def)
  have nm: "GetShortName ''/Game/Modes/BP_GameMode'' = ''BP_GameMode''"
      "GetLongPackagePath ''/Game/Modes/BP_GameMode'' = ''/Game/Modes''"
    by (simp_all add: GetShortName_def GetLongPackagePath_def)
  have w: "GEditor demo_host" "EditorWorld demo_host" "CurrentLevel demo_host"
      "DefaultGameMode demo_host = None" "Effects demo_host = []"
    by (simp_all add: demo_host_def)
  from CreateGameModeWithPawn_created [OF g l b1 b2 pw cr] nm w show ?thesis
    by (simp add: BaseClassToUse_def)
qed

text \<open>
  C3, amended. \<open>CreateGameModeWithPawn\<close> is a straight line of guards, asset creation,
  field writes and marking. Its four opening guards (a path is empty; a blueprint already
  loads at the game-mode path; the base class is not found or does not derive from the
  game-mode base class; the pawn blueprint does not load, has no generated class, or its
  class does not derive from the pawn class) each return their error JSON with nothing
  written but the log line. Past the guards the asset is created: when creation fails, or
  the new blueprint has no generated class, an error JSON is returned (in the second case
  the asset stays). Otherwise the function returns the success JSON, and its writes are,
  in order: the asset; the default pawn class on the class default object when that object
  is a game mode; the default game mode of the current level and the dirty mark of its
  world settings when the editor, its world and a current level exist; the modification
  marks on the blueprint.
\<close>

theorem CreateGameModeWithPawn_steps:
  "(g = [] \<or> p = [] \<longrightarrow>
      CreateGameModeWithPawn h g p b s =
        (''{\"success\": false, \"error\": \"Empty path provided\"}'',
         UE_LOG Error ''GameModePath or PawnBlueprintPath is empty'' [] s))
   \<and> (g \<noteq> [] \<and> p \<noteq> [] \<and> LoadObject_UBlueprint s g \<noteq> None \<longrightarrow>
      CreateGameModeWithPawn h g p b s =
        (''{\"success\": false, \"error\": \"Game mode already exists\"}'',
         UE_LOG Warning ''Game mode already exists at %s'' [ArgS g] s))
   \<and> (g \<noteq> [] \<and> p \<noteq> [] \<and> LoadObject_UBlueprint s g = None
        \<and> (FindObject_UClass s (BaseClassToUse b) = None
             \<or> \<not> IsChildOf s (BaseClassToUse b) ''GameModeBase'') \<longrightarrow>
      CreateGameModeWithPawn h g p b s =
        (''{\"success\": false, \"error\": \"Invalid base class\"}'',
         UE_LOG Error ''Invalid base class %s for game mode'' [ArgS (BaseClassToUse b)] s))
   \<and> (g \<noteq> [] \<and> p \<noteq> [] \<and> LoadObject_UBlueprint s g = None
        \<and> FindObject_UClass s (BaseClassToUse b) \<noteq> None
        \<and> IsChildOf s (BaseClassToUse b) ''GameModeBase'' \<longrightarrow>
      (PawnGeneratedClass s p = None \<longrightarrow>
         CreateGameModeWithPawn h g p b s =
           (''{\"success\": false, \"error\": \"Invalid pawn blueprint\"}'',
            UE_LOG Error ''Invalid pawn blueprint: %s'' [ArgS p] s))
      \<and> (\<forall>pc. PawnGeneratedClass s p = Some pc \<longrightarrow>
           (CreateAsset_result h = AssetNotCreated \<longrightarrow>
              CreateGameModeWithPawn h g p b s =
                (''{\"success\": false, \"error\": \"Failed to create game mode\"}'',
                 UE_LOG Error ''Failed to create game mode blueprint at %s'' [ArgS g] s))
           \<and> (CreateAsset_result h = BlueprintWithoutClass \<longrightarrow>
              fst (CreateGameModeWithPawn h g p b s) =
                ''{\"success\": false, \"error\": \"No generated class\"}''
              \<and> Effects (snd (CreateGameModeWithPawn h g p b s)) =
                  Effects s
                  @ [Eff_CreateAsset (GetShortName g) (GetLongPackagePath g) (BaseClassToUse b)])
           \<and> (\<forall>gc cdo. CreateAsset_result h = BlueprintWithClass gc cdo \<longrightarrow>
              fst (CreateGameModeWithPawn h g p b s) =
                ''{\"success\": true, \"message\": \"Created game mode '' @ g @ '' with pawn '' @ p
                  @ '' and set as scene default\"}''
              \<and> Effects (snd (CreateGameModeWithPawn h g p b s)) =
                  Effects s
                  @ [Eff_CreateAsset (GetShortName g) (GetLongPackagePath g) (BaseClassToUse b)]
                  @ (case cdo of
                       Some (GameModeCDO old) \<Rightarrow> [Eff_Set_DefaultPawnClass gc pc]
                     | _ \<Rightarrow> [])
                  @ (if GEditor s \<and> EditorWorld s \<and> CurrentLevel s
                     then [Eff_Set_DefaultGameMode gc, Eff_MarkWorldSettingsDirty] else [])
                  @ [Eff_Modify (GetLongPackagePath g @ ''/'' @ GetShortName g),
                     Eff_MarkBlueprintAsStructurallyModified
                       (GetLongPackagePath g @ ''/'' @ GetShortName g)]
              \<and> DefaultGameMode (snd (CreateGameModeWithPawn h g p b s)) =
                  (if GEditor s \<and> EditorWorld s \<and> CurrentLevel s
                   then Some gc else DefaultGameMode s)
              \<and> GetClassDefaultObject (snd (CreateGameModeWithPawn h g p b s)) gc =
                  (case cdo of
                     Some (GameModeCDO old) \<Rightarrow> Some (GameModeCDO (Some pc))
                   | _ \<Rightarrow> cdo))))"
proof (intro conjI impI allI)
  assume "g = [] \<or> p = []"
  then show "CreateGameModeWithPawn h g p b s =
        (''{\"success\": false, \"error\": \"Empty path provided\"}'',
         UE_LOG Error ''GameModePath or PawnBlueprintPath is empty'' [] s)"
    using CreateGameModeWithPawn_empty_path [of g p h b s] by (simp add: json_error_def)
next
  assume "g \<noteq> [] \<and> p \<noteq> [] \<and> LoadObject_UBlueprint s g \<noteq> None"
  then show "CreateGameModeWithPawn h g p b s =
        (''{\"success\": false, \"error\": \"Game mode already exists\"}'',
         UE_LOG Warning ''Game mode already exists at %s'' [ArgS g] s)"
    using CreateGameModeWithPawn_exists [of g p s h b] by (simp add: json_error_def)
next
  assume "g \<noteq> [] \<and> p \<noteq> [] \<and> LoadObject_UBlueprint s g = None
        \<and> (FindObject_UClass s (BaseClassToUse b) = None
             \<or> \<not> IsChildOf s (BaseClassToUse b) ''GameModeBase'')"
  then show "CreateGameModeWithPawn h g p b s =
        (''{\"success\": false, \"error\": \"Invalid base class\"}'',
         UE_LOG Error ''Invalid base class %s for game mode'' [ArgS (BaseClassToUse b)] s)"
    using CreateGameModeWithPawn_base_class [of g p s b h] by (simp add: json_error_def)
next
  assume a: "g \<noteq> [] \<and> p \<noteq> [] \<and> LoadObject_UBlueprint s g = None
        \<and> FindObject_UClass s (BaseClassToUse b) \<noteq> None
        \<and> IsChildOf s (BaseClassToUse b) ''GameModeBase''"
  {
    assume "PawnGeneratedClass s p = None"
    with a show "CreateGameModeWithPawn h g p b s =
           (''{\"success\": false, \"error\": \"Invalid pawn blueprint\"}'',
            UE_LOG Error ''Invalid pawn blueprint: %s'' [ArgS p] s)"
      using CreateGameModeWithPawn_pawn [of g p s b h]
      by (simp add: json_error_def del: not_None_eq)
  }
  fix pc
  assume pc: "PawnGeneratedClass s p = Some pc"
  {
    assume "CreateAsset_result h = AssetNotCreated"
    with a pc show "CreateGameModeWithPawn h g p b s =
                (''{\"success\": false, \"error\": \"Failed to create game mode\"}'',
                 UE_LOG Error ''Failed to create game mode blueprint at %s'' [ArgS g] s)"
      using CreateGameModeWithPawn_not_created [of g p s b pc h]
      by (simp add: json_error_def del: not_None_eq)
  }
  {
    assume nc: "CreateAsset_result h = BlueprintWithoutClass"
    from a pc nc CreateGameModeWithPawn_no_class [of g p s b pc h]
    show "fst (CreateGameModeWithPawn h g p b s) =
                ''{\"success\": false, \"error\": \"No generated class\"}''"
      by (simp add: json_error_def del: not_None_eq)
    from a pc nc CreateGameModeWithPawn_no_class [of g p s b pc h]
    show "Effects (snd (CreateGameModeWithPawn h g p b s)) =
                  Effects s
                  @ [Eff_CreateAsset (GetShortName g) (GetLongPackagePath g) (BaseClassToUse b)]"
      by (simp del: not_None_eq)
  }
  fix gc cdo
  assume cr: "CreateAsset_result h = BlueprintWithClass gc cdo"
  from a have g: "g \<noteq> []" "p \<noteq> []" "LoadObject_UBlueprint s g = None"
    and base: "FindObject_UClass s (BaseClassToUse b) \<noteq> None"
      "IsChildOf s (BaseClassToUse b) ''GameModeBase''"
    by blast+
  note made = CreateGameModeWithPawn_created [OF g base pc cr]
  from made show "fst (CreateGameModeWithPawn h g p b s) =
                ''{\"success\": true, \"message\": \"Created game mode '' @ g @ '' with pawn '' @ p
                  @ '' and set as scene default\"}''"
    by blast
  from made show "Effects (snd (CreateGameModeWithPawn h g p b s)) =
                  Effects s
                  @ [Eff_CreateAsset (GetShortName g) (GetLongPackagePath g) (BaseClassToUse b)]
                  @ (case cdo of
                       Some (GameModeCDO old) \<Rightarrow> [Eff_Set_DefaultPawnClass gc pc]
                     | _ \<Rightarrow> [])
                  @ (if GEditor s \<and> EditorWorld s \<and> CurrentLevel s
                     then [Eff_Set_DefaultGameMode gc, Eff_MarkWorldSettingsDirty] else [])
                  @ [Eff_Modify (GetLongPackagePath g @ ''/'' @ GetShortName g),
                     Eff_MarkBlueprintAsStructurallyModified
                       (GetLongPackagePath g @ ''/'' @ GetShortName g)]"
    by blast
  from made show "DefaultGameMode (snd (CreateGameModeWithPawn h g p b s)) =
                  (if GEditor s \<and> EditorWorld s \<and> CurrentLevel s
                   then Some gc else DefaultGameMode s)"
    by blast
  from made show "GetClassDefaultObject (snd (CreateGameModeWithPawn h g p b s)) gc =
                  (case cdo of
                     Some (GameModeCDO old) \<Rightarrow> Some (GameModeCDO (Some pc))
                   | _ \<Rightarrow> cdo)"
    by blast
qed

theorem CreateGameModeWithPawn_steps_witness:
  "CreateGameModeWithPawn demo_outcomes [] ''/Game/BP_Pawn'' [] demo_host =
     (''{\"success\": false, \"error\": \"Empty path provided\"}'',
      UE_LOG Error ''GameModePath or PawnBlueprintPath is empty'' [] demo_host)
   \<and> LoadObject_UBlueprint demo_host ''/Game/Modes/BP_GameMode'' = None
   \<and> FindObject_UClass demo_host (BaseClassToUse []) \<noteq> None
   \<and> IsChildOf demo_host (BaseClassToUse []) ''GameModeBase''
   \<and> PawnGeneratedClass demo_host ''/Game/BP_Pawn'' = Some ''BP_Pawn_C''
   \<and> CreateAsset_result demo_outcomes =
        BlueprintWithClass ''BP_GameMode_C'' (Some (GameModeCDO None))
   \<and> fst (CreateGameModeWithPawn demo_outcomes ''/Game/Modes/BP_GameMode'' ''/Game/BP_Pawn'' []
            demo_host) =
       ''{\"success\": true, \"message\": \"Created game mode /Game/Modes/BP_GameMode with pawn /Game/BP_Pawn and set as scene default\"}''
   \<and> GetClassDefaultObject
         (snd (CreateGameModeWithPawn demo_outcomes ''/Game/Modes/BP_GameMode'' ''/Game/BP_Pawn''
                 [] demo_host)) ''BP_GameMode_C'' = Some (GameModeCDO (Some ''BP_Pawn_C''))"
proof -
  have l: "LoadObject_UBlueprint demo_host ''/Game/Modes/BP_GameMode'' = None"
    by (simp add: LoadObject_UBlueprint_def demo_host_def)
  have b1: "FindObject_UClass demo_host (BaseClassToUse []) \<noteq> None"
    by (simp add: FindObject_UClass_def BaseClassToUse_def demo_host_def)
  have b2: "IsChildOf demo_host (BaseClassToUse []) ''GameModeBase''"
    by (simp add: IsChildOf_def BaseClassToUse_def demo_host_def)
  have pw: "PawnGeneratedClass demo_host ''/Game/BP_Pawn'' = Some ''BP_Pawn_C''"
    by (simp add: PawnGeneratedClass_def LoadObject_UBlueprint_def IsChildOf_def demo_host_def)
  have cr: "CreateAsset_result demo_outcomes =
              BlueprintWithClass ''BP_GameMode_C'' (Some (GameModeCDO None))"
    by (simp add: demo_outcomes_def)
  note empty = CreateGameModeWithPawn_steps
      [of "[]" "''/Game/BP_Pawn''" demo_outcomes "[]" demo_host, THEN conjunct1]
  note made = CreateGameModeWithPawn_steps
      [of "''/Game/Modes/BP_GameMode''" "''/Game/BP_Pawn''" demo_outcomes "[]" demo_host,
       THEN conjunct2, THEN conjunct2, THEN conjunct2]
  from empty have e: "CreateGameModeWithPawn demo_outcomes [] ''/Game/BP_Pawn'' [] demo_host =
     (''{\"success\": false, \"error\": \"Empty path provided\"}'',
      UE_LOG Error ''GameModePath or PawnBlueprintPath is empty'' [] demo_host)"
    by simp
  from made l b1 b2 pw cr
  have m: "fst (CreateGameModeWithPawn demo_outcomes ''/Game/Modes/BP_GameMode'' ''/Game/BP_Pawn'' []
            demo_host) =
       ''{\"success\": true, \"message\": \"Created game mode /Game/Modes/BP_GameMode with pawn /Game/BP_Pawn and set as scene default\"}''
   \<and> GetClassDefaultObject
         (snd (CreateGameModeWithPawn demo_outcomes ''/Game/Modes/BP_GameMode'' ''/Game/BP_Pawn''
                 [] demo_host)) ''BP_GameMode_C'' = Some (GameModeCDO (Some ''BP_Pawn_C''))"
    by (simp del: not_None_eq)
  from e l b1 b2 pw cr m show ?thesis by (intro conjI) simp_all
qed

text \<open>
  C10, as the claim states it, fails on the answer: with a blueprint at the game-mode
  path and an empty pawn path, the guard on empty paths runs first and the error is
  \<^verbatim>\<open>Empty path provided\<close>.
\<close>

theorem CreateGameModeWithPawn_existing_counterexample:
  "LoadObject_UBlueprint demo_host ''/Game/BP_Pawn'' \<noteq> None
   \<and> fst (CreateGameModeWithPawn demo_outcomes ''/Game/BP_Pawn'' [] [] demo_host) =
       ''{\"success\": false, \"error\": \"Empty path provided\"}''
   \<and> fst (CreateGameModeWithPawn demo_outcomes ''/Game/BP_Pawn'' [] [] demo_host) \<noteq>
       ''{\"success\": false, \"error\": \"Game mode already exists\"}''"
  by (simp add: CreateGameModeWithPawn_def json_error_def LoadObject_UBlueprint_def demo_host_def)

text \<open>
  C10, amended. \<open>CreateGameModeWithPawn\<close> never overwrites an existing asset: whenever a
  blueprint already loads at the game-mode path it returns an error JSON, which is
  \<^verbatim>\<open>{"success": false, "error": "Game mode already exists"}\<close> when both paths are non-empty
  and \<^verbatim>\<open>{"success": false, "error": "Empty path provided"}\<close> when a path is empty, and it
  creates no asset, assigns no default pawn and changes no world settings: the host is as
  before but for one log line.
\<close>

theorem CreateGameModeWithPawn_never_overwrites:
  "LoadObject_UBlueprint s g \<noteq> None \<longrightarrow>
     fst (CreateGameModeWithPawn h g p b s) =
       (if g = [] \<or> p = []
        then ''{\"success\": false, \"error\": \"Empty path provided\"}''
        else ''{\"success\": false, \"error\": \"Game mode already exists\"}'')
     \<and> is_sentinel (RetJson (fst (CreateGameModeWithPawn h g p b s)))
     \<and> Assets (snd (CreateGameModeWithPawn h g p b s)) = Assets s
     \<and> Classes (snd (CreateGameModeWithPawn h g p b s)) = Classes s
     \<and> DefaultGameMode (snd (CreateGameModeWithPawn h g p b s)) = DefaultGameMode s
     \<and> Effects (snd (CreateGameModeWithPawn h g p b s)) = Effects s
     \<and> (snd (CreateGameModeWithPawn h g p b s))\<lparr>LogTemp := LogTemp s\<rparr> = s"
proof (intro impI)
  assume ex: "LoadObject_UBlueprint s g \<noteq> None"
  show "fst (CreateGameModeWithPawn h g p b s) =
       (if g = [] \<or> p = []
        then ''{\"success\": false, \"error\": \"Empty path provided\"}''
        else ''{\"success\": false, \"error\": \"Game mode already exists\"}'')
     \<and> is_sentinel (RetJson (fst (CreateGameModeWithPawn h g p b s)))
     \<and> Assets (snd (CreateGameModeWithPawn h g p b s)) = Assets s
     \<and> Classes (snd (CreateGameModeWithPawn h g p b s)) = Classes s
     \<and> DefaultGameMode (snd (CreateGameModeWithPawn h g p b s)) = DefaultGameMode s
     \<and> Effects (snd (CreateGameModeWithPawn h g p b s)) = Effects s
     \<and> (snd (CreateGameModeWithPawn h g p b s))\<lparr>LogTemp := LogTemp s\<rparr> = s"
  proof (cases "g = [] \<or> p = []")
    case True
    from CreateGameModeWithPawn_empty_path [OF True, of h b s] True show ?thesis
      by (simp add: json_error_def UE_LOG_def)
  next
    case False
    then have "g \<noteq> []" "p \<noteq> []" by simp_all
    from CreateGameModeWithPawn_exists [OF this ex, of h b] False show ?thesis
      by (simp add: json_error_def UE_LOG_def)
  qed
qed

theorem CreateGameModeWithPawn_never_overwrites_witness:
  "LoadObject_UBlueprint demo_host ''/Game/BP_Pawn'' \<noteq> None
   \<and> fst (CreateGameModeWithPawn demo_outcomes ''/Game/BP_Pawn'' ''/Game/BP_Pawn'' [] demo_host) =
       ''{\"success\": false, \"error\": \"Game mode already exists\"}''
   \<and> Assets (snd (CreateGameModeWithPawn demo_outcomes ''/Game/BP_Pawn'' ''/Game/BP_Pawn'' []
                    demo_host)) = Assets demo_host
   \<and> Effects (snd (CreateGameModeWithPawn demo_outcomes ''/Game/BP_Pawn'' ''/Game/BP_Pawn'' []
                    demo_host)) = Effects demo_host"
proof -
  have ex: "LoadObject_UBlueprint demo_host ''/Game/BP_Pawn'' \<noteq> None"
    by (simp add: LoadObject_UBlueprint_def demo_host_def)
  from CreateGameModeWithPawn_never_overwrites
    [of demo_host "''/Game/BP_Pawn''" demo_outcomes "''/Game/BP_Pawn''" "[]"] ex
  show ?thesis by (simp del: not_None_eq)
qed

subsection \<open>Log and effects of the actor calls\<close>

lemma Destroy_fields [simp]:
  "GEditor (Destroy a s) = GEditor s"
  "EditorWorld (Destroy a s) = EditorWorld s"
  "CurrentLevel (Destroy a s) = CurrentLevel s"
  "DefaultGameMode (Destroy a s) = DefaultGameMode s"
  "Actors (Destroy a s) = filter (\<lambda>(i, x). i \<noteq> a) (Actors s)"
  "NextActor (Destroy a s) = NextActor s"
  "Packages (Destroy a s) = Packages s"
  "Assets (Destroy a s) = Assets s"
  "Classes (Destroy a s) = Classes s"
  "LogTemp (Destroy a s) = LogTemp s"
  "Effects (Destroy a s) = Effects s @ [Eff_Destroy a]"
  by (simp_all add: Destroy_def)

lemma SetStaticMesh_fields [simp]:
  "GEditor (SetStaticMesh a m s) = GEditor s"
  "EditorWorld (SetStaticMesh a m s) = EditorWorld s"
  "CurrentLevel (SetStaticMesh a m s) = CurrentLevel s"
  "DefaultGameMode (SetStaticMesh a m s) = DefaultGameMode s"
  "NextActor (SetStaticMesh a m s) = NextActor s"
  "Packages (SetStaticMesh a m s) = Packages s"
  "Assets (SetStaticMesh a m s) = Assets s"
  "Classes (SetStaticMesh a m s) = Classes s"
  "LogTemp (SetStaticMesh a m s) = LogTemp s"
  "Effects (SetStaticMesh a m s) = Effects s @ [Eff_SetStaticMesh a m]"
  by (simp_all add: SetStaticMesh_def)

lemma SetActorScale3D_fields [simp]:
  "GEditor (SetActorScale3D a v s) = GEditor s"
  "EditorWorld (SetActorScale3D a v s) = EditorWorld s"
  "CurrentLevel (SetActorScale3D a v s) = CurrentLevel s"
  "DefaultGameMode (SetActorScale3D a v s) = DefaultGameMode s"
  "NextActor (SetActorScale3D a v s) = NextActor s"
  "Packages (SetActorScale3D a v s) = Packages s"
  "Assets (SetActorScale3D a v s) = Assets s"
  "Classes (SetActorScale3D a v s) = Classes s"
  "LogTemp (SetActorScale3D a v s) = LogTemp s"
  "Effects (SetActorScale3D a v s) = Effects s @ [Eff_SetActorScale3D a v]"
  by (simp_all add: SetActorScale3D_def)

lemma SetActorLabel_fields [simp]:
  "GEditor (SetActorLabel a l s) = GEditor s"
  "EditorWorld (SetActorLabel a l s) = EditorWorld s"
  "CurrentLevel (SetActorLabel a l s) = CurrentLevel s"
  "DefaultGameMode (SetActorLabel a l s) = DefaultGameMode s"
  "NextActor (SetActorLabel a l s) = NextActor s"
  "Packages (SetActorLabel a l s) = Packages s"
  "Assets (SetActorLabel a l s) = Assets s"
  "Classes (SetActorLabel a l s) = Classes s"
  "LogTemp (SetActorLabel a l s) = LogTemp s"
  "Effects (SetActorLabel a l s) = Effects s @ [Eff_SetActorLabel a l]"
  by (simp_all add: SetActorLabel_def)

lemma SetActorLocation_fields [simp]:
  "LogTemp (SetActorLocation a v s) = LogTemp s"
  "Effects (SetActorLocation a v s) = Effects s @ [Eff_SetActorLocation a v]"
  by (simp_all add: SetActorLocation_def)

lemma SetActorRotation_host_fields [simp]:
  "LogTemp (SetActorRotation_host a r s) = LogTemp s"
  "Effects (SetActorRotation_host a r s) = Effects s @ [Eff_SetActorRotation a r]"
  by (simp_all add: SetActorRotation_host_def)

lemma SetMaterial_loop_log [simp]:
  "LogTemp (SetMaterial_loop a m i k s) = LogTemp s"
proof -
  have "LogTemp ((SetMaterial_loop a m i k s)\<lparr>Actors := Actors s, Effects := Effects s\<rparr>) = LogTemp s"
    by (simp only: SetMaterial_loop_rest)
  then show ?thesis by simp
qed

lemma SpawnActor_fields [simp]:
  "GEditor (snd (SpawnActor h c l r s)) = GEditor s"
  "EditorWorld (snd (SpawnActor h c l r s)) = EditorWorld s"
  "Assets (snd (SpawnActor h c l r s)) = Assets s"
  "Classes (snd (SpawnActor h c l r s)) = Classes s"
  "LogTemp (snd (SpawnActor h c l r s)) = LogTemp s"
  "Effects (snd (SpawnActor h c l r s)) =
     Effects s @ (if SpawnActor_result h = None then [] else [Eff_SpawnActor (NextActor s)])"
  "fst (SpawnActor h c l r s) =
     (if SpawnActor_result h = None then None else Some (NextActor s))"
  by (simp_all add: SpawnActor_def Let_def split: option.split prod.split)

lemma SpawnBasicShape_logged:
  "case SpawnBasicShape h n l r sc lb s of
     NullDereference \<Rightarrow> True
   | Returns a s' \<Rightarrow> a = None \<longrightarrow> logs_failure s s'"
  by (simp add: SpawnBasicShape_def Let_def split_beta logs_failure_def
      split: option.split)

lemma SpawnStaticMeshActor_logged:
  "case SpawnStaticMeshActor h n l r sc lb s of
     NullDereference \<Rightarrow> True
   | Returns a s' \<Rightarrow> a = None \<longrightarrow> logs_failure s s'"
  by (simp add: SpawnStaticMeshActor_def Let_def split_beta logs_failure_def
      split: option.split)

lemma SpawnActorFromClass_logged:
  "case SpawnActorFromClass h n l r sc lb s of
     NullDereference \<Rightarrow> True
   | Returns a s' \<Rightarrow> a = None \<longrightarrow> logs_failure s s'"
  by (simp add: SpawnActorFromClass_def Let_def split_beta logs_failure_def
      split: option.split)

lemma FindActorByName_logged:
  "case FindActorByName n s of
     NullDereference \<Rightarrow> True
   | Returns a s' \<Rightarrow> a = None \<longrightarrow> logs_failure s s'"
  by (simp add: FindActorByName_def logs_failure_def split: option.split)

lemma CreateMaterial_logged:
  "fst (CreateMaterial h n c s) = None \<longrightarrow> logs_failure s (snd (CreateMaterial h n c s))"
  by (simp add: CreateMaterial_def CreateMaterial_new_def Let_def CreatePackage_def NewObject_UMaterial_def
      logs_failure_def split: option.split)

lemma lookup_then_logged:
  assumes "FindActorByName n s = Returns None s1"
  shows "logs_failure s s1"
  using FindActorByName_logged [where n = n and s = s] assms by simp

lemma SetActorMaterial_logged:
  "case SetActorMaterial n M s of
     NullDereference \<Rightarrow> True
   | Returns b s' \<Rightarrow> \<not> b \<longrightarrow> logs_failure s s'"
proof (cases M)
  case None
  then show ?thesis by (simp add: SetActorMaterial_def logs_failure_def)
next
  case (Some m)
  show ?thesis
  proof (cases "FindActorByName n s")
    case NullDereference
    with Some show ?thesis by (simp add: SetActorMaterial_def)
  next
    case (Returns r s1)
    show ?thesis
    proof (cases r)
      case None
      with Returns lookup_then_logged [of n s s1] Some show ?thesis
        by (simp add: SetActorMaterial_def)
    next
      case found: (Some a)
      with Returns have "s1 = s" by (simp add: FindActorByName_Some_state)
      with found Returns Some show ?thesis
        by (simp add: SetActorMaterial_def logs_failure_def Let_def split: option.split)
    qed
  qed
qed

lemma SetActorMaterialByPath_logged:
  "case SetActorMaterialByPath n p s of
     NullDereference \<Rightarrow> True
   | Returns b s' \<Rightarrow> \<not> b \<longrightarrow> logs_failure s s'"
proof (cases "LoadObject_UMaterialInterface s p")
  case None
  then show ?thesis by (simp add: SetActorMaterialByPath_def logs_failure_def)
next
  case (Some m)
  with SetActorMaterial_logged [where n = n and M = "Some m" and s = s] show ?thesis
    by (simp add: SetActorMaterialByPath_def)
qed

lemma SetActorPosition_logged:
  "case SetActorPosition n v s of
     NullDereference \<Rightarrow> True
   | Returns b s' \<Rightarrow> \<not> b \<longrightarrow> logs_failure s s'"
proof (cases "FindActorByName n s")
  case NullDereference
  then show ?thesis by (simp add: SetActorPosition_def)
next
  case (Returns r s1)
  with lookup_then_logged [of n s s1] show ?thesis
    by (cases r) (simp_all add: SetActorPosition_def)
qed

lemma SetActorRotation_logged:
  "case SetActorRotation n v s of
     NullDereference \<Rightarrow> True
   | Returns b s' \<Rightarrow> \<not> b \<longrightarrow> logs_failure s s'"
proof (cases "FindActorByName n s")
  case NullDereference
  then show ?thesis by (simp add: SetActorRotation_def)
next
  case (Returns r s1)
  with lookup_then_logged [of n s s1] show ?thesis
    by (cases r) (simp_all add: SetActorRotation_def)
qed

lemma SetActorScale_logged:
  "case SetActorScale n v s of
     NullDereference \<Rightarrow> True
   | Returns b s' \<Rightarrow> \<not> b \<longrightarrow> logs_failure s s'"
proof (cases "FindActorByName n s")
  case NullDereference
  then show ?thesis by (simp add: SetActorScale_def)
next
  case (Returns r s1)
  with lookup_then_logged [of n s s1] show ?thesis
    by (cases r) (simp_all add: SetActorScale_def)
qed

lemma CreateGameModeWithPawn_no_class_log:
  "g \<noteq> [] \<Longrightarrow> p \<noteq> [] \<Longrightarrow> LoadObject_UBlueprint s g = None \<Longrightarrow>
   FindObject_UClass s (BaseClassToUse b) \<noteq> None \<Longrightarrow>
   IsChildOf s (BaseClassToUse b) ''GameModeBase'' \<Longrightarrow>
   PawnGeneratedClass s p = Some pc \<Longrightarrow>
   CreateAsset_result h = BlueprintWithoutClass \<Longrightarrow>
     LogTemp (snd (CreateGameModeWithPawn h g p b s)) =
       LogTemp s @ [(Error, ''Generated class not found for %s'', [ArgS g])]"
  by (simp add: CreateGameModeWithPawn_def CreateAsset_def BlueprintGeneratedClass_def Let_def
        del: not_None_eq)
     (simp add: LoadObject_UBlueprint_def)

lemma CreateGameModeWithPawn_logged:
  "is_sentinel (RetJson (fst (CreateGameModeWithPawn h g p b s))) \<longrightarrow>
     logs_failure s (snd (CreateGameModeWithPawn h g p b s))"
proof (cases "g = [] \<or> p = []")
  case True
  then show ?thesis by (simp add: CreateGameModeWithPawn_empty_path logs_failure_def)
next
  case paths: False
  then have g: "g \<noteq> []" "p \<noteq> []" by simp_all
  show ?thesis
  proof (cases "LoadObject_UBlueprint s g")
    case (Some bp)
    then have "LoadObject_UBlueprint s g \<noteq> None" by simp
    from CreateGameModeWithPawn_exists [OF g this] show ?thesis
      by (simp add: logs_failure_def)
  next
    case None
    show ?thesis
    proof (cases "FindObject_UClass s (BaseClassToUse b) = None
                    \<or> \<not> IsChildOf s (BaseClassToUse b) ''GameModeBase''")
      case True
      from CreateGameModeWithPawn_base_class [OF g None True] show ?thesis
        by (simp add: logs_failure_def)
    next
      case False
      then have base: "FindObject_UClass s (BaseClassToUse b) \<noteq> None"
        "IsChildOf s (BaseClassToUse b) ''GameModeBase''" by simp_all
      show ?thesis
      proof (cases "PawnGeneratedClass s p")
        case nopawn: None
        from CreateGameModeWithPawn_pawn [OF g None base nopawn] show ?thesis
          by (simp add: logs_failure_def)
      next
        case (Some pc)
        show ?thesis
        proof (cases "CreateAsset_result h")
          case AssetNotCreated
          from CreateGameModeWithPawn_not_created [OF g None base Some AssetNotCreated]
          show ?thesis by (simp add: logs_failure_def)
        next
          case BlueprintWithoutClass
          from CreateGameModeWithPawn_no_class_log [OF g None base Some BlueprintWithoutClass]
          show ?thesis by (simp add: logs_failure_def)
        next
          case (BlueprintWithClass gc cdo)
          from CreateGameModeWithPawn_created [OF g None base Some BlueprintWithClass]
          have "fst (CreateGameModeWithPawn h g p b s) =
                  ''{\"success\": true, \"message\": \"Created game mode '' @ g @ '' with pawn '' @ p
                    @ '' and set as scene default\"}''"
            by (rule conjunct1)
          then show ?thesis by simp
        qed
      qed
    qed
  qed
qed

lemma exec_sentinel_logged:
  assumes "exec h op s = Returns r s'" and "is_sentinel r"
  shows "logs_failure s s'"
proof (cases op)
  case (Op_SpawnBasicShape n l ro sc lb)
  with assms SpawnBasicShape_logged [where h = h and n = n and l = l and r = ro and sc = sc and lb = lb and s = s] show ?thesis
    by (cases "SpawnBasicShape h n l ro sc lb s") auto
next
  case (Op_SpawnStaticMeshActor n l ro sc lb)
  with assms SpawnStaticMeshActor_logged [where h = h and n = n and l = l and r = ro and sc = sc and lb = lb and s = s] show ?thesis
    by (cases "SpawnStaticMeshActor h n l ro sc lb s") auto
next
  case (Op_SpawnActorFromClass n l ro sc lb)
  with assms SpawnActorFromClass_logged [where h = h and n = n and l = l and r = ro and sc = sc and lb = lb and s = s] show ?thesis
    by (cases "SpawnActorFromClass h n l ro sc lb s") auto
next
  case (Op_FindActorByName n)
  with assms FindActorByName_logged [where n = n and s = s] show ?thesis
    by (cases "FindActorByName n s") auto
next
  case (Op_CreateMaterial n c)
  with assms CreateMaterial_logged [where h = h and n = n and c = c and s = s] show ?thesis
    by (cases "CreateMaterial h n c s") auto
next
  case (Op_SetActorMaterial n m)
  with assms SetActorMaterial_logged [where n = n and M = m and s = s] show ?thesis
    by (cases "SetActorMaterial n m s") auto
next
  case (Op_SetActorMaterialByPath n p)
  with assms SetActorMaterialByPath_logged [where n = n and p = p and s = s] show ?thesis
    by (cases "SetActorMaterialByPath n p s") auto
next
  case (Op_SetActorPosition n v)
  with assms SetActorPosition_logged [where n = n and v = v and s = s] show ?thesis
    by (cases "SetActorPosition n v s") auto
next
  case (Op_SetActorRotation n v)
  with assms SetActorRotation_logged [where n = n and v = v and s = s] show ?thesis
    by (cases "SetActorRotation n v s") auto
next
  case (Op_SetActorScale n v)
  with assms SetActorScale_logged [where n = n and v = v and s = s] show ?thesis
    by (cases "SetActorScale n v s") auto
next
  case (Op_CreateGameModeWithPawn g p b)
  with assms CreateGameModeWithPawn_logged [where h = h and g = g and p = p and b = b and s = s] show ?thesis
    by (cases "CreateGameModeWithPawn h g p b s") auto
qed

lemma logs_failure_new:
  "logs_failure s s' \<Longrightarrow>
     \<exists>new. LogTemp s' = LogTemp s @ new \<and> new \<noteq> [] \<and> fst (last new) \<noteq> Log"
proof -
  assume a: "logs_failure s s'"
  let ?new = "drop (length (LogTemp s)) (LogTemp s')"
  from a have 1: "LogTemp s' = LogTemp s @ ?new"
    by (metis append_take_drop_id logs_failure_def)
  from a have 2: "?new \<noteq> []" by (simp add: logs_failure_def)
  from a 2 have 3: "fst (last ?new) \<noteq> Log" by (simp add: logs_failure_def)
  from 1 2 3 show ?thesis by blast
qed

subsection \<open>The log of a creation\<close>

lemma CreateMaterial_color_expression_log [simp]:
  "LogTemp (CreateMaterial_color_expression h M c s) =
     LogTemp s @ (if CreateMaterialExpression_ok h \<and> \<not> ConnectMaterialProperty_ok h
                  then [(Error, ''Failed to connect material property'', [])] else [])"
  by (simp add: CreateMaterial_color_expression_def CreateMaterialExpression_def
      ConnectMaterialProperty_def Set_Constant_def)

lemma CreateMaterial_save_log [simp]:
  "LogTemp (CreateMaterial_save h P M n s) =
     LogTemp s @ [if SavePackage_ok h
                  then (Log, ''Successfully created and saved material '%s'' @ [CHR 0x27], [ArgS n])
                  else (Error, ''Failed to save material '%s'' @ [CHR 0x27], [ArgS n])]"
  by (simp add: CreateMaterial_save_def SavePackage_def)

lemma CreateMaterial_null_iff:
  "fst (CreateMaterial h n c s) = None \<longleftrightarrow>
     (FindPackage s (''/Game/Materials'' @ ''/'' @ n) = None
        \<or> LoadObject_UMaterial s (''/Game/Materials'' @ ''/'' @ n @ ''.'' @ n) = None)
     \<and> (\<not> CreatePackage_ok h \<or> \<not> NewObject_ok h)"
  by (simp add: CreateMaterial_def CreateMaterial_new_def Let_def CreatePackage_def NewObject_UMaterial_def
      split: option.split)

lemma CreateMaterial_not_loaded:
  assumes "FindPackage s (''/Game/Materials'' @ ''/'' @ n) = None
        \<or> LoadObject_UMaterial s (''/Game/Materials'' @ ''/'' @ n @ ''.'' @ n) = None"
  shows "CreateMaterial h n c s =
     CreateMaterial_new h (''/Game/Materials'' @ ''/'' @ n) n c
       (if FindPackage s (''/Game/Materials'' @ ''/'' @ n) = None then s
        else UE_LOG Warning ''Material '%s' already exists, trying to load it'' [ArgS n] s)"
  using assms by (auto simp add: CreateMaterial_def Let_def split: option.split)

lemma CreateMaterial_new_fails:
  "\<not> CreatePackage_ok h \<or> \<not> NewObject_ok h \<Longrightarrow>
     CreateMaterial_new h F n c s0 =
       (None,
        if \<not> CreatePackage_ok h
        then s0\<lparr>LogTemp := LogTemp s0
                    @ [(Error, ''Failed to create package for material '%s'' @ [CHR 0x27],
                        [ArgS n])]\<rparr>
        else if F \<in> set (Packages s0)
        then s0\<lparr>LogTemp := LogTemp s0
                    @ [(Error, ''Failed to create material '%s'' @ [CHR 0x27], [ArgS n])]\<rparr>
        else s0\<lparr>Packages := F # Packages s0,
                 LogTemp := LogTemp s0
                    @ [(Error, ''Failed to create material '%s'' @ [CHR 0x27], [ArgS n])],
                 Effects := Effects s0 @ [Eff_CreatePackage F]\<rparr>)"
  by (auto simp add: CreateMaterial_new_def CreatePackage_def NewObject_UMaterial_def
      UE_LOG_def effect_def)

lemma CreateMaterial_new_log:
  assumes "CreatePackage_ok h" and "NewObject_ok h"
  shows "fst (CreateMaterial_new h F n c s0) = Some (F @ ''.'' @ n)
     \<and> LogTemp (snd (CreateMaterial_new h F n c s0)) =
         LogTemp s0
         @ (if CreateMaterialExpression_ok h \<and> \<not> ConnectMaterialProperty_ok h
            then [(Error, ''Failed to connect material property'', [])] else [])
         @ [if SavePackage_ok h
            then (Log, ''Successfully created and saved material '%s'' @ [CHR 0x27], [ArgS n])
            else (Error, ''Failed to save material '%s'' @ [CHR 0x27], [ArgS n])]"
  using assms
  by (simp add: CreateMaterial_new_def Let_def CreatePackage_def NewObject_UMaterial_def)

lemma CreateMaterial_created_log:
  assumes "FindPackage s (''/Game/Materials'' @ ''/'' @ n) = None
        \<or> LoadObject_UMaterial s (''/Game/Materials'' @ ''/'' @ n @ ''.'' @ n) = None"
    and "CreatePackage_ok h" and "NewObject_ok h"
  shows "fst (CreateMaterial h n c s) = Some (''/Game/Materials'' @ ''/'' @ n @ ''.'' @ n)
     \<and> LogTemp (snd (CreateMaterial h n c s)) =
         LogTemp s
         @ (if FindPackage s (''/Game/Materials'' @ ''/'' @ n) = None then []
            else [(Warning, ''Material '%s' already exists, trying to load it'', [ArgS n])])
         @ (if CreateMaterialExpression_ok h \<and> \<not> ConnectMaterialProperty_ok h
            then [(Error, ''Failed to connect material property'', [])] else [])
         @ [if SavePackage_ok h
            then (Log, ''Successfully created and saved material '%s'' @ [CHR 0x27], [ArgS n])
            else (Error, ''Failed to save material '%s'' @ [CHR 0x27], [ArgS n])]"
  unfolding CreateMaterial_not_loaded [OF assms(1)]
  using CreateMaterial_new_log [OF assms(2,3)]
  by simp

lemma set_level_game_mode_log:
  "LogTemp (CreateGameModeWithPawn_set_level_game_mode g gm s) =
     LogTemp s
     @ (if GEditor s
        then [if EditorWorld s
              then if CurrentLevel s
                   then (Log, ''Set %s as default game mode for current scene'', [ArgS g])
                   else (Warning, ''No current level found to set game mode'', [])
              else (Warning, ''No current world found to set game mode'', [])]
        else [])"
  by (simp add: CreateGameModeWithPawn_set_level_game_mode_def)

lemma CreateGameModeWithPawn_created_log:
  assumes g: "g \<noteq> []" "p \<noteq> []" "LoadObject_UBlueprint s g = None"
    and base: "FindObject_UClass s (BaseClassToUse b) \<noteq> None"
      "IsChildOf s (BaseClassToUse b) ''GameModeBase''"
    and pawn: "PawnGeneratedClass s p = Some pc"
    and created: "CreateAsset_result h = BlueprintWithClass gc cdo"
  shows "LogTemp (snd (CreateGameModeWithPawn h g p b s)) =
     LogTemp s
     @ (if GEditor s
        then [if EditorWorld s
              then if CurrentLevel s
                   then (Log, ''Set %s as default game mode for current scene'', [ArgS g])
                   else (Warning, ''No current level found to set game mode'', [])
              else (Warning, ''No current world found to set game mode'', [])]
        else [])
     @ [(Log, ''Created game mode %s with pawn %s and set as scene default'',
         [ArgS g, ArgS p])]"
proof -
  let ?bp = "GetLongPackagePath g @ ''/'' @ GetShortName g"
  from CreateAsset_with_class [OF created, of "GetShortName g" "GetLongPackagePath g"
      "BaseClassToUse b" s]
  obtain s1 where s1:
    "CreateAsset h (GetShortName g) (GetLongPackagePath g) (BaseClassToUse b) s = (Some ?bp, s1)"
    "BlueprintGeneratedClass s1 ?bp = Some gc"
    "GetClassDefaultObject s1 gc = cdo"
    "LogTemp s1 = LogTemp s"
    "GEditor s1 = GEditor s" "EditorWorld s1 = EditorWorld s" "CurrentLevel s1 = CurrentLevel s"
    by blast
  let ?s2 = "case cdo of Some (GameModeCDO old) \<Rightarrow> Set_DefaultPawnClass gc pc s1 | _ \<Rightarrow> s1"
  let ?s5 = "effect (Eff_MarkBlueprintAsStructurallyModified ?bp)
               (effect (Eff_Modify ?bp) (CreateGameModeWithPawn_set_level_game_mode g gc ?s2))"
  have run: "CreateGameModeWithPawn h g p b s =
       (''{\"success\": true, \"message\": \"Created game mode '' @ g @ '' with pawn '' @ p
         @ '' and set as scene default\"}'',
        UE_LOG Log ''Created game mode %s with pawn %s and set as scene default''
          [ArgS g, ArgS p] ?s5)"
    using g base pawn s1(1,2,3)
    by (simp add: CreateGameModeWithPawn_def Let_def del: not_None_eq)
  have s2: "LogTemp ?s2 = LogTemp s1"
      "GEditor ?s2 = GEditor s1" "EditorWorld ?s2 = EditorWorld s1"
      "CurrentLevel ?s2 = CurrentLevel s1"
    by (simp_all split: option.split CDO.split)
  show ?thesis
    unfolding run by (simp add: set_level_game_mode_log s2 s1(4-7))
qed

subsection \<open>A spawned actor\<close>

lemma LoadObject_UStaticMesh_SpawnActor [simp]:
  "LoadObject_UStaticMesh (snd (SpawnActor h c l r s)) p = LoadObject_UStaticMesh s p"
  by (simp add: LoadObject_UStaticMesh_def)

lemma fresh_filter:
  "\<forall>(i, x) \<in> set xs. i \<noteq> a \<Longrightarrow> filter (\<lambda>(i, x). i \<noteq> a) xs = xs"
  by (induction xs) auto

lemma fresh_map_of:
  "\<forall>(i, x) \<in> set xs. i \<noteq> a \<Longrightarrow> map_of (xs @ [(a, y)]) a = Some y"
  by (induction xs) auto

lemma SpawnActor_None:
  "SpawnActor_result h = None \<Longrightarrow> SpawnActor h c l r s = (None, s)"
  by (simp add: SpawnActor_def)

subsection \<open>Actor references stay below the next one\<close>

text \<open>
  The statements on the spawn functions below suppose that no actor of the world bears the
  reference that the next spawn will hand out. \<open>actor_refs_below_next\<close> implies it, holds of
  the example host, and is kept by every operation.
\<close>

lemma below_next_fresh:
  "actor_refs_below_next s \<Longrightarrow> \<forall>(i, x) \<in> set (Actors s). i \<noteq> NextActor s"
  by (force simp add: actor_refs_below_next_def)

lemma map_fst_update_actor:
  "map fst (Actors (update_actor a f s)) = map fst (Actors s)"
proof -
  have "map fst (map (\<lambda>(i, x). if i = a then (i, f x) else (i, x)) xs) = map fst xs"
    for xs :: "(actor_ref \<times> AActor) list"
    by (induction xs) auto
  then show ?thesis by (simp add: update_actor_def)
qed

lemma refs_host_writes:
  "actor_refs_below_next (UE_LOG v fmt as s) = actor_refs_below_next s"
  "actor_refs_below_next (effect e s) = actor_refs_below_next s"
  "actor_refs_below_next (update_actor a f s) = actor_refs_below_next s"
  "actor_refs_below_next (SetStaticMesh a m s) = actor_refs_below_next s"
  "actor_refs_below_next (SetActorScale3D a w s) = actor_refs_below_next s"
  "actor_refs_below_next (SetActorLabel a lb s) = actor_refs_below_next s"
  "actor_refs_below_next (SetActorLocation a w s) = actor_refs_below_next s"
  "actor_refs_below_next (SetActorRotation_host a ro s) = actor_refs_below_next s"
  "actor_refs_below_next (SetMaterial a i m s) = actor_refs_below_next s"
  by (simp_all add: actor_refs_below_next_def map_fst_update_actor SetStaticMesh_def
      SetActorScale3D_def SetActorLabel_def SetActorLocation_def SetActorRotation_host_def
      SetMaterial_def del: set_map)

lemma refs_SetMaterial_loop:
  "actor_refs_below_next (SetMaterial_loop a m i k s) = actor_refs_below_next s"
proof (induction a m i k s rule: SetMaterial_loop.induct)
  case (1 Actor Material i MaterialCount s)
  show ?case
  proof (cases "i < MaterialCount")
    case True
    with 1 show ?thesis
      by (subst SetMaterial_loop.simps) (simp add: refs_host_writes)
  next
    case False
    then show ?thesis by (subst SetMaterial_loop.simps) simp
  qed
qed

lemma refs_SpawnActor:
  "actor_refs_below_next s \<Longrightarrow> actor_refs_below_next (snd (SpawnActor h c l r s))"
  by (auto simp add: actor_refs_below_next_def SpawnActor_def Let_def less_Suc_eq
      split: option.split prod.split)

lemma refs_Destroy:
  "actor_refs_below_next s \<Longrightarrow> actor_refs_below_next (Destroy a s)"
  by (auto simp add: actor_refs_below_next_def)

lemma refs_SpawnBasicShape:
  "actor_refs_below_next s \<Longrightarrow>
     (case SpawnBasicShape h n l r sc lb s of
        NullDereference \<Rightarrow> True
      | Returns a s' \<Rightarrow> actor_refs_below_next s')"
  using refs_SpawnActor [of s h "''StaticMeshActor''" l r]
  by (simp add: SpawnBasicShape_def Let_def split_beta refs_host_writes refs_Destroy
      split: option.split)

lemma refs_SpawnStaticMeshActor:
  "actor_refs_below_next s \<Longrightarrow>
     (case SpawnStaticMeshActor h n l r sc lb s of
        NullDereference \<Rightarrow> True
      | Returns a s' \<Rightarrow> actor_refs_below_next s')"
  using refs_SpawnActor [of s h "''StaticMeshActor''" l r]
  by (simp add: SpawnStaticMeshActor_def Let_def split_beta refs_host_writes refs_Destroy
      split: option.split)

lemma refs_SpawnActorFromClass:
  "actor_refs_below_next s \<Longrightarrow>
     (case SpawnActorFromClass h n l r sc lb s of
        NullDereference \<Rightarrow> True
      | Returns a s' \<Rightarrow> actor_refs_below_next s')"
  using refs_SpawnActor [of s h _ l r]
  by (simp add: SpawnActorFromClass_def Let_def split_beta refs_host_writes
      split: option.split)

lemma refs_FindActorByName:
  "FindActorByName n s = Returns a s' \<Longrightarrow> actor_refs_below_next s' = actor_refs_below_next s"
  by (auto simp add: FindActorByName_result refs_host_writes split: if_splits)


lemma refs_SetActorMaterial:
  "SetActorMaterial n M s = Returns b s' \<Longrightarrow>
     actor_refs_below_next s' = actor_refs_below_next s"
  by (auto simp add: SetActorMaterial_def FindActorByName_result Let_def refs_host_writes
      refs_SetMaterial_loop split: option.splits if_splits)

lemma refs_SetActorMaterialByPath:
  "SetActorMaterialByPath n p s = Returns b s' \<Longrightarrow>
     actor_refs_below_next s' = actor_refs_below_next s"
  by (auto simp add: SetActorMaterialByPath_def refs_host_writes refs_SetActorMaterial
      split: option.splits)

lemma refs_setters:
  "SetActorPosition n v s = Returns b s' \<Longrightarrow>
     actor_refs_below_next s' = actor_refs_below_next s"
  "SetActorRotation n r s = Returns b s' \<Longrightarrow>
     actor_refs_below_next s' = actor_refs_below_next s"
  "SetActorScale n v s = Returns b s' \<Longrightarrow>
     actor_refs_below_next s' = actor_refs_below_next s"
  by (auto simp add: SetActorPosition_def SetActorRotation_def SetActorScale_def
      FindActorByName_result refs_host_writes split: option.splits if_splits)

lemma CreateMaterial_blocks_actors [simp]:
  "Actors (CreateMaterial_color_expression h M c s) = Actors s"
  "NextActor (CreateMaterial_color_expression h M c s) = NextActor s"
  "Actors (CreateMaterial_save h P M n s) = Actors s"
  "NextActor (CreateMaterial_save h P M n s) = NextActor s"
  by (simp_all add: CreateMaterial_color_expression_def CreateMaterialExpression_def
      ConnectMaterialProperty_def Set_Constant_def CreateMaterial_save_def SavePackage_def)

lemma CreateMaterial_actors:
  "Actors (snd (CreateMaterial h n c s)) = Actors s
   \<and> NextActor (snd (CreateMaterial h n c s)) = NextActor s"
  by (simp add: CreateMaterial_def CreateMaterial_new_def Let_def CreatePackage_def
      NewObject_UMaterial_def split: option.split)

lemma CreateGameModeWithPawn_actors:
  "Actors (snd (CreateGameModeWithPawn h g p b s)) = Actors s
   \<and> NextActor (snd (CreateGameModeWithPawn h g p b s)) = NextActor s"
  by (simp add: CreateGameModeWithPawn_def CreateAsset_def Let_def
      split: option.split CreateAsset_outcome.split CDO.split)

lemma exec_keeps_refs:
  assumes run: "exec h op s = Returns r s'" and inv: "actor_refs_below_next s"
  shows "actor_refs_below_next s'"
proof (cases op)
  case (Op_SpawnBasicShape n l ro sc lb)
  with run refs_SpawnBasicShape [OF inv, of h n l ro sc lb] show ?thesis
    by (cases "SpawnBasicShape h n l ro sc lb s") auto
next
  case (Op_SpawnStaticMeshActor p l ro sc lb)
  with run refs_SpawnStaticMeshActor [OF inv, of h p l ro sc lb] show ?thesis
    by (cases "SpawnStaticMeshActor h p l ro sc lb s") auto
next
  case (Op_SpawnActorFromClass c l ro sc lb)
  with run refs_SpawnActorFromClass [OF inv, of h c l ro sc lb] show ?thesis
    by (cases "SpawnActorFromClass h c l ro sc lb s") auto
next
  case (Op_FindActorByName n)
  with run inv show ?thesis
    by (cases "FindActorByName n s") (auto simp add: refs_FindActorByName)
next
  case (Op_CreateMaterial n c)
  with run inv CreateMaterial_actors [of h n c s] show ?thesis
    by (cases "CreateMaterial h n c s") (auto simp add: actor_refs_below_next_def)
next
  case (Op_SetActorMaterial n m)
  with run inv show ?thesis
    by (cases "SetActorMaterial n m s") (auto simp add: refs_SetActorMaterial)
next
  case (Op_SetActorMaterialByPath n p)
  with run inv show ?thesis
    by (cases "SetActorMaterialByPath n p s") (auto simp add: refs_SetActorMaterialByPath)
next
  case (Op_SetActorPosition n v)
  with run inv show ?thesis
    by (cases "SetActorPosition n v s") (auto simp add: refs_setters)
next
  case (Op_SetActorRotation n v)
  with run inv show ?thesis
    by (cases "SetActorRotation n v s") (auto simp add: refs_setters)
next
  case (Op_SetActorScale n v)
  with run inv show ?thesis
    by (cases "SetActorScale n v s") (auto simp add: refs_setters)
next
  case (Op_CreateGameModeWithPawn g p b)
  with run inv CreateGameModeWithPawn_actors [of h g p b s] show ?thesis
    by (cases "CreateGameModeWithPawn h g p b s") (auto simp add: actor_refs_below_next_def)
qed

lemma demo_host_refs: "actor_refs_below_next demo_host"
  by (simp add: actor_refs_below_next_def demo_host_def)

subsection \<open>A sentinel is returned exactly when a guard fails\<close>

lemma SpawnBasicShape_fails:
  "case SpawnBasicShape h n l r sc lb s of
     NullDereference \<Rightarrow> True
   | Returns a s' \<Rightarrow> (a = None) = guard_fails h (Op_SpawnBasicShape n l r sc lb) s"
  by (simp add: SpawnBasicShape_def Let_def split_beta split: option.split)

lemma SpawnedComponent:
  assumes "\<forall>(i, x) \<in> set (Actors s). i \<noteq> NextActor s"
    and "SpawnActor_result h = Some (nm, hm)"
  shows "(GetStaticMeshComponent (snd (SpawnActor h c l r s)) (NextActor s) = None) = (\<not> hm)"
  using assms(2) fresh_map_of [OF assms(1)]
  by (simp add: SpawnActor_def Let_def GetStaticMeshComponent_def GetActor_def)

lemma SpawnStaticMeshActor_fails:
  assumes "\<forall>(i, x) \<in> set (Actors s). i \<noteq> NextActor s"
  shows "case SpawnStaticMeshActor h p l r sc lb s of
     NullDereference \<Rightarrow> True
   | Returns a s' \<Rightarrow> (a = None) = guard_fails h (Op_SpawnStaticMeshActor p l r sc lb) s"
proof (cases "SpawnActor_result h")
  case None
  then show ?thesis
    by (simp add: SpawnStaticMeshActor_def Let_def split_beta split: option.split)
next
  case (Some q)
  obtain nm hm where q: "q = (nm, hm)" by (cases q)
  from SpawnedComponent [OF assms, of h nm hm "''StaticMeshActor''" l r] Some q
  have c: "(GetStaticMeshComponent (snd (SpawnActor h ''StaticMeshActor'' l r s)) (NextActor s) = None)
             = (\<not> hm)"
    by simp
  show ?thesis
  proof (cases hm)
    case True
    with c Some q show ?thesis
      by (auto simp add: SpawnStaticMeshActor_def Let_def split_beta split: option.split)
  next
    case False
    with c Some q show ?thesis
      by (auto simp add: SpawnStaticMeshActor_def Let_def split_beta split: option.split)
  qed
qed

lemma SpawnActorFromClass_fails:
  "case SpawnActorFromClass h c l r sc lb s of
     NullDereference \<Rightarrow> True
   | Returns a s' \<Rightarrow> (a = None) = guard_fails h (Op_SpawnActorFromClass c l r sc lb) s"
  by (simp add: SpawnActorFromClass_def Let_def split_beta split: option.split)

lemma FindActorByName_fails:
  "case FindActorByName n s of
     NullDereference \<Rightarrow> True
   | Returns a s' \<Rightarrow> (a = None) = actor_lookup_fails n s"
  by (auto simp add: FindActorByName_result actor_lookup_fails_def)

lemma SetActorMaterial_fails:
  "case SetActorMaterial n M s of
     NullDereference \<Rightarrow> True
   | Returns b s' \<Rightarrow> (\<not> b) = (M = None \<or> material_assignment_fails n s)"
  by (auto simp add: SetActorMaterial_def FindActorByName_result material_assignment_fails_def
      actor_lookup_fails_def Let_def split: option.split)

lemma SetActorMaterialByPath_fails:
  "case SetActorMaterialByPath n p s of
     NullDereference \<Rightarrow> True
   | Returns b s' \<Rightarrow>
       (\<not> b) = (LoadObject_UMaterialInterface s p = None \<or> material_assignment_fails n s)"
proof (cases "LoadObject_UMaterialInterface s p")
  case None
  then show ?thesis by (simp add: SetActorMaterialByPath_def)
next
  case (Some m)
  with SetActorMaterial_fails [where n = n and M = "Some m" and s = s] show ?thesis
    by (cases "SetActorMaterial n (Some m) s") (simp_all add: SetActorMaterialByPath_def)
qed

lemma setters_fail:
  "case SetActorPosition n v s of
     NullDereference \<Rightarrow> True | Returns b s' \<Rightarrow> (\<not> b) = actor_lookup_fails n s"
  "case SetActorRotation n r s of
     NullDereference \<Rightarrow> True | Returns b s' \<Rightarrow> (\<not> b) = actor_lookup_fails n s"
  "case SetActorScale n v s of
     NullDereference \<Rightarrow> True | Returns b s' \<Rightarrow> (\<not> b) = actor_lookup_fails n s"
  by (auto simp add: SetActorPosition_def SetActorRotation_def SetActorScale_def
      FindActorByName_result actor_lookup_fails_def split: option.split)

lemma CreateGameModeWithPawn_fails:
  "is_sentinel (RetJson (fst (CreateGameModeWithPawn h g p b s))) =
     guard_fails h (Op_CreateGameModeWithPawn g p b) s"
proof (cases "g = [] \<or> p = []")
  case True
  then show ?thesis by (auto simp add: CreateGameModeWithPawn_empty_path json_error_def)
next
  case paths: False
  then have g: "g \<noteq> []" "p \<noteq> []" by simp_all
  show ?thesis
  proof (cases "LoadObject_UBlueprint s g")
    case (Some bp)
    then have "LoadObject_UBlueprint s g \<noteq> None" by simp
    from CreateGameModeWithPawn_exists [OF g this] Some show ?thesis
      by (simp add: json_error_def)
  next
    case None
    show ?thesis
    proof (cases "FindObject_UClass s (BaseClassToUse b) = None
                    \<or> \<not> IsChildOf s (BaseClassToUse b) ''GameModeBase''")
      case True
      from CreateGameModeWithPawn_base_class [OF g None True] True show ?thesis
        by (auto simp add: json_error_def)
    next
      case False
      then have base: "FindObject_UClass s (BaseClassToUse b) \<noteq> None"
        "IsChildOf s (BaseClassToUse b) ''GameModeBase''" by simp_all
      show ?thesis
      proof (cases "PawnGeneratedClass s p")
        case nopawn: None
        from CreateGameModeWithPawn_pawn [OF g None base nopawn] nopawn show ?thesis
          by (simp add: json_error_def)
      next
        case (Some pc)
        show ?thesis
        proof (cases "CreateAsset_result h")
          case AssetNotCreated
          from CreateGameModeWithPawn_not_created [OF g None base Some AssetNotCreated]
            AssetNotCreated
          show ?thesis by (simp add: json_error_def)
        next
          case BlueprintWithoutClass
          from CreateGameModeWithPawn_no_class [OF g None base Some BlueprintWithoutClass]
            BlueprintWithoutClass
          show ?thesis by (simp add: json_error_def)
        next
          case (BlueprintWithClass gc cdo)
          from CreateGameModeWithPawn_created [OF g None base Some BlueprintWithClass]
          have "fst (CreateGameModeWithPawn h g p b s) =
                  ''{\"success\": true, \"message\": \"Created game mode '' @ g @ '' with pawn '' @ p
                    @ '' and set as scene default\"}''"
            by (rule conjunct1)
          with g None base Some BlueprintWithClass show ?thesis by simp
        qed
      qed
    qed
  qed
qed

lemma exec_sentinel_iff:
  assumes "exec h op s = Returns r s'"
    and fresh: "\<forall>(i, x) \<in> set (Actors s). i \<noteq> NextActor s"
  shows "is_sentinel r = guard_fails h op s"
proof (cases op)
  case (Op_SpawnBasicShape n l ro sc lb)
  with assms SpawnBasicShape_fails
    [where h = h and n = n and l = l and r = ro and sc = sc and lb = lb and s = s]
  show ?thesis by (cases "SpawnBasicShape h n l ro sc lb s") auto
next
  case (Op_SpawnStaticMeshActor p l ro sc lb)
  with assms SpawnStaticMeshActor_fails
    [OF fresh, where h = h and p = p and l = l and r = ro and sc = sc and lb = lb]
  show ?thesis by (cases "SpawnStaticMeshActor h p l ro sc lb s") auto
next
  case (Op_SpawnActorFromClass c l ro sc lb)
  with assms SpawnActorFromClass_fails
    [where h = h and c = c and l = l and r = ro and sc = sc and lb = lb and s = s]
  show ?thesis by (cases "SpawnActorFromClass h c l ro sc lb s") auto
next
  case (Op_FindActorByName n)
  with assms FindActorByName_fails [where n = n and s = s] show ?thesis
    by (cases "FindActorByName n s") auto
next
  case (Op_CreateMaterial n c)
  with assms CreateMaterial_null_iff [where h = h and n = n and c = c and s = s] show ?thesis
    by (cases "CreateMaterial h n c s") auto
next
  case (Op_SetActorMaterial n m)
  with assms SetActorMaterial_fails [where n = n and M = m and s = s] show ?thesis
    by (cases "SetActorMaterial n m s") auto
next
  case (Op_SetActorMaterialByPath n p)
  with assms SetActorMaterialByPath_fails [where n = n and p = p and s = s] show ?thesis
    by (cases "SetActorMaterialByPath n p s") auto
next
  case (Op_SetActorPosition n v)
  with assms setters_fail(1) [where n = n and v = v and s = s] show ?thesis
    by (cases "SetActorPosition n v s") auto
next
  case (Op_SetActorRotation n v)
  with assms setters_fail(2) [where n = n and r = v and s = s] show ?thesis
    by (cases "SetActorRotation n v s") auto
next
  case (Op_SetActorScale n v)
  with assms setters_fail(3) [where n = n and v = v and s = s] show ?thesis
    by (cases "SetActorScale n v s") auto
next
  case (Op_CreateGameModeWithPawn g p b)
  with assms CreateGameModeWithPawn_fails [where h = h and g = g and p = p and b = b and s = s]
  show ?thesis by (cases "CreateGameModeWithPawn h g p b s") auto
qed

lemma FindActorByName_crash:
  "(FindActorByName n s = NullDereference) = (\<not> GEditor s)"
  by (simp add: FindActorByName_result)

lemma SpawnBasicShape_crash:
  assumes "\<forall>(i, x) \<in> set (Actors s). i \<noteq> NextActor s"
    and "SpawnBasicShape h n l r sc lb s = NullDereference"
  shows "\<not> GEditor s
         \<or> (\<not> guard_fails h (Op_SpawnBasicShape n l r sc lb) s
             \<and> (\<exists>nm. SpawnActor_result h = Some (nm, False)))"
proof (cases "SpawnActor_result h")
  case None
  with assms(2) SpawnActor_None [OF None] show ?thesis
    by (simp add: SpawnBasicShape_def split: if_splits)
next
  case (Some q)
  obtain nm hm where q: "q = (nm, hm)" by (cases q)
  from SpawnedComponent [OF assms(1), of h nm hm "''StaticMeshActor''" l r] Some q
  have c: "(GetStaticMeshComponent (snd (SpawnActor h ''StaticMeshActor'' l r s)) (NextActor s) = None)
             = (\<not> hm)"
    by simp
  from assms(2) c Some q show ?thesis
    by (auto simp add: SpawnBasicShape_def Let_def split_beta split: if_splits option.splits)
qed

lemma exec_crash:
  assumes "exec h op s = NullDereference"
    and fresh: "\<forall>(i, x) \<in> set (Actors s). i \<noteq> NextActor s"
  shows "\<not> GEditor s
         \<or> (\<not> guard_fails h op s
             \<and> (\<exists>n l ro sc lb nm. op = Op_SpawnBasicShape n l ro sc lb
                    \<and> SpawnActor_result h = Some (nm, False)))"
proof (cases op)
  case (Op_SpawnBasicShape n l ro sc lb)
  with assms SpawnBasicShape_crash [OF fresh, of h n l ro sc lb] show ?thesis
    by (cases "SpawnBasicShape h n l ro sc lb s") auto
next
  case (Op_SpawnStaticMeshActor p l ro sc lb)
  with assms show ?thesis
    by (cases "SpawnStaticMeshActor h p l ro sc lb s")
       (auto simp add: SpawnStaticMeshActor_def Let_def split_beta
          split: if_splits option.splits)
next
  case (Op_SpawnActorFromClass c l ro sc lb)
  with assms show ?thesis
    by (cases "SpawnActorFromClass h c l ro sc lb s")
       (auto simp add: SpawnActorFromClass_def Let_def split_beta
          split: if_splits option.splits)
next
  case (Op_FindActorByName n)
  with assms show ?thesis
    by (cases "FindActorByName n s") (auto simp add: FindActorByName_crash)
next
  case (Op_CreateMaterial n c)
  with assms show ?thesis by (cases "CreateMaterial h n c s") auto
next
  case (Op_SetActorMaterial n m)
  with assms show ?thesis
    by (cases "SetActorMaterial n m s")
       (auto simp add: SetActorMaterial_def FindActorByName_result Let_def
          split: if_splits option.splits)
next
  case (Op_SetActorMaterialByPath n p)
  with assms show ?thesis
    by (cases "SetActorMaterialByPath n p s")
       (auto simp add: SetActorMaterialByPath_def SetActorMaterial_def FindActorByName_result
          Let_def split: if_splits option.splits)
next
  case (Op_SetActorPosition n v)
  with assms show ?thesis
    by (cases "SetActorPosition n v s")
       (auto simp add: SetActorPosition_def FindActorByName_result split: if_splits option.splits)
next
  case (Op_SetActorRotation n v)
  with assms show ?thesis
    by (cases "SetActorRotation n v s")
       (auto simp add: SetActorRotation_def FindActorByName_result split: if_splits option.splits)
next
  case (Op_SetActorScale n v)
  with assms show ?thesis
    by (cases "SetActorScale n v s")
       (auto simp add: SetActorScale_def FindActorByName_result split: if_splits option.splits)
next
  case (Op_CreateGameModeWithPawn g p b)
  with assms show ?thesis by (cases "CreateGameModeWithPawn h g p b s") auto
qed

subsection \<open>What a failed call has written\<close>

lemma SpawnBasicShape_aborts:
  "case SpawnBasicShape h n l r sc lb s of
     NullDereference \<Rightarrow> True
   | Returns a s' \<Rightarrow>
       guard_fails h (Op_SpawnBasicShape n l r sc lb) s \<longrightarrow>
         Effects s' = Effects s @ writes_on_failure h (Op_SpawnBasicShape n l r sc lb) s
         \<and> (writes_on_failure h (Op_SpawnBasicShape n l r sc lb) s = [] \<longrightarrow>
              s' = s\<lparr>LogTemp := LogTemp s'\<rparr>)"
proof (cases "GEditor s \<and> EditorWorld s")
  case False
  then show ?thesis by (auto simp add: SpawnBasicShape_def UE_LOG_def)
next
  case True
  show ?thesis
  proof (cases "SpawnActor_result h")
    case None
    with True SpawnActor_None [OF None] show ?thesis
      by (simp add: SpawnBasicShape_def UE_LOG_def)
  next
    case (Some q)
    with True show ?thesis
      by (simp add: SpawnBasicShape_def Let_def split_beta split: option.split)
  qed
qed

lemma SpawnStaticMeshActor_aborts:
  assumes "\<forall>(i, x) \<in> set (Actors s). i \<noteq> NextActor s"
  shows "case SpawnStaticMeshActor h p l r sc lb s of
     NullDereference \<Rightarrow> True
   | Returns a s' \<Rightarrow>
       guard_fails h (Op_SpawnStaticMeshActor p l r sc lb) s \<longrightarrow>
         Effects s' = Effects s @ writes_on_failure h (Op_SpawnStaticMeshActor p l r sc lb) s
         \<and> (writes_on_failure h (Op_SpawnStaticMeshActor p l r sc lb) s = [] \<longrightarrow>
              s' = s\<lparr>LogTemp := LogTemp s'\<rparr>)"
proof (cases "LoadObject_UStaticMesh s p \<noteq> None \<and> GEditor s \<and> EditorWorld s")
  case False
  then show ?thesis by (auto simp add: SpawnStaticMeshActor_def UE_LOG_def split: option.split)
next
  case True
  show ?thesis
  proof (cases "SpawnActor_result h")
    case None
    with True SpawnActor_None [OF None] show ?thesis
      by (auto simp add: SpawnStaticMeshActor_def UE_LOG_def)
  next
    case (Some q)
    obtain nm hm where q: "q = (nm, hm)" by (cases q)
    from SpawnedComponent [OF assms, of h nm hm "''StaticMeshActor''" l r] Some q
    have c: "(GetStaticMeshComponent (snd (SpawnActor h ''StaticMeshActor'' l r s)) (NextActor s) = None)
               = (\<not> hm)"
      by simp
    show ?thesis
    proof (cases hm)
      case hm: True
      with c True Some q show ?thesis
        by (auto simp add: SpawnStaticMeshActor_def Let_def split_beta split: option.split)
    next
      case False
      with c True Some q show ?thesis
        by (auto simp add: SpawnStaticMeshActor_def Let_def split_beta split: option.split)
    qed
  qed
qed

lemma SpawnActorFromClass_aborts:
  "case SpawnActorFromClass h c l r sc lb s of
     NullDereference \<Rightarrow> True
   | Returns a s' \<Rightarrow>
       guard_fails h (Op_SpawnActorFromClass c l r sc lb) s \<longrightarrow>
         Effects s' = Effects s \<and> s' = s\<lparr>LogTemp := LogTemp s'\<rparr>"
proof (cases "SpawnActor_result h")
  case None
  show ?thesis
    by (simp add: SpawnActorFromClass_def Let_def SpawnActor_None [OF None] UE_LOG_def
        split: option.split)
next
  case (Some q)
  then show ?thesis
    by (simp add: SpawnActorFromClass_def Let_def split_beta UE_LOG_def split: option.split)
qed

lemma FindActorByName_aborts:
  "case FindActorByName n s of
     NullDereference \<Rightarrow> True
   | Returns a s' \<Rightarrow> a = None \<longrightarrow> Effects s' = Effects s \<and> s' = s\<lparr>LogTemp := LogTemp s'\<rparr>"
  by (simp add: FindActorByName_result UE_LOG_def)

lemma CreateMaterial_aborts:
  "guard_fails h (Op_CreateMaterial n c) s \<longrightarrow>
     Effects (snd (CreateMaterial h n c s)) =
       Effects s @ writes_on_failure h (Op_CreateMaterial n c) s
     \<and> (writes_on_failure h (Op_CreateMaterial n c) s = [] \<longrightarrow>
          snd (CreateMaterial h n c s) = s\<lparr>LogTemp := LogTemp (snd (CreateMaterial h n c s))\<rparr>)"
proof
  assume "guard_fails h (Op_CreateMaterial n c) s"
  then have a: "FindPackage s (''/Game/Materials'' @ ''/'' @ n) = None
        \<or> LoadObject_UMaterial s (''/Game/Materials'' @ ''/'' @ n @ ''.'' @ n) = None"
    and b: "\<not> CreatePackage_ok h \<or> \<not> NewObject_ok h"
    by simp_all
  show "Effects (snd (CreateMaterial h n c s)) =
       Effects s @ writes_on_failure h (Op_CreateMaterial n c) s
     \<and> (writes_on_failure h (Op_CreateMaterial n c) s = [] \<longrightarrow>
          snd (CreateMaterial h n c s) = s\<lparr>LogTemp := LogTemp (snd (CreateMaterial h n c s))\<rparr>)"
    unfolding CreateMaterial_not_loaded [OF a] CreateMaterial_new_fails [OF b]
    by (auto simp add: FindPackage_def UE_LOG_def split: if_splits)
qed

lemma SetActorMaterial_aborts:
  "case SetActorMaterial n M s of
     NullDereference \<Rightarrow> True
   | Returns b s' \<Rightarrow> \<not> b \<longrightarrow> Effects s' = Effects s \<and> s' = s\<lparr>LogTemp := LogTemp s'\<rparr>"
  by (auto simp add: SetActorMaterial_def FindActorByName_result Let_def UE_LOG_def
      split: option.split)

lemma SetActorMaterialByPath_aborts:
  "case SetActorMaterialByPath n p s of
     NullDereference \<Rightarrow> True
   | Returns b s' \<Rightarrow> \<not> b \<longrightarrow> Effects s' = Effects s \<and> s' = s\<lparr>LogTemp := LogTemp s'\<rparr>"
proof (cases "LoadObject_UMaterialInterface s p")
  case None
  then show ?thesis by (simp add: SetActorMaterialByPath_def UE_LOG_def)
next
  case (Some m)
  with SetActorMaterial_aborts [where n = n and M = "Some m" and s = s] show ?thesis
    by (simp add: SetActorMaterialByPath_def)
qed

lemma setters_abort:
  "case SetActorPosition n v s of
     NullDereference \<Rightarrow> True
   | Returns b s' \<Rightarrow> \<not> b \<longrightarrow> Effects s' = Effects s \<and> s' = s\<lparr>LogTemp := LogTemp s'\<rparr>"
  "case SetActorRotation n r s of
     NullDereference \<Rightarrow> True
   | Returns b s' \<Rightarrow> \<not> b \<longrightarrow> Effects s' = Effects s \<and> s' = s\<lparr>LogTemp := LogTemp s'\<rparr>"
  "case SetActorScale n v s of
     NullDereference \<Rightarrow> True
   | Returns b s' \<Rightarrow> \<not> b \<longrightarrow> Effects s' = Effects s \<and> s' = s\<lparr>LogTemp := LogTemp s'\<rparr>"
  by (auto simp add: SetActorPosition_def SetActorRotation_def SetActorScale_def
      FindActorByName_result UE_LOG_def split: option.split)

lemma CreateGameModeWithPawn_no_class_run:
  "g \<noteq> [] \<Longrightarrow> p \<noteq> [] \<Longrightarrow> LoadObject_UBlueprint s g = None \<Longrightarrow>
   FindObject_UClass s (BaseClassToUse b) \<noteq> None \<Longrightarrow>
   IsChildOf s (BaseClassToUse b) ''GameModeBase'' \<Longrightarrow>
   PawnGeneratedClass s p = Some pc \<Longrightarrow>
   CreateAsset_result h = BlueprintWithoutClass \<Longrightarrow>
     CreateGameModeWithPawn h g p b s =
       (json_error ''No generated class'',
        s\<lparr>Assets := (GetLongPackagePath g @ ''/'' @ GetShortName g,
                      BlueprintAsset \<lparr>ParentClass = BaseClassToUse b, GeneratedClass = None\<rparr>)
                     # Assets s,
          LogTemp := LogTemp s @ [(Error, ''Generated class not found for %s'', [ArgS g])],
          Effects := Effects s @ [Eff_CreateAsset (GetShortName g) (GetLongPackagePath g)
                                    (BaseClassToUse b)]\<rparr>)"
  by (simp add: CreateGameModeWithPawn_def CreateAsset_def BlueprintGeneratedClass_def Let_def
        del: not_None_eq)
     (simp add: LoadObject_UBlueprint_def UE_LOG_def effect_def)

lemma CreateGameModeWithPawn_aborts:
  "guard_fails h (Op_CreateGameModeWithPawn g p b) s \<longrightarrow>
     Effects (snd (CreateGameModeWithPawn h g p b s)) =
       Effects s @ writes_on_failure h (Op_CreateGameModeWithPawn g p b) s
     \<and> (writes_on_failure h (Op_CreateGameModeWithPawn g p b) s = [] \<longrightarrow>
          snd (CreateGameModeWithPawn h g p b s) =
            s\<lparr>LogTemp := LogTemp (snd (CreateGameModeWithPawn h g p b s))\<rparr>)"
proof (cases "g = [] \<or> p = []")
  case True
  from CreateGameModeWithPawn_empty_path [OF True] True show ?thesis
    by (auto simp add: UE_LOG_def)
next
  case paths: False
  then have g: "g \<noteq> []" "p \<noteq> []" by simp_all
  show ?thesis
  proof (cases "LoadObject_UBlueprint s g")
    case (Some bp)
    then have "LoadObject_UBlueprint s g \<noteq> None" by simp
    from CreateGameModeWithPawn_exists [OF g this] Some show ?thesis
      by (simp add: UE_LOG_def)
  next
    case None
    show ?thesis
    proof (cases "FindObject_UClass s (BaseClassToUse b) = None
                    \<or> \<not> IsChildOf s (BaseClassToUse b) ''GameModeBase''")
      case True
      from CreateGameModeWithPawn_base_class [OF g None True] True show ?thesis
        by (auto simp add: UE_LOG_def)
    next
      case False
      then have base: "FindObject_UClass s (BaseClassToUse b) \<noteq> None"
        "IsChildOf s (BaseClassToUse b) ''GameModeBase''" by simp_all
      show ?thesis
      proof (cases "PawnGeneratedClass s p")
        case nopawn: None
        from CreateGameModeWithPawn_pawn [OF g None base nopawn] nopawn show ?thesis
          by (simp add: UE_LOG_def)
      next
        case (Some pc)
        show ?thesis
        proof (cases "CreateAsset_result h")
          case AssetNotCreated
          from CreateGameModeWithPawn_not_created [OF g None base Some AssetNotCreated]
            AssetNotCreated
          show ?thesis by (simp add: UE_LOG_def)
        next
          case BlueprintWithoutClass
          from CreateGameModeWithPawn_no_class_run [OF g None base Some BlueprintWithoutClass]
            BlueprintWithoutClass g None base Some
          show ?thesis by simp
        next
          case (BlueprintWithClass gc cdo)
          with g None base Some show ?thesis by (simp del: not_None_eq)
        qed
      qed
    qed
  qed
qed

lemma exec_aborts:
  assumes run: "exec h op s = Returns r s'"
    and fresh: "\<forall>(i, x) \<in> set (Actors s). i \<noteq> NextActor s"
    and gf: "guard_fails h op s"
  shows "Effects s' = Effects s @ writes_on_failure h op s
         \<and> (writes_on_failure h op s = [] \<longrightarrow> s' = s\<lparr>LogTemp := LogTemp s'\<rparr>)"
proof -
  from exec_sentinel_iff [OF run fresh] gf have sen: "is_sentinel r" by simp
  show ?thesis
  proof (cases op)
    case (Op_SpawnBasicShape n l ro sc lb)
    with run gf SpawnBasicShape_aborts
      [where h = h and n = n and l = l and r = ro and sc = sc and lb = lb and s = s]
    show ?thesis by (cases "SpawnBasicShape h n l ro sc lb s") auto
  next
    case (Op_SpawnStaticMeshActor p l ro sc lb)
    with run gf SpawnStaticMeshActor_aborts
      [OF fresh, where h = h and p = p and l = l and r = ro and sc = sc and lb = lb]
    show ?thesis by (cases "SpawnStaticMeshActor h p l ro sc lb s") auto
  next
    case (Op_SpawnActorFromClass c l ro sc lb)
    with run gf SpawnActorFromClass_aborts
      [where h = h and c = c and l = l and r = ro and sc = sc and lb = lb and s = s]
    show ?thesis by (cases "SpawnActorFromClass h c l ro sc lb s") auto
  next
    case (Op_FindActorByName n)
    with run sen FindActorByName_aborts [where n = n and s = s] show ?thesis
      by (cases "FindActorByName n s") auto
  next
    case (Op_CreateMaterial n c)
    with run gf CreateMaterial_aborts [where h = h and n = n and c = c and s = s]
    show ?thesis by (cases "CreateMaterial h n c s") auto
  next
    case (Op_SetActorMaterial n m)
    with run sen SetActorMaterial_aborts [where n = n and M = m and s = s] show ?thesis
      by (cases "SetActorMaterial n m s") auto
  next
    case (Op_SetActorMaterialByPath n p)
    with run sen SetActorMaterialByPath_aborts [where n = n and p = p and s = s] show ?thesis
      by (cases "SetActorMaterialByPath n p s") auto
  next
    case (Op_SetActorPosition n v)
    with run sen setters_abort(1) [where n = n and v = v and s = s] show ?thesis
      by (cases "SetActorPosition n v s") auto
  next
    case (Op_SetActorRotation n v)
    with run sen setters_abort(2) [where n = n and r = v and s = s] show ?thesis
      by (cases "SetActorRotation n v s") auto
  next
    case (Op_SetActorScale n v)
    with run sen setters_abort(3) [where n = n and v = v and s = s] show ?thesis
      by (cases "SetActorScale n v s") auto
  next
    case (Op_CreateGameModeWithPawn g p b)
    with run gf CreateGameModeWithPawn_aborts [where h = h and g = g and p = p and b = b and s = s]
    show ?thesis by (cases "CreateGameModeWithPawn h g p b s") auto
  qed
qed

subsection \<open>The error policy\<close>

text \<open>
  C1, as the claim states it, fails, in three ways. With a host on which the connection of
  the colour expression and the save both fail, \<open>CreateMaterial\<close> still returns the new
  material. With a host on which the colour expression cannot be created, it returns the
  new material and logs nothing but the success of the save. And without an editor world,
  \<open>CreateGameModeWithPawn\<close> logs a warning and returns the success JSON.
\<close>

theorem CreateMaterial_unsaved_counterexample:
  "\<not> SavePackage_ok (demo_outcomes\<lparr>ConnectMaterialProperty_ok := False, SavePackage_ok := False\<rparr>)
   \<and> \<not> ConnectMaterialProperty_ok
         (demo_outcomes\<lparr>ConnectMaterialProperty_ok := False, SavePackage_ok := False\<rparr>)
   \<and> fst (CreateMaterial
            (demo_outcomes\<lparr>ConnectMaterialProperty_ok := False, SavePackage_ok := False\<rparr>)
            ''Red'' (FLinearColor 1 0 0 1) demo_host) = Some ''/Game/Materials/Red.Red''
   \<and> \<not> CreateMaterialExpression_ok (demo_outcomes\<lparr>CreateMaterialExpression_ok := False\<rparr>)
   \<and> fst (CreateMaterial (demo_outcomes\<lparr>CreateMaterialExpression_ok := False\<rparr>)
            ''Red'' (FLinearColor 1 0 0 1) demo_host) = Some ''/Game/Materials/Red.Red''
   \<and> LogTemp (snd (CreateMaterial (demo_outcomes\<lparr>CreateMaterialExpression_ok := False\<rparr>)
            ''Red'' (FLinearColor 1 0 0 1) demo_host)) =
       [(Log, ''Successfully created and saved material '%s'' @ [CHR 0x27], [ArgS ''Red''])]
   \<and> \<not> EditorWorld (demo_host\<lparr>EditorWorld := False\<rparr>)
   \<and> fst (CreateGameModeWithPawn demo_outcomes ''/Game/Modes/BP_GameMode'' ''/Game/BP_Pawn'' []
            (demo_host\<lparr>EditorWorld := False\<rparr>)) =
       ''{\"success\": true, \"message\": \"Created game mode /Game/Modes/BP_GameMode with pawn /Game/BP_Pawn and set as scene default\"}''
   \<and> LogTemp (snd (CreateGameModeWithPawn demo_outcomes ''/Game/Modes/BP_GameMode''
                      ''/Game/BP_Pawn'' [] (demo_host\<lparr>EditorWorld := False\<rparr>))) =
       [(Warning, ''No current world found to set game mode'', []),
        (Log, ''Created game mode %s with pawn %s and set as scene default'',
         [ArgS ''/Game/Modes/BP_GameMode'', ArgS ''/Game/BP_Pawn''])]"
proof -
  let ?h1 = "demo_outcomes\<lparr>ConnectMaterialProperty_ok := False, SavePackage_ok := False\<rparr>"
  let ?h2 = "demo_outcomes\<lparr>CreateMaterialExpression_ok := False\<rparr>"
  let ?w = "demo_host\<lparr>EditorWorld := False\<rparr>"
  have a: "\<not> SavePackage_ok ?h1" "\<not> ConnectMaterialProperty_ok ?h1"
      "\<not> CreateMaterialExpression_ok ?h2" "\<not> EditorWorld ?w"
    by (simp_all add: demo_outcomes_def)
  have fp: "FindPackage demo_host (''/Game/Materials'' @ ''/'' @ ''Red'') = None
        \<or> LoadObject_UMaterial demo_host (''/Game/Materials'' @ ''/'' @ ''Red'' @ ''.'' @ ''Red'') = None"
    by (simp add: FindPackage_def demo_host_def)
  have ok: "CreatePackage_ok ?h1" "NewObject_ok ?h1" "CreatePackage_ok ?h2" "NewObject_ok ?h2"
      "SavePackage_ok ?h2"
    by (simp_all add: demo_outcomes_def)
  have lg: "LogTemp demo_host = []" "LogTemp ?w = []" "GEditor ?w"
      "FindPackage demo_host (''/Game/Materials'' @ ''/'' @ ''Red'') = None"
    by (simp_all add: demo_host_def FindPackage_def)
  from CreateMaterial_created_log [OF fp ok(1,2), of "FLinearColor 1 0 0 1"]
  have m1: "fst (CreateMaterial ?h1 ''Red'' (FLinearColor 1 0 0 1) demo_host) =
              Some ''/Game/Materials/Red.Red''"
    by simp
  from CreateMaterial_created_log [OF fp ok(3,4), of "FLinearColor 1 0 0 1"] a(3) ok(5) lg
  have m2: "fst (CreateMaterial ?h2 ''Red'' (FLinearColor 1 0 0 1) demo_host) =
              Some ''/Game/Materials/Red.Red''"
    and l2: "LogTemp (snd (CreateMaterial ?h2 ''Red'' (FLinearColor 1 0 0 1) demo_host)) =
       [(Log, ''Successfully created and saved material '%s'' @ [CHR 0x27], [ArgS ''Red''])]"
    by simp_all
  have gm: "''/Game/Modes/BP_GameMode'' \<noteq> []" "''/Game/BP_Pawn'' \<noteq> []"
      "LoadObject_UBlueprint ?w ''/Game/Modes/BP_GameMode'' = None"
      "FindObject_UClass ?w (BaseClassToUse []) \<noteq> None"
      "IsChildOf ?w (BaseClassToUse []) ''GameModeBase''"
      "PawnGeneratedClass ?w ''/Game/BP_Pawn'' = Some ''BP_Pawn_C''"
      "CreateAsset_result demo_outcomes =
         BlueprintWithClass ''BP_GameMode_C'' (Some (GameModeCDO None))"
    by (simp_all add: LoadObject_UBlueprint_def FindObject_UClass_def BaseClassToUse_def
        IsChildOf_def PawnGeneratedClass_def demo_host_def demo_outcomes_def)
  from CreateGameModeWithPawn_created [OF gm, THEN conjunct1]
  have j: "fst (CreateGameModeWithPawn demo_outcomes ''/Game/Modes/BP_GameMode''
                  ''/Game/BP_Pawn'' [] ?w) =
       ''{\"success\": true, \"message\": \"Created game mode /Game/Modes/BP_GameMode with pawn /Game/BP_Pawn and set as scene default\"}''"
    by simp
  from CreateGameModeWithPawn_created_log [OF gm] a(4) lg
  have l3: "LogTemp (snd (CreateGameModeWithPawn demo_outcomes ''/Game/Modes/BP_GameMode''
                      ''/Game/BP_Pawn'' [] ?w)) =
       [(Warning, ''No current world found to set game mode'', []),
        (Log, ''Created game mode %s with pawn %s and set as scene default'',
         [ArgS ''/Game/Modes/BP_GameMode'', ArgS ''/Game/BP_Pawn''])]"
    by simp
  from a(1,2) m1 a(3) m2 l2 a(4) j l3 show ?thesis by (intro conjI)
qed

text \<open>
  C1, amended. A guard is a check whose failing branch returns: the editor world, the
  spawn, the mesh, the mesh component and the class of the spawn functions; the editor
  world and the actor of the lookup; the package and the material object of
  \<open>CreateMaterial\<close>; the material, the actor and its mesh component of the material
  assignment; the actor of the setters; the paths, the existing blueprint, the base class,
  the pawn blueprint, the asset and its generated class of \<open>CreateGameModeWithPawn\<close>. For
  every operation of the module, on a host whose next actor reference is unused: a call
  that returns, returns its null, false or error-JSON sentinel exactly when one of its
  guards fails, and whenever it returns the sentinel it has logged during the call, the
  last line an error or a warning. The guards are checked at once: a call in which a guard
  fails has made the writes of \<open>writes_on_failure\<close> and no other, that is, nothing after
  the step that failed but the destruction of the actor it had spawned. A call that does
  not return has dereferenced a null pointer that the source does not check: the editor,
  or the mesh component of the actor that \<open>SpawnBasicShape\<close> has spawned, and in the second
  case no guard had failed.

  Not every check is a guard. \<open>CreateMaterial\<close> returns null exactly when no existing
  material is loaded and the package or the material object cannot be created. When both
  can be created it returns the new material whatever the later steps do, and the lines it
  logs are exactly: the warning that the package exists, when it does; the error that the
  colour expression did not connect, when the expression was created and did not connect;
  the success or the error of the save. A colour expression that cannot be created leaves
  no line at all. So a non-null return does not say that the expression was created, that
  it was connected, or that the package was saved. Likewise \<open>CreateGameModeWithPawn\<close>, past
  its guards, returns the success JSON whether or not the new class became the game mode of
  the level: without an editor nothing is logged about it, without an editor world or a
  current level a warning is, and the call succeeds all the same. These are all its lines:
  nothing is logged either when the class default object is not a game mode.
\<close>

theorem failure_is_logged:
  "(\<forall>r s'. exec h op s = Returns r s' \<and> (\<forall>(i, x) \<in> set (Actors s). i \<noteq> NextActor s) \<longrightarrow>
       (is_sentinel r \<longleftrightarrow> guard_fails h op s))
   \<and> (\<forall>r s'. exec h op s = Returns r s' \<and> is_sentinel r \<longrightarrow>
       (\<exists>new. LogTemp s' = LogTemp s @ new \<and> new \<noteq> [] \<and> fst (last new) \<noteq> Log))
   \<and> (\<forall>r s'. exec h op s = Returns r s' \<and> (\<forall>(i, x) \<in> set (Actors s). i \<noteq> NextActor s)
         \<and> guard_fails h op s \<longrightarrow>
       Effects s' = Effects s @ writes_on_failure h op s)
   \<and> (exec h op s = NullDereference \<and> (\<forall>(i, x) \<in> set (Actors s). i \<noteq> NextActor s) \<longrightarrow>
        \<not> GEditor s
        \<or> (\<not> guard_fails h op s
            \<and> (\<exists>shape l ro sc lb nm. op = Op_SpawnBasicShape shape l ro sc lb
                   \<and> SpawnActor_result h = Some (nm, False))))
   \<and> (fst (CreateMaterial h n c s) = None \<longleftrightarrow>
        (FindPackage s (''/Game/Materials'' @ ''/'' @ n) = None
           \<or> LoadObject_UMaterial s (''/Game/Materials'' @ ''/'' @ n @ ''.'' @ n) = None)
        \<and> (\<not> CreatePackage_ok h \<or> \<not> NewObject_ok h))
   \<and> ((FindPackage s (''/Game/Materials'' @ ''/'' @ n) = None
           \<or> LoadObject_UMaterial s (''/Game/Materials'' @ ''/'' @ n @ ''.'' @ n) = None)
        \<and> CreatePackage_ok h \<and> NewObject_ok h \<longrightarrow>
        fst (CreateMaterial h n c s) = Some (''/Game/Materials'' @ ''/'' @ n @ ''.'' @ n)
        \<and> LogTemp (snd (CreateMaterial h n c s)) =
            LogTemp s
            @ (if FindPackage s (''/Game/Materials'' @ ''/'' @ n) = None then []
               else [(Warning, ''Material '%s' already exists, trying to load it'', [ArgS n])])
            @ (if CreateMaterialExpression_ok h \<and> \<not> ConnectMaterialProperty_ok h
               then [(Error, ''Failed to connect material property'', [])] else [])
            @ [if SavePackage_ok h
               then (Log, ''Successfully created and saved material '%s'' @ [CHR 0x27], [ArgS n])
               else (Error, ''Failed to save material '%s'' @ [CHR 0x27], [ArgS n])])
   \<and> (g \<noteq> [] \<and> p \<noteq> [] \<and> LoadObject_UBlueprint s g = None
        \<and> FindObject_UClass s (BaseClassToUse b) \<noteq> None
        \<and> IsChildOf s (BaseClassToUse b) ''GameModeBase''
        \<and> PawnGeneratedClass s p \<noteq> None
        \<and> CreateAsset_result h = BlueprintWithClass gc cdo \<longrightarrow>
        fst (CreateGameModeWithPawn h g p b s) =
          ''{\"success\": true, \"message\": \"Created game mode '' @ g @ '' with pawn '' @ p
            @ '' and set as scene default\"}''
        \<and> LogTemp (snd (CreateGameModeWithPawn h g p b s)) =
            LogTemp s
            @ (if GEditor s
               then [if EditorWorld s
                     then if CurrentLevel s
                          then (Log, ''Set %s as default game mode for current scene'', [ArgS g])
                          else (Warning, ''No current level found to set game mode'', [])
                     else (Warning, ''No current world found to set game mode'', [])]
               else [])
            @ [(Log, ''Created game mode %s with pawn %s and set as scene default'',
                [ArgS g, ArgS p])])"
proof (intro conjI allI impI)
  fix r s'
  assume a: "exec h op s = Returns r s' \<and> (\<forall>(i, x) \<in> set (Actors s). i \<noteq> NextActor s)"
  from a have run: "exec h op s = Returns r s'" by (rule conjunct1)
  from a have fresh: "\<forall>(i, x) \<in> set (Actors s). i \<noteq> NextActor s" by (rule conjunct2)
  show "is_sentinel r \<longleftrightarrow> guard_fails h op s"
    by (rule exec_sentinel_iff [OF run fresh])
next
  fix r s'
  assume "exec h op s = Returns r s' \<and> is_sentinel r"
  then have "logs_failure s s'" using exec_sentinel_logged [of h op s r s'] by simp
  then show "\<exists>new. LogTemp s' = LogTemp s @ new \<and> new \<noteq> [] \<and> fst (last new) \<noteq> Log"
    by (rule logs_failure_new)
next
  fix r s'
  assume a: "exec h op s = Returns r s' \<and> (\<forall>(i, x) \<in> set (Actors s). i \<noteq> NextActor s)
         \<and> guard_fails h op s"
  from a have run: "exec h op s = Returns r s'" by (rule conjunct1)
  from a have fresh: "\<forall>(i, x) \<in> set (Actors s). i \<noteq> NextActor s"
    by (rule conjunct2 [THEN conjunct1])
  from a have gf: "guard_fails h op s" by (rule conjunct2 [THEN conjunct2])
  show "Effects s' = Effects s @ writes_on_failure h op s"
    by (rule exec_aborts [OF run fresh gf, THEN conjunct1])
next
  assume a: "exec h op s = NullDereference \<and> (\<forall>(i, x) \<in> set (Actors s). i \<noteq> NextActor s)"
  from a have run: "exec h op s = NullDereference" by (rule conjunct1)
  from a have fresh: "\<forall>(i, x) \<in> set (Actors s). i \<noteq> NextActor s" by (rule conjunct2)
  show "\<not> GEditor s
        \<or> (\<not> guard_fails h op s
            \<and> (\<exists>shape l ro sc lb nm. op = Op_SpawnBasicShape shape l ro sc lb
                   \<and> SpawnActor_result h = Some (nm, False)))"
    by (rule exec_crash [OF run fresh])
next
  show "fst (CreateMaterial h n c s) = None \<longleftrightarrow>
        (FindPackage s (''/Game/Materials'' @ ''/'' @ n) = None
           \<or> LoadObject_UMaterial s (''/Game/Materials'' @ ''/'' @ n @ ''.'' @ n) = None)
        \<and> (\<not> CreatePackage_ok h \<or> \<not> NewObject_ok h)"
    by (rule CreateMaterial_null_iff)
next
  assume a: "(FindPackage s (''/Game/Materials'' @ ''/'' @ n) = None
           \<or> LoadObject_UMaterial s (''/Game/Materials'' @ ''/'' @ n @ ''.'' @ n) = None)
        \<and> CreatePackage_ok h \<and> NewObject_ok h"
  from a have e: "FindPackage s (''/Game/Materials'' @ ''/'' @ n) = None
           \<or> LoadObject_UMaterial s (''/Game/Materials'' @ ''/'' @ n @ ''.'' @ n) = None"
    by (rule conjunct1)
  from a have p: "CreatePackage_ok h" by (rule conjunct2 [THEN conjunct1])
  from a have o: "NewObject_ok h" by (rule conjunct2 [THEN conjunct2])
  show "fst (CreateMaterial h n c s) = Some (''/Game/Materials'' @ ''/'' @ n @ ''.'' @ n)"
    by (rule CreateMaterial_created_log [OF e p o, THEN conjunct1])
  show "LogTemp (snd (CreateMaterial h n c s)) =
            LogTemp s
            @ (if FindPackage s (''/Game/Materials'' @ ''/'' @ n) = None then []
               else [(Warning, ''Material '%s' already exists, trying to load it'', [ArgS n])])
            @ (if CreateMaterialExpression_ok h \<and> \<not> ConnectMaterialProperty_ok h
               then [(Error, ''Failed to connect material property'', [])] else [])
            @ [if SavePackage_ok h
               then (Log, ''Successfully created and saved material '%s'' @ [CHR 0x27], [ArgS n])
               else (Error, ''Failed to save material '%s'' @ [CHR 0x27], [ArgS n])]"
    by (rule CreateMaterial_created_log [OF e p o, THEN conjunct2])
next
  assume a: "g \<noteq> [] \<and> p \<noteq> [] \<and> LoadObject_UBlueprint s g = None
        \<and> FindObject_UClass s (BaseClassToUse b) \<noteq> None
        \<and> IsChildOf s (BaseClassToUse b) ''GameModeBase''
        \<and> PawnGeneratedClass s p \<noteq> None
        \<and> CreateAsset_result h = BlueprintWithClass gc cdo"
  then have g: "g \<noteq> []" "p \<noteq> []" "LoadObject_UBlueprint s g = None"
    and base: "FindObject_UClass s (BaseClassToUse b) \<noteq> None"
      "IsChildOf s (BaseClassToUse b) ''GameModeBase''"
    and created: "CreateAsset_result h = BlueprintWithClass gc cdo"
    by simp_all
  from a obtain pc where pawn: "PawnGeneratedClass s p = Some pc" by auto
  show "fst (CreateGameModeWithPawn h g p b s) =
          ''{\"success\": true, \"message\": \"Created game mode '' @ g @ '' with pawn '' @ p
            @ '' and set as scene default\"}''"
    by (rule CreateGameModeWithPawn_created [OF g base pawn created, THEN conjunct1])
  show "LogTemp (snd (CreateGameModeWithPawn h g p b s)) =
            LogTemp s
            @ (if GEditor s
               then [if EditorWorld s
                     then if CurrentLevel s
                          then (Log, ''Set %s as default game mode for current scene'', [ArgS g])
                          else (Warning, ''No current level found to set game mode'', [])
                     else (Warning, ''No current world found to set game mode'', [])]
               else [])
            @ [(Log, ''Created game mode %s with pawn %s and set as scene default'',
                [ArgS g, ArgS p])]"
    by (rule CreateGameModeWithPawn_created_log [OF g base pawn created])
qed

theorem failure_is_logged_witness:
  "exec demo_outcomes (Op_FindActorByName ''Moon'') demo_host =
     Returns (RetActor None)
       (UE_LOG Warning ''Actor '%s' not found in the level'' [ArgS ''Moon''] demo_host)
   \<and> map fst (Actors demo_host) = [0, 1] \<and> NextActor demo_host = 2
   \<and> is_sentinel (RetActor None)
   \<and> guard_fails demo_outcomes (Op_FindActorByName ''Moon'') demo_host
   \<and> (\<exists>new. LogTemp (UE_LOG Warning ''Actor '%s' not found in the level'' [ArgS ''Moon'']
                        demo_host) = LogTemp demo_host @ new
          \<and> new \<noteq> [] \<and> fst (last new) \<noteq> Log)
   \<and> Effects (UE_LOG Warning ''Actor '%s' not found in the level'' [ArgS ''Moon''] demo_host) = []
   \<and> exec (demo_outcomes\<lparr>SpawnActor_result := Some (''StaticMeshActor_1'', False)\<rparr>)
        (Op_SpawnBasicShape ''Cube'' (FVector 0 0 0) (FRotator 0 0 0) (FVector 1 1 1) [])
        demo_host = NullDereference
   \<and> GEditor demo_host
   \<and> \<not> guard_fails (demo_outcomes\<lparr>SpawnActor_result := Some (''StaticMeshActor_1'', False)\<rparr>)
         (Op_SpawnBasicShape ''Cube'' (FVector 0 0 0) (FRotator 0 0 0) (FVector 1 1 1) [])
         demo_host
   \<and> FindPackage demo_host (''/Game/Materials'' @ ''/'' @ ''Red'') = None
   \<and> CreatePackage_ok (demo_outcomes\<lparr>CreateMaterialExpression_ok := False, SavePackage_ok := False\<rparr>)
   \<and> NewObject_ok (demo_outcomes\<lparr>CreateMaterialExpression_ok := False, SavePackage_ok := False\<rparr>)
   \<and> fst (CreateMaterial
            (demo_outcomes\<lparr>CreateMaterialExpression_ok := False, SavePackage_ok := False\<rparr>)
            ''Red'' (FLinearColor 1 0 0 1) demo_host) = Some ''/Game/Materials/Red.Red''
   \<and> LogTemp (snd (CreateMaterial
            (demo_outcomes\<lparr>CreateMaterialExpression_ok := False, SavePackage_ok := False\<rparr>)
            ''Red'' (FLinearColor 1 0 0 1) demo_host)) =
       [(Error, ''Failed to save material '%s'' @ [CHR 0x27], [ArgS ''Red''])]
   \<and> fst (CreateGameModeWithPawn demo_outcomes ''/Game/Modes/BP_GameMode'' ''/Game/BP_Pawn'' []
            (demo_host\<lparr>EditorWorld := False\<rparr>)) =
       ''{\"success\": true, \"message\": \"Created game mode /Game/Modes/BP_GameMode with pawn /Game/BP_Pawn and set as scene default\"}''
   \<and> LogTemp (snd (CreateGameModeWithPawn demo_outcomes ''/Game/Modes/BP_GameMode''
                      ''/Game/BP_Pawn'' [] (demo_host\<lparr>EditorWorld := False\<rparr>))) =
       [(Warning, ''No current world found to set game mode'', []),
        (Log, ''Created game mode %s with pawn %s and set as scene default'',
         [ArgS ''/Game/Modes/BP_GameMode'', ArgS ''/Game/BP_Pawn''])]"
proof -
  let ?t = "UE_LOG Warning ''Actor '%s' not found in the level'' [ArgS ''Moon''] demo_host"
  let ?h1 = "demo_outcomes\<lparr>SpawnActor_result := Some (''StaticMeshActor_1'', False)\<rparr>"
  let ?op1 = "Op_SpawnBasicShape ''Cube'' (FVector 0 0 0) (FRotator 0 0 0) (FVector 1 1 1) []"
  let ?h = "demo_outcomes\<lparr>CreateMaterialExpression_ok := False, SavePackage_ok := False\<rparr>"
  let ?w = "demo_host\<lparr>EditorWorld := False\<rparr>"
  have run: "exec demo_outcomes (Op_FindActorByName ''Moon'') demo_host = Returns (RetActor None) ?t"
    by (simp add: FindActorByName_def demo_host_def cube_actor_def light_actor_def
        FindObject_AActor_def FString_eq_def ToLower_def)
  have ids: "map fst (Actors demo_host) = [0, 1]" "NextActor demo_host = 2"
    by (simp_all add: demo_host_def)
  have fresh: "\<forall>(i, x) \<in> set (Actors demo_host). i \<noteq> NextActor demo_host"
    by (simp add: demo_host_def)
  have sen: "is_sentinel (RetActor None)" by simp
  have ed: "GEditor demo_host" by (simp add: demo_host_def)
  have crash: "exec ?h1 ?op1 demo_host = NullDereference"
    by (simp add: SpawnBasicShape_def SpawnActor_def Let_def LoadObject_UStaticMesh_def
        GetStaticMeshComponent_def GetActor_def effect_def demo_host_def demo_outcomes_def)
  have fp: "FindPackage demo_host (''/Game/Materials'' @ ''/'' @ ''Red'') = None"
    by (simp add: FindPackage_def demo_host_def)
  have ok: "CreatePackage_ok ?h" "NewObject_ok ?h" "\<not> SavePackage_ok ?h"
      "\<not> CreateMaterialExpression_ok ?h"
    by (simp_all add: demo_outcomes_def)
  have lg: "LogTemp demo_host = []" "LogTemp ?w = []" "GEditor ?w" "\<not> EditorWorld ?w"
    by (simp_all add: demo_host_def)
  have gm: "''/Game/Modes/BP_GameMode'' \<noteq> []" "''/Game/BP_Pawn'' \<noteq> []"
      "LoadObject_UBlueprint ?w ''/Game/Modes/BP_GameMode'' = None"
      "FindObject_UClass ?w (BaseClassToUse []) \<noteq> None"
      "IsChildOf ?w (BaseClassToUse []) ''GameModeBase''"
      "PawnGeneratedClass ?w ''/Game/BP_Pawn'' \<noteq> None"
      "CreateAsset_result demo_outcomes =
         BlueprintWithClass ''BP_GameMode_C'' (Some (GameModeCDO None))"
    by (simp_all add: LoadObject_UBlueprint_def FindObject_UClass_def BaseClassToUse_def
        IsChildOf_def PawnGeneratedClass_def demo_host_def demo_outcomes_def)
  note inst = failure_is_logged
    [of demo_outcomes "Op_FindActorByName ''Moon''" demo_host "''Red''" "FLinearColor 1 0 0 1"]
  from inst [THEN conjunct1, rule_format, OF conjI [OF run fresh]] sen
  have fails: "guard_fails demo_outcomes (Op_FindActorByName ''Moon'') demo_host"
    by simp
  note lookup = inst [THEN conjunct2, THEN conjunct1, rule_format, OF conjI [OF run sen]]
  from inst [THEN conjunct2, THEN conjunct2, THEN conjunct1, rule_format,
      OF conjI [OF run conjI [OF fresh fails]]]
  have wrote: "Effects ?t = []" by (simp add: demo_host_def)
  from failure_is_logged [where h = ?h1 and op = ?op1 and s = demo_host,
      THEN conjunct2, THEN conjunct2, THEN conjunct2, THEN conjunct1, THEN mp,
      OF conjI [OF crash fresh]] ed
  have nofail: "\<not> guard_fails ?h1 ?op1 demo_host" by blast
  note create = failure_is_logged
    [where h = ?h and s = demo_host and n = "''Red''" and c = "FLinearColor 1 0 0 1",
     THEN conjunct2, THEN conjunct2, THEN conjunct2, THEN conjunct2, THEN conjunct2,
     THEN conjunct1, THEN mp,
     OF conjI [OF disjI1 [OF fp] conjI [OF ok(1,2)]]]
  from create ok fp lg
  have made: "fst (CreateMaterial ?h ''Red'' (FLinearColor 1 0 0 1) demo_host) =
                Some ''/Game/Materials/Red.Red''"
    and mlog: "LogTemp (snd (CreateMaterial ?h ''Red'' (FLinearColor 1 0 0 1) demo_host)) =
       [(Error, ''Failed to save material '%s'' @ [CHR 0x27], [ArgS ''Red''])]"
    by simp_all
  note mode = failure_is_logged
    [where h = demo_outcomes and s = ?w and g = "''/Game/Modes/BP_GameMode''"
       and p = "''/Game/BP_Pawn''" and b = "[]",
     THEN conjunct2, THEN conjunct2, THEN conjunct2, THEN conjunct2, THEN conjunct2,
     THEN conjunct2, THEN mp,
     OF conjI [OF gm(1) conjI [OF gm(2) conjI [OF gm(3) conjI [OF gm(4) conjI [OF gm(5)
          conjI [OF gm(6) gm(7)]]]]]]]
  from mode lg
  have json: "fst (CreateGameModeWithPawn demo_outcomes ''/Game/Modes/BP_GameMode''
                     ''/Game/BP_Pawn'' [] ?w) =
       ''{\"success\": true, \"message\": \"Created game mode /Game/Modes/BP_GameMode with pawn /Game/BP_Pawn and set as scene default\"}''"
    and glog: "LogTemp (snd (CreateGameModeWithPawn demo_outcomes ''/Game/Modes/BP_GameMode''
                      ''/Game/BP_Pawn'' [] ?w)) =
       [(Warning, ''No current world found to set game mode'', []),
        (Log, ''Created game mode %s with pawn %s and set as scene default'',
         [ArgS ''/Game/Modes/BP_GameMode'', ArgS ''/Game/BP_Pawn''])]"
    by simp_all
  from run ids sen fails lookup wrote crash ed nofail fp ok(1,2) made mlog json glog
  show ?thesis by (intro conjI)
qed

subsection \<open>Abort and rollback\<close>

lemma SpawnBasicShape_rolls_back:
  assumes "GEditor s" "EditorWorld s" "SpawnActor_result h = Some (nm, hm)"
    and "LoadObject_UStaticMesh s (''/Engine/BasicShapes/'' @ shape @ ''.'' @ shape) = None"
    and fresh: "\<forall>(i, x) \<in> set (Actors s). i \<noteq> NextActor s"
  shows "SpawnBasicShape h shape l ro sc lb s =
           Returns None
             (s\<lparr>NextActor := Suc (NextActor s),
                LogTemp := LogTemp s @
                  [(Error, ''Failed to load static mesh at path: %s'',
                    [ArgS (''/Engine/BasicShapes/'' @ shape @ ''.'' @ shape)])],
                Effects := Effects s @ [Eff_SpawnActor (NextActor s), Eff_Destroy (NextActor s)]\<rparr>)"
  using assms(1-4) fresh_filter [OF fresh]
  by (simp add: SpawnBasicShape_def SpawnActor_def Let_def LoadObject_UStaticMesh_def
      Destroy_def UE_LOG_def effect_def)

lemma SpawnStaticMeshActor_rolls_back:
  assumes "LoadObject_UStaticMesh s MeshPath \<noteq> None"
    and "GEditor s" "EditorWorld s" "SpawnActor_result h = Some (nm, False)"
    and fresh: "\<forall>(i, x) \<in> set (Actors s). i \<noteq> NextActor s"
  shows "SpawnStaticMeshActor h MeshPath l ro sc lb s =
           Returns None
             (s\<lparr>NextActor := Suc (NextActor s),
                LogTemp := LogTemp s @
                  [(Error, ''No StaticMeshComponent found on spawned actor'', [])],
                Effects := Effects s @ [Eff_SpawnActor (NextActor s), Eff_Destroy (NextActor s)]\<rparr>)"
proof -
  let ?new = "\<lparr>ActorLabel = nm, ObjectName = nm, ActorClass = ''StaticMeshActor'',
                ActorLocation = l, ActorRotation = ro, ActorScale3D = FVector 1 1 1,
                StaticMeshComponent = None\<rparr>"
  let ?s1 = "effect (Eff_SpawnActor (NextActor s))
               (s\<lparr>Actors := Actors s @ [(NextActor s, ?new)], NextActor := Suc (NextActor s)\<rparr>)"
  have sp: "SpawnActor h ''StaticMeshActor'' l ro s = (Some (NextActor s), ?s1)"
    using assms(4) by (simp add: SpawnActor_def Let_def)
  have co: "GetStaticMeshComponent ?s1 (NextActor s) = None"
    using fresh_map_of [OF fresh, of ?new]
    by (simp add: GetStaticMeshComponent_def GetActor_def)
  let ?s' = "Destroy (NextActor s)
               (UE_LOG Error ''No StaticMeshComponent found on spawned actor'' [] ?s1)"
  have run: "SpawnStaticMeshActor h MeshPath l ro sc lb s = Returns None ?s'"
    using assms(1-3) sp co by (auto simp add: SpawnStaticMeshActor_def Let_def)
  show ?thesis
    unfolding run using fresh_filter [OF fresh]
    by (simp add: Destroy_def UE_LOG_def effect_def)
qed

lemma CreateMaterial_keeps_package:
  assumes "FindPackage s (''/Game/Materials'' @ ''/'' @ n) = None"
    and "CreatePackage_ok h" and "\<not> NewObject_ok h"
  shows "CreateMaterial h n c s =
     (None,
      s\<lparr>Packages := (''/Game/Materials'' @ ''/'' @ n) # Packages s,
        LogTemp := LogTemp s
           @ [(Error, ''Failed to create material '%s'' @ [CHR 0x27], [ArgS n])],
        Effects := Effects s @ [Eff_CreatePackage (''/Game/Materials'' @ ''/'' @ n)]\<rparr>)"
proof -
  from assms(1) have a: "FindPackage s (''/Game/Materials'' @ ''/'' @ n) = None
        \<or> LoadObject_UMaterial s (''/Game/Materials'' @ ''/'' @ n @ ''.'' @ n) = None"
    by simp
  from assms(3) have b: "\<not> CreatePackage_ok h \<or> \<not> NewObject_ok h" by simp
  from assms(1) have c: "(''/Game/Materials'' @ ''/'' @ n) \<notin> set (Packages s)"
    by (simp add: FindPackage_def split: if_splits)
  show ?thesis
    unfolding CreateMaterial_not_loaded [OF a] CreateMaterial_new_fails [OF b]
    using assms c by simp
qed

text \<open>
  C2, as the claim states it, fails: \<open>SpawnBasicShape\<close> with a shape name that loads no
  mesh spawns an actor, then destroys it, and returns null. On the example host the two
  writes are the spawn and the destruction of actor 2, and the actors are as before.
\<close>

theorem SpawnBasicShape_rollback_counterexample:
  "result_of (SpawnBasicShape demo_outcomes ''Nope'' (FVector 0 0 0) (FRotator 0 0 0)
                (FVector 1 1 1) [] demo_host) = Some None
   \<and> map_option Effects
         (host_of (SpawnBasicShape demo_outcomes ''Nope'' (FVector 0 0 0) (FRotator 0 0 0)
                     (FVector 1 1 1) [] demo_host)) = Some [Eff_SpawnActor 2, Eff_Destroy 2]
   \<and> map_option Actors
         (host_of (SpawnBasicShape demo_outcomes ''Nope'' (FVector 0 0 0) (FRotator 0 0 0)
                     (FVector 1 1 1) [] demo_host)) = Some (Actors demo_host)"
proof -
  have w: "GEditor demo_host" "EditorWorld demo_host"
      "SpawnActor_result demo_outcomes = Some (''StaticMeshActor_1'', True)"
      "LoadObject_UStaticMesh demo_host (''/Engine/BasicShapes/'' @ ''Nope'' @ ''.'' @ ''Nope'') = None"
      "\<forall>(i, x) \<in> set (Actors demo_host). i \<noteq> NextActor demo_host"
    by (simp_all add: demo_host_def demo_outcomes_def LoadObject_UStaticMesh_def)
  have e: "Effects demo_host = []" "NextActor demo_host = 2" by (simp_all add: demo_host_def)
  from SpawnBasicShape_rolls_back
    [OF w, where l = "FVector 0 0 0" and ro = "FRotator 0 0 0" and sc = "FVector 1 1 1"
       and lb = "[]"] e
  show ?thesis by simp
qed

text \<open>
  C2, amended. When a guard of an operation fails, on a host whose next actor reference is
  unused, the operation aborts: unless the editor pointer is null, the call returns the
  failure sentinel, it has logged an error or a warning, and the writes it has made are
  those of \<open>writes_on_failure\<close>; when these are none, the host is as before the call
  but for the log. The writes made before a failure are of two kinds.

  Rolled back: \<open>SpawnBasicShape\<close>, when the mesh does not load, and \<open>SpawnStaticMeshActor\<close>,
  when the spawned actor has no mesh component, destroy the actor they have just spawned;
  the host is then as before the call but for the log, the record of the two writes, and
  the next actor reference.

  Kept: \<open>CreateMaterial\<close>, when the material object cannot be created in the package it has
  just created, leaves the package in the host; \<open>CreateGameModeWithPawn\<close>, when the
  blueprint it has just created has no generated class, leaves the blueprint asset in the
  host.
\<close>

theorem failed_guard_aborts:
  "((\<forall>(i, x) \<in> set (Actors s). i \<noteq> NextActor s) \<and> guard_fails h op s \<longrightarrow>
      (case exec h op s of
         NullDereference \<Rightarrow> \<not> GEditor s
       | Returns r s' \<Rightarrow>
           is_sentinel r
           \<and> (\<exists>new. LogTemp s' = LogTemp s @ new \<and> new \<noteq> [] \<and> fst (last new) \<noteq> Log)
           \<and> Effects s' = Effects s @ writes_on_failure h op s
           \<and> (writes_on_failure h op s = [] \<longrightarrow> s' = s\<lparr>LogTemp := LogTemp s'\<rparr>)))
   \<and> (GEditor s \<and> EditorWorld s \<and> SpawnActor_result h = Some (nm, hm)
        \<and> (\<forall>(i, x) \<in> set (Actors s). i \<noteq> NextActor s) \<longrightarrow>
        (LoadObject_UStaticMesh s (''/Engine/BasicShapes/'' @ shape @ ''.'' @ shape) = None \<longrightarrow>
           SpawnBasicShape h shape l ro sc lb s =
             Returns None
               (s\<lparr>NextActor := Suc (NextActor s),
                  LogTemp := LogTemp s @
                    [(Error, ''Failed to load static mesh at path: %s'',
                      [ArgS (''/Engine/BasicShapes/'' @ shape @ ''.'' @ shape)])],
                  Effects := Effects s
                    @ [Eff_SpawnActor (NextActor s), Eff_Destroy (NextActor s)]\<rparr>))
        \<and> (LoadObject_UStaticMesh s MeshPath \<noteq> None \<and> \<not> hm \<longrightarrow>
           SpawnStaticMeshActor h MeshPath l ro sc lb s =
             Returns None
               (s\<lparr>NextActor := Suc (NextActor s),
                  LogTemp := LogTemp s @
                    [(Error, ''No StaticMeshComponent found on spawned actor'', [])],
                  Effects := Effects s
                    @ [Eff_SpawnActor (NextActor s), Eff_Destroy (NextActor s)]\<rparr>)))
   \<and> (FindPackage s (''/Game/Materials'' @ ''/'' @ n) = None
        \<and> CreatePackage_ok h \<and> \<not> NewObject_ok h \<longrightarrow>
        CreateMaterial h n c s =
          (None,
           s\<lparr>Packages := (''/Game/Materials'' @ ''/'' @ n) # Packages s,
             LogTemp := LogTemp s
                @ [(Error, ''Failed to create material '%s'' @ [CHR 0x27], [ArgS n])],
             Effects := Effects s @ [Eff_CreatePackage (''/Game/Materials'' @ ''/'' @ n)]\<rparr>))
   \<and> (g \<noteq> [] \<and> p \<noteq> [] \<and> LoadObject_UBlueprint s g = None
        \<and> FindObject_UClass s (BaseClassToUse b) \<noteq> None
        \<and> IsChildOf s (BaseClassToUse b) ''GameModeBase''
        \<and> PawnGeneratedClass s p \<noteq> None
        \<and> CreateAsset_result h = BlueprintWithoutClass \<longrightarrow>
        CreateGameModeWithPawn h g p b s =
          (''{\"success\": false, \"error\": \"No generated class\"}'',
           s\<lparr>Assets := (GetLongPackagePath g @ ''/'' @ GetShortName g,
                         BlueprintAsset \<lparr>ParentClass = BaseClassToUse b, GeneratedClass = None\<rparr>)
                        # Assets s,
             LogTemp := LogTemp s @ [(Error, ''Generated class not found for %s'', [ArgS g])],
             Effects := Effects s @ [Eff_CreateAsset (GetShortName g) (GetLongPackagePath g)
                                       (BaseClassToUse b)]\<rparr>))"
proof (intro conjI impI)
  assume a: "(\<forall>(i, x) \<in> set (Actors s). i \<noteq> NextActor s) \<and> guard_fails h op s"
  from a have fresh: "\<forall>(i, x) \<in> set (Actors s). i \<noteq> NextActor s" by (rule conjunct1)
  from a have gf: "guard_fails h op s" by (rule conjunct2)
  show "case exec h op s of
         NullDereference \<Rightarrow> \<not> GEditor s
       | Returns r s' \<Rightarrow>
           is_sentinel r
           \<and> (\<exists>new. LogTemp s' = LogTemp s @ new \<and> new \<noteq> [] \<and> fst (last new) \<noteq> Log)
           \<and> Effects s' = Effects s @ writes_on_failure h op s
           \<and> (writes_on_failure h op s = [] \<longrightarrow> s' = s\<lparr>LogTemp := LogTemp s'\<rparr>)"
  proof (cases "exec h op s")
    case NullDereference
    from exec_crash [OF NullDereference fresh] gf have "\<not> GEditor s" by blast
    with NullDereference show ?thesis by simp
  next
    case (Returns r s')
    from exec_sentinel_iff [OF Returns fresh] gf have sen: "is_sentinel r" by simp
    from exec_sentinel_logged [OF Returns sen]
    have lg: "\<exists>new. LogTemp s' = LogTemp s @ new \<and> new \<noteq> [] \<and> fst (last new) \<noteq> Log"
      by (rule logs_failure_new)
    from exec_aborts [OF Returns fresh gf] sen lg Returns show ?thesis by simp
  qed
next
  assume a: "GEditor s \<and> EditorWorld s \<and> SpawnActor_result h = Some (nm, hm)
        \<and> (\<forall>(i, x) \<in> set (Actors s). i \<noteq> NextActor s)"
  assume b: "LoadObject_UStaticMesh s (''/Engine/BasicShapes/'' @ shape @ ''.'' @ shape) = None"
  from a have w: "GEditor s" "EditorWorld s" "SpawnActor_result h = Some (nm, hm)"
    and fresh: "\<forall>(i, x) \<in> set (Actors s). i \<noteq> NextActor s"
    by simp_all
  show "SpawnBasicShape h shape l ro sc lb s =
             Returns None
               (s\<lparr>NextActor := Suc (NextActor s),
                  LogTemp := LogTemp s @
                    [(Error, ''Failed to load static mesh at path: %s'',
                      [ArgS (''/Engine/BasicShapes/'' @ shape @ ''.'' @ shape)])],
                  Effects := Effects s
                    @ [Eff_SpawnActor (NextActor s), Eff_Destroy (NextActor s)]\<rparr>)"
    by (rule SpawnBasicShape_rolls_back [OF w b fresh])
next
  assume a: "GEditor s \<and> EditorWorld s \<and> SpawnActor_result h = Some (nm, hm)
        \<and> (\<forall>(i, x) \<in> set (Actors s). i \<noteq> NextActor s)"
  assume b: "LoadObject_UStaticMesh s MeshPath \<noteq> None \<and> \<not> hm"
  from a b have w: "GEditor s" "EditorWorld s" "SpawnActor_result h = Some (nm, False)"
    and fresh: "\<forall>(i, x) \<in> set (Actors s). i \<noteq> NextActor s"
    and m: "LoadObject_UStaticMesh s MeshPath \<noteq> None"
    by simp_all
  show "SpawnStaticMeshActor h MeshPath l ro sc lb s =
             Returns None
               (s\<lparr>NextActor := Suc (NextActor s),
                  LogTemp := LogTemp s @
                    [(Error, ''No StaticMeshComponent found on spawned actor'', [])],
                  Effects := Effects s
                    @ [Eff_SpawnActor (NextActor s), Eff_Destroy (NextActor s)]\<rparr>)"
    by (rule SpawnStaticMeshActor_rolls_back [OF m w fresh])
next
  assume a: "FindPackage s (''/Game/Materials'' @ ''/'' @ n) = None
        \<and> CreatePackage_ok h \<and> \<not> NewObject_ok h"
  then have f: "FindPackage s (''/Game/Materials'' @ ''/'' @ n) = None"
    and k: "CreatePackage_ok h" and o: "\<not> NewObject_ok h"
    by simp_all
  show "CreateMaterial h n c s =
          (None,
           s\<lparr>Packages := (''/Game/Materials'' @ ''/'' @ n) # Packages s,
             LogTemp := LogTemp s
                @ [(Error, ''Failed to create material '%s'' @ [CHR 0x27], [ArgS n])],
             Effects := Effects s @ [Eff_CreatePackage (''/Game/Materials'' @ ''/'' @ n)]\<rparr>)"
    by (rule CreateMaterial_keeps_package [OF f k o])
next
  assume a: "g \<noteq> [] \<and> p \<noteq> [] \<and> LoadObject_UBlueprint s g = None
        \<and> FindObject_UClass s (BaseClassToUse b) \<noteq> None
        \<and> IsChildOf s (BaseClassToUse b) ''GameModeBase''
        \<and> PawnGeneratedClass s p \<noteq> None
        \<and> CreateAsset_result h = BlueprintWithoutClass"
  then have g: "g \<noteq> []" "p \<noteq> []" "LoadObject_UBlueprint s g = None"
    and base: "FindObject_UClass s (BaseClassToUse b) \<noteq> None"
      "IsChildOf s (BaseClassToUse b) ''GameModeBase''"
    and nc: "CreateAsset_result h = BlueprintWithoutClass"
    by simp_all
  from a obtain pc where pawn: "PawnGeneratedClass s p = Some pc" by auto
  from CreateGameModeWithPawn_no_class_run [OF g base pawn nc]
  show "CreateGameModeWithPawn h g p b s =
          (''{\"success\": false, \"error\": \"No generated class\"}'',
           s\<lparr>Assets := (GetLongPackagePath g @ ''/'' @ GetShortName g,
                         BlueprintAsset \<lparr>ParentClass = BaseClassToUse b, GeneratedClass = None\<rparr>)
                        # Assets s,
             LogTemp := LogTemp s @ [(Error, ''Generated class not found for %s'', [ArgS g])],
             Effects := Effects s @ [Eff_CreateAsset (GetShortName g) (GetLongPackagePath g)
                                       (BaseClassToUse b)]\<rparr>)"
    by (simp add: json_error_def)
qed

theorem failed_guard_aborts_witness:
  "map fst (Actors demo_host) = [0, 1] \<and> NextActor demo_host = 2
   \<and> guard_fails demo_outcomes (Op_FindActorByName ''Moon'') demo_host
   \<and> exec demo_outcomes (Op_FindActorByName ''Moon'') demo_host =
       Returns (RetActor None)
         (demo_host\<lparr>LogTemp := [(Warning, ''Actor '%s' not found in the level'', [ArgS ''Moon''])]\<rparr>)
   \<and> is_sentinel (RetActor None)
   \<and> writes_on_failure demo_outcomes (Op_FindActorByName ''Moon'') demo_host = []
   \<and> GEditor demo_host \<and> EditorWorld demo_host
   \<and> SpawnActor_result (demo_outcomes\<lparr>SpawnActor_result := Some (''StaticMeshActor_1'', False)\<rparr>)
       = Some (''StaticMeshActor_1'', False)
   \<and> LoadObject_UStaticMesh demo_host (''/Engine/BasicShapes/'' @ ''Nope'' @ ''.'' @ ''Nope'') = None
   \<and> LoadObject_UStaticMesh demo_host ''/Engine/BasicShapes/Cube.Cube'' \<noteq> None
   \<and> SpawnBasicShape
         (demo_outcomes\<lparr>SpawnActor_result := Some (''StaticMeshActor_1'', False)\<rparr>)
         ''Nope'' (FVector 0 0 0) (FRotator 0 0 0) (FVector 1 1 1) ''Box2'' demo_host =
       Returns None
         (demo_host\<lparr>NextActor := 3,
            LogTemp := [(Error, ''Failed to load static mesh at path: %s'',
                         [ArgS ''/Engine/BasicShapes/Nope.Nope''])],
            Effects := [Eff_SpawnActor 2, Eff_Destroy 2]\<rparr>)
   \<and> SpawnStaticMeshActor
         (demo_outcomes\<lparr>SpawnActor_result := Some (''StaticMeshActor_1'', False)\<rparr>)
         ''/Engine/BasicShapes/Cube.Cube'' (FVector 0 0 0) (FRotator 0 0 0)
         (FVector 1 1 1) ''Box2'' demo_host =
       Returns None
         (demo_host\<lparr>NextActor := 3,
            LogTemp := [(Error, ''No StaticMeshComponent found on spawned actor'', [])],
            Effects := [Eff_SpawnActor 2, Eff_Destroy 2]\<rparr>)
   \<and> FindPackage demo_host (''/Game/Materials'' @ ''/'' @ ''Red'') = None
   \<and> CreatePackage_ok (demo_outcomes\<lparr>NewObject_ok := False\<rparr>)
   \<and> \<not> NewObject_ok (demo_outcomes\<lparr>NewObject_ok := False\<rparr>)
   \<and> CreateMaterial (demo_outcomes\<lparr>NewObject_ok := False\<rparr>) ''Red'' (FLinearColor 1 0 0 1)
         demo_host =
       (None,
        demo_host\<lparr>Packages := [''/Game/Materials/Red''],
           LogTemp := [(Error, ''Failed to create material '%s'' @ [CHR 0x27], [ArgS ''Red''])],
           Effects := [Eff_CreatePackage ''/Game/Materials/Red'']\<rparr>)
   \<and> CreateGameModeWithPawn (demo_outcomes\<lparr>CreateAsset_result := BlueprintWithoutClass\<rparr>)
         ''/Game/Modes/BP_GameMode'' ''/Game/BP_Pawn'' [] demo_host =
       (''{\"success\": false, \"error\": \"No generated class\"}'',
        demo_host\<lparr>Assets := (''/Game/Modes/BP_GameMode'',
                               BlueprintAsset \<lparr>ParentClass = ''GameModeBase'',
                                                GeneratedClass = None\<rparr>) # Assets demo_host,
           LogTemp := [(Error, ''Generated class not found for %s'',
                        [ArgS ''/Game/Modes/BP_GameMode''])],
           Effects := [Eff_CreateAsset ''BP_GameMode'' ''/Game/Modes'' ''GameModeBase'']\<rparr>)"
proof -
  let ?t = "UE_LOG Warning ''Actor '%s' not found in the level'' [ArgS ''Moon''] demo_host"
  let ?h = "demo_outcomes\<lparr>SpawnActor_result := Some (''StaticMeshActor_1'', False)\<rparr>"
  let ?h2 = "demo_outcomes\<lparr>NewObject_ok := False\<rparr>"
  let ?h3 = "demo_outcomes\<lparr>CreateAsset_result := BlueprintWithoutClass\<rparr>"
  have ids: "map fst (Actors demo_host) = [0, 1]" "NextActor demo_host = 2"
    by (simp_all add: demo_host_def)
  have fresh: "\<forall>(i, x) \<in> set (Actors demo_host). i \<noteq> NextActor demo_host"
    by (simp add: demo_host_def)
  have gf: "guard_fails demo_outcomes (Op_FindActorByName ''Moon'') demo_host"
    by (simp add: actor_lookup_fails_def found_actor_def FindObject_AActor_def demo_host_def
        cube_actor_def light_actor_def FString_eq_def ToLower_def)
  have run: "exec demo_outcomes (Op_FindActorByName ''Moon'') demo_host = Returns (RetActor None) ?t"
    by (simp add: FindActorByName_def demo_host_def cube_actor_def light_actor_def
        FindObject_AActor_def FString_eq_def ToLower_def)
  have t: "?t = demo_host\<lparr>LogTemp := [(Warning, ''Actor '%s' not found in the level'', [ArgS ''Moon''])]\<rparr>"
    by (simp add: UE_LOG_def demo_host_def)
  have w: "GEditor demo_host" "EditorWorld demo_host"
      "SpawnActor_result ?h = Some (''StaticMeshActor_1'', False)"
    by (simp_all add: demo_host_def)
  have no: "LoadObject_UStaticMesh demo_host (''/Engine/BasicShapes/'' @ ''Nope'' @ ''.'' @ ''Nope'') = None"
    by (simp add: LoadObject_UStaticMesh_def demo_host_def)
  have cube: "LoadObject_UStaticMesh demo_host ''/Engine/BasicShapes/Cube.Cube'' \<noteq> None"
    by (simp add: LoadObject_UStaticMesh_def demo_host_def)
  have e: "Effects demo_host = []" "LogTemp demo_host = []" "Packages demo_host = []"
    by (simp_all add: demo_host_def)
  have fp: "FindPackage demo_host (''/Game/Materials'' @ ''/'' @ ''Red'') = None"
    by (simp add: FindPackage_def demo_host_def)
  have ok: "CreatePackage_ok ?h2" "\<not> NewObject_ok ?h2"
    by (simp_all add: demo_outcomes_def)
  have gm: "''/Game/Modes/BP_GameMode'' \<noteq> []" "''/Game/BP_Pawn'' \<noteq> []"
      "LoadObject_UBlueprint demo_host ''/Game/Modes/BP_GameMode'' = None"
      "FindObject_UClass demo_host (BaseClassToUse []) \<noteq> None"
      "IsChildOf demo_host (BaseClassToUse []) ''GameModeBase''"
      "PawnGeneratedClass demo_host ''/Game/BP_Pawn'' \<noteq> None"
      "CreateAsset_result ?h3 = BlueprintWithoutClass"
    by (simp_all add: LoadObject_UBlueprint_def FindObject_UClass_def BaseClassToUse_def
        IsChildOf_def PawnGeneratedClass_def demo_host_def)
  have nm: "GetShortName ''/Game/Modes/BP_GameMode'' = ''BP_GameMode''"
      "GetLongPackagePath ''/Game/Modes/BP_GameMode'' = ''/Game/Modes''"
      "BaseClassToUse [] = ''GameModeBase''"
    by (simp_all add: GetShortName_def GetLongPackagePath_def BaseClassToUse_def)
  from failed_guard_aborts
    [where h = demo_outcomes and op = "Op_FindActorByName ''Moon''" and s = demo_host,
     THEN conjunct1, THEN mp, OF conjI [OF fresh gf]] run
  have abort: "is_sentinel (RetActor None)
      \<and> Effects ?t = Effects demo_host
           @ writes_on_failure demo_outcomes (Op_FindActorByName ''Moon'') demo_host"
    by simp
  from abort have sen: "is_sentinel (RetActor None)" by (rule conjunct1)
  from abort e have wr: "writes_on_failure demo_outcomes (Op_FindActorByName ''Moon'') demo_host = []"
    by (simp add: UE_LOG_def)
  from run t have run': "exec demo_outcomes (Op_FindActorByName ''Moon'') demo_host =
       Returns (RetActor None)
         (demo_host\<lparr>LogTemp := [(Warning, ''Actor '%s' not found in the level'', [ArgS ''Moon''])]\<rparr>)"
    by simp
  note inst = failed_guard_aborts
    [where h = ?h and s = demo_host and nm = "''StaticMeshActor_1''" and hm = False
       and shape = "''Nope''" and MeshPath = "''/Engine/BasicShapes/Cube.Cube''"
       and l = "FVector 0 0 0" and ro = "FRotator 0 0 0" and sc = "FVector 1 1 1"
       and lb = "''Box2''",
     THEN conjunct2, THEN conjunct1, THEN mp,
     OF conjI [OF w(1) conjI [OF w(2) conjI [OF w(3) fresh]]]]
  from inst [THEN conjunct1, THEN mp, OF no] e ids
  have basic: "SpawnBasicShape ?h ''Nope'' (FVector 0 0 0) (FRotator 0 0 0) (FVector 1 1 1)
                  ''Box2'' demo_host =
       Returns None
         (demo_host\<lparr>NextActor := 3,
            LogTemp := [(Error, ''Failed to load static mesh at path: %s'',
                         [ArgS ''/Engine/BasicShapes/Nope.Nope''])],
            Effects := [Eff_SpawnActor 2, Eff_Destroy 2]\<rparr>)"
    by simp
  from inst [THEN conjunct2, THEN mp, OF conjI [OF cube]] e ids
  have mesh: "SpawnStaticMeshActor ?h ''/Engine/BasicShapes/Cube.Cube'' (FVector 0 0 0)
                  (FRotator 0 0 0) (FVector 1 1 1) ''Box2'' demo_host =
       Returns None
         (demo_host\<lparr>NextActor := 3,
            LogTemp := [(Error, ''No StaticMeshComponent found on spawned actor'', [])],
            Effects := [Eff_SpawnActor 2, Eff_Destroy 2]\<rparr>)"
    by simp
  from failed_guard_aborts
    [where h = ?h2 and s = demo_host and n = "''Red''" and c = "FLinearColor 1 0 0 1",
     THEN conjunct2, THEN conjunct2, THEN conjunct1, THEN mp,
     OF conjI [OF fp conjI [OF ok]]] e
  have mat: "CreateMaterial ?h2 ''Red'' (FLinearColor 1 0 0 1) demo_host =
       (None,
        demo_host\<lparr>Packages := [''/Game/Materials/Red''],
           LogTemp := [(Error, ''Failed to create material '%s'' @ [CHR 0x27], [ArgS ''Red''])],
           Effects := [Eff_CreatePackage ''/Game/Materials/Red'']\<rparr>)"
    by simp
  from failed_guard_aborts
    [where h = ?h3 and s = demo_host and g = "''/Game/Modes/BP_GameMode''"
       and p = "''/Game/BP_Pawn''" and b = "[]",
     THEN conjunct2, THEN conjunct2, THEN conjunct2, THEN mp,
     OF conjI [OF gm(1) conjI [OF gm(2) conjI [OF gm(3) conjI [OF gm(4) conjI [OF gm(5)
          conjI [OF gm(6) gm(7)]]]]]]] e nm
  have mode: "CreateGameModeWithPawn ?h3 ''/Game/Modes/BP_GameMode'' ''/Game/BP_Pawn'' [] demo_host =
       (''{\"success\": false, \"error\": \"No generated class\"}'',
        demo_host\<lparr>Assets := (''/Game/Modes/BP_GameMode'',
                               BlueprintAsset \<lparr>ParentClass = ''GameModeBase'',
                                                GeneratedClass = None\<rparr>) # Assets demo_host,
           LogTemp := [(Error, ''Generated class not found for %s'',
                        [ArgS ''/Game/Modes/BP_GameMode''])],
           Effects := [Eff_CreateAsset ''BP_GameMode'' ''/Game/Modes'' ''GameModeBase'']\<rparr>)"
    by simp
  from ids gf run' sen wr w no cube basic mesh fp ok mat mode show ?thesis by (intro conjI)
qed

end
